(* ===== verification/Prelude.thy ===== *)
theory Prelude
  imports Complex_Main "HOL-Library.Word" "HOL-Library.Stream" "HOL-Library.Multiset"
begin

text \<open>
  Shared vocabulary of the development: the byte buffer behind an \<open>ImageData\<close>
  (a \<open>Uint8ClampedArray\<close>), the JavaScript number conversions the stages rely on
  (\<open>ToUint8Clamp\<close> on every store, truncating \<open>%\<close>, the 32-bit \<open>>>>\<close> and \<open><<\<close>),
  \<open>Math.random()\<close> as an explicit stream of draws, the RGBA pixel view of a flat
  buffer with its round trip, the \<open>for (i = 0; i < len; i += 4)\<close> loop, and the
  typed-array methods \<open>set\<close> and \<open>subarray\<close>.  JavaScript numbers are modelled as
  exact reals: floating-point rounding is not modelled.
\<close>

named_theorems buffer_len "length of a buffer after a pass over it"

type_synonym byte = "8 word"
type_synonym buffer = "byte list"

section \<open>JavaScript numbers stored into a Uint8ClampedArray\<close>

text \<open>
  A store \<open>data[i] = x\<close> into a \<open>Uint8ClampedArray\<close> applies \<open>ToUint8Clamp\<close>:
  values at or below 0 give 0, at or above 255 give 255, others are rounded to the
  nearest integer, ties to even.
\<close>

definition round_half_even :: "real \<Rightarrow> int" where
  "round_half_even x =
     (let f = \<lfloor>x\<rfloor>; d = x - of_int f
      in if d < 1/2 then f else if 1/2 < d then f + 1 else if even f then f else f + 1)"

definition to_u8 :: "real \<Rightarrow> byte" where
  "to_u8 x = (if x \<le> 0 then 0 else if 255 \<le> x then 255 else word_of_int (round_half_even x))"

definition bval :: "byte \<Rightarrow> real" where
  "bval b = real (unat b)"

text \<open>Truncating remainder, JavaScript's \<open>%\<close> on integers (divisor non-zero).\<close>

definition js_rem :: "int \<Rightarrow> int \<Rightarrow> int" where
  "js_rem a b = sgn a * (\<bar>a\<bar> mod \<bar>b\<bar>)"

text \<open>
  \<open>x >>> k\<close> converts \<open>x\<close> to an unsigned 32-bit integer and shifts right;
  \<open>x << k\<close> converts to a signed 32-bit integer, shifts left and reads the result
  as signed.
\<close>

definition ushr32 :: "int \<Rightarrow> nat \<Rightarrow> int" where
  "ushr32 x k = uint (drop_bit k (word_of_int x :: 32 word))"

definition shl32 :: "int \<Rightarrow> nat \<Rightarrow> int" where
  "shl32 x k = sint (push_bit k (word_of_int x :: 32 word))"

section \<open>Math.random() as a stream of draws\<close>

text \<open>
  Each call of \<open>Math.random()\<close> consumes the next draw of a stream.  A draw is a
  52-bit word read as a fraction of \<open>2^52\<close>, so every draw lies in \<open>[0, 1)\<close> as
  the engine guarantees; which stream the engine produces is left open: the
  theorems hold for every stream.
\<close>

type_synonym draw = "52 word"
type_synonym rng = "draw stream"

definition rnd :: "draw \<Rightarrow> real" where
  "rnd w = real (unat w) / 2 ^ 52"

definition randomInt :: "int \<Rightarrow> int \<Rightarrow> rng \<Rightarrow> int \<times> rng" where
  "randomInt lo hi s = (\<lfloor>rnd (shd s) * of_int (hi - lo + 1)\<rfloor> + lo, stl s)"

section \<open>The RGBA view of a flat buffer\<close>

record rgba =
  red :: byte
  green :: byte
  blue :: byte
  alpha :: byte

fun pixels :: "buffer \<Rightarrow> rgba list" where
  "pixels (r # g # b # a # rest) = \<lparr>red = r, green = g, blue = b, alpha = a\<rparr> # pixels rest"
| "pixels _ = []"

definition flat :: "rgba list \<Rightarrow> buffer" where
  "flat ps = concat (map (\<lambda>p. [red p, green p, blue p, alpha p]) ps)"

text \<open>The byte offsets \<open>0, 4, 8, \<dots>\<close> below \<open>len\<close>: the loop \<open>for (i = 0; i < len; i += 4)\<close>.\<close>

definition byte_offsets :: "nat \<Rightarrow> nat list" where
  "byte_offsets len = map (\<lambda>k. 4 * k) [0..<(len + 3) div 4]"

text \<open>Reading and writing the four bytes of the pixel at byte offset \<open>i\<close>.\<close>

definition px_get :: "buffer \<Rightarrow> nat \<Rightarrow> rgba" where
  "px_get d i = \<lparr>red = d ! i, green = d ! (i + 1), blue = d ! (i + 2), alpha = d ! (i + 3)\<rparr>"

definition px_put :: "nat \<Rightarrow> rgba \<Rightarrow> buffer \<Rightarrow> buffer" where
  "px_put i p d = d[i := red p, i + 1 := green p, i + 2 := blue p, i + 3 := alpha p]"

section \<open>Typed-array methods\<close>

datatype js_error = RangeError | IndexSizeError | Thrown string

text \<open>
  \<open>target.set(src, off)\<close> throws a \<open>RangeError\<close> when the source does not fit;
  otherwise it copies \<open>src\<close> to \<open>off\<close>.  When \<open>src\<close> is a view of the same buffer the
  engine copies the source first, so overlapping copies behave as a move.
  \<open>d.subarray(b, e)\<close> for \<open>0 \<le> b\<close> is the view of \<open>d[b .. min e len)\<close>.
\<close>

definition ta_set :: "buffer \<Rightarrow> buffer \<Rightarrow> nat \<Rightarrow> js_error + buffer" where
  "ta_set target src off =
     (if length target < off + length src then Inl RangeError
      else Inr (take off target @ src @ drop (off + length src) target))"

text \<open>
  \<open>data[i] = buffer[j]\<close>: a read outside the array gives \<open>undefined\<close>, which the
  clamped store turns into 0.
\<close>

definition ta_read :: "buffer \<Rightarrow> int \<Rightarrow> byte" where
  "ta_read d j = (if 0 \<le> j \<and> j < int (length d) then d ! nat j else 0)"

definition subarray :: "buffer \<Rightarrow> nat \<Rightarrow> nat \<Rightarrow> buffer" where
  "subarray d b e = take (e - b) (drop b d)"

text \<open>
  \<open>ctx.getImageData(0, 0, w, h)\<close> on a canvas the caller has sized to \<open>w\<close> by \<open>h\<close>:
  the HTML standard throws an \<open>IndexSizeError\<close> when \<open>w\<close> or \<open>h\<close> is zero;
  otherwise the result is a copy of the canvas's pixels.
\<close>

definition getImageData :: "nat \<Rightarrow> nat \<Rightarrow> buffer \<Rightarrow> js_error + buffer" where
  "getImageData w h canvas = (if w = 0 \<or> h = 0 then Inl IndexSizeError else Inr canvas)"

text \<open>A loop whose body may throw: the first exception ends it.\<close>

fun foldE :: "('a \<Rightarrow> 's \<Rightarrow> js_error + 's) \<Rightarrow> 'a list \<Rightarrow> 's \<Rightarrow> js_error + 's" where
  "foldE f [] s = Inr s"
| "foldE f (x # xs) s = (case f x s of Inl e \<Rightarrow> Inl e | Inr s' \<Rightarrow> foldE f xs s')"

section \<open>Numbers as strings\<close>

text \<open>
  \<open>Number.prototype.toString()\<close> of an integer-valued number: its decimal digits, with a
  minus sign when negative; \<open>String.prototype.padStart(n, c)\<close> with a one-character pad;
  and JavaScript's \<open>%\<close> on numbers, whose result has the sign of the dividend
  (\<open>x - y * trunc(x / y)\<close>).
\<close>

fun string_of_nat :: "nat \<Rightarrow> string" where
  "string_of_nat n =
     (if n < 10 then [char_of (48 + n)] else string_of_nat (n div 10) @ [char_of (48 + n mod 10)])"

declare string_of_nat.simps [simp del]

definition string_of_int :: "int \<Rightarrow> string" where
  "string_of_int i = (if i < 0 then ''-'' @ string_of_nat (nat (- i)) else string_of_nat (nat i))"

definition padStart :: "nat \<Rightarrow> char \<Rightarrow> string \<Rightarrow> string" where
  "padStart n c s = replicate (n - length s) c @ s"

definition js_fmod :: "real \<Rightarrow> real \<Rightarrow> real" where
  "js_fmod x y = x - y * of_int (if 0 \<le> x / y then \<lfloor>x / y\<rfloor> else \<lceil>x / y\<rceil>)"

section \<open>Lemmas\<close>

subsection \<open>Stores\<close>

lemma bval_nonneg [simp]: "0 \<le> bval b"
  by (simp add: bval_def del: of_nat_unat)

lemma bval_le_255 [simp]: "bval b \<le> 255"
proof -
  have "unat b < 2 ^ LENGTH(8)" by (rule unsigned_less)
  then show ?thesis by (simp add: bval_def del: of_nat_unat)
qed

lemma round_half_even_of_int [simp]: "round_half_even (of_int n) = n"
  by (simp add: round_half_even_def)

lemma to_u8_of_int:
  assumes "0 \<le> n" "n \<le> 255"
  shows "to_u8 (of_int n) = word_of_int n"
proof (cases "n = 0 \<or> n = 255")
  case True
  then show ?thesis by (auto simp: to_u8_def)
next
  case False
  with assms have "0 < n" "n < 255" by auto
  then show ?thesis by (simp add: to_u8_def)
qed

lemma bval_uint: "bval b = of_int (uint b)"
  by (simp add: bval_def)

lemma to_u8_bval [simp]: "to_u8 (bval b) = b"
proof -
  have "0 \<le> uint b" "uint b \<le> 255"
    using uint_lt2p [of b] by simp_all
  then have "to_u8 (of_int (uint b)) = word_of_int (uint b)" by (rule to_u8_of_int)
  then show ?thesis by (simp only: bval_uint word_of_int_uint)
qed

lemma to_u8_0 [simp]: "to_u8 0 = 0" and to_u8_255 [simp]: "to_u8 255 = 255"
  by (simp_all add: to_u8_def)

lemma bval_0 [simp]: "bval 0 = 0" and bval_255 [simp]: "bval 255 = 255"
  by (simp_all add: bval_def)

text \<open>\<open>ToUint8Clamp\<close> is monotone: a larger number never stores a smaller byte.\<close>

lemma round_half_even_bounds: "x - 1/2 \<le> of_int (round_half_even x) \<and> of_int (round_half_even x) \<le> x + 1/2"
proof -
  have "of_int \<lfloor>x\<rfloor> \<le> x" "x < of_int \<lfloor>x\<rfloor> + 1" by linarith+
  then show ?thesis unfolding round_half_even_def Let_def by (auto; linarith)
qed

lemma byte_le_255 [simp]: "(w :: byte) \<le> 255"
proof -
  have "uint w < 2 ^ LENGTH(8)" by (rule uint_bounded)
  then show ?thesis by (simp add: word_le_def)
qed

lemma round_half_even_mono:
  assumes "x \<le> y" shows "round_half_even x \<le> round_half_even y"
proof (cases "x = y")
  case False
  with assms have "x < y" by simp
  then have "real_of_int (round_half_even x) < of_int (round_half_even y) + 1"
    using round_half_even_bounds [of x] round_half_even_bounds [of y] by linarith
  then show ?thesis by linarith
qed simp

lemma word_of_int_mono_8:
  assumes "0 \<le> a" "a \<le> b" "b < 256" shows "(word_of_int a :: byte) \<le> word_of_int b"
  using assms by (simp add: word_le_def uint_word_of_int take_bit_int_eq_self)

lemma to_u8_mono: "x \<le> y \<Longrightarrow> to_u8 x \<le> to_u8 y"
proof -
  assume xy: "x \<le> y"
  consider "x \<le> 0" | "0 < x" "255 \<le> y" | "0 < x" "y < 255" by linarith
  then show ?thesis
  proof cases
    case 3
    then have "0 \<le> round_half_even x" "round_half_even y < 256"
      using round_half_even_bounds [of x] round_half_even_bounds [of y] by linarith+
    then show ?thesis using 3 xy round_half_even_mono [OF xy]
      by (simp add: to_u8_def word_of_int_mono_8)
  qed (auto simp: to_u8_def)
qed

lemma js_rem_nonneg: "0 \<le> a \<Longrightarrow> 0 < b \<Longrightarrow> js_rem a b = a mod b"
  by (cases "a = 0") (simp_all add: js_rem_def)

subsection \<open>32-bit index arithmetic\<close>

lemma ushr32_2: "0 \<le> x \<Longrightarrow> x < 2 ^ 32 \<Longrightarrow> ushr32 x 2 = x div 4"
proof -
  assume a: "0 \<le> x" "x < 2 ^ 32"
  have "uint (word_of_int x :: 32 word) = x"
    using a by (simp add: uint_word_of_int)
  then show ?thesis
    by (simp add: ushr32_def drop_bit_eq_div uint_div_distrib)
qed
lemma shl32_2: "- (2 ^ 29) \<le> x \<Longrightarrow> x < 2 ^ 29 \<Longrightarrow> shl32 x 2 = 4 * x"
proof -
  assume a: "- (2 ^ 29) \<le> x" "x < 2 ^ 29"
  have p: "push_bit 2 (word_of_int x :: 32 word) = word_of_int (4 * x)"
    by (simp add: push_bit_eq_mult)
  have s: "sint (word_of_int (4 * x) :: 32 word) = signed_take_bit 31 (4 * x)"
    by (simp only: sint_sbintrunc') simp
  have "signed_take_bit 31 (4 * x) = 4 * x"
    using a by (simp add: signed_take_bit_int_eq_self_iff)
  with p s show ?thesis by (simp only: shl32_def)
qed
subsection \<open>Random draws\<close>

lemma rnd_nonneg [simp]: "0 \<le> rnd w"
  by (simp add: rnd_def del: of_nat_unat)

lemma rnd_less_1 [simp]: "rnd w < 1"
proof -
  have "unat w < 2 ^ LENGTH(52)" by (rule unsigned_less)
  then have "real (unat w) < 2 ^ 52" by (simp del: of_nat_unat)
  then show ?thesis by (simp add: rnd_def del: of_nat_unat)
qed

lemma randomInt_range:
  assumes "lo \<le> hi"
  shows "lo \<le> fst (randomInt lo hi s) \<and> fst (randomInt lo hi s) \<le> hi"
proof -
  let ?u = "rnd (shd s)" and ?n = "of_int (hi - lo + 1) :: real"
  have n: "0 < ?n" using assms by simp
  have "0 \<le> ?u * ?n" using n by simp
  then have lo: "0 \<le> \<lfloor>?u * ?n\<rfloor>" by simp
  have "?u * ?n < ?n" using n by simp
  then have "\<lfloor>?u * ?n\<rfloor> < hi - lo + 1"
    by (metis floor_less_iff)
  with lo show ?thesis by (simp add: randomInt_def)
qed

text \<open>With an empty range (\<open>hi < lo\<close>) the formula still returns a value, in \<open>[hi + 1, lo]\<close>.\<close>

lemma randomInt_empty_range:
  assumes "hi < lo"
  shows "hi + 1 \<le> fst (randomInt lo hi s) \<and> fst (randomInt lo hi s) \<le> lo"
proof -
  let ?u = "rnd (shd s)" and ?c = "of_int (hi - lo + 1) :: real"
  have c: "?c \<le> 0" using assms by simp
  have u: "0 \<le> 1 - ?u" using rnd_less_1 [of "shd s"] by linarith
  have "(1 - ?u) * ?c \<le> 0" using u c by (rule mult_nonneg_nonpos)
  then have "?c \<le> ?u * ?c" by (simp add: left_diff_distrib)
  then have lo: "hi - lo + 1 \<le> \<lfloor>?u * ?c\<rfloor>" by (simp add: le_floor_iff)
  have "?u * ?c \<le> 0" using c by (simp add: mult_nonneg_nonpos)
  then have "\<lfloor>?u * ?c\<rfloor> \<le> 0" by simp
  with lo show ?thesis by (simp add: randomInt_def)
qed

lemma randomInt_next [simp]: "snd (randomInt lo hi s) = stl s"
  by (simp add: randomInt_def)

subsection \<open>Loops that may throw\<close>

text \<open>
  A body that never throws and keeps an invariant gives a loop that never throws
  and keeps it.
\<close>

lemma foldE_invariant:
  assumes "\<And>x s. x \<in> set xs \<Longrightarrow> P s \<Longrightarrow> \<exists>s'. f x s = Inr s' \<and> P s'"
    and "P s"
  shows "\<exists>s'. foldE f xs s = Inr s' \<and> P s'"
  using assms
proof (induction xs arbitrary: s)
  case Nil
  then show ?case by simp
next
  case (Cons x xs)
  then obtain s' where "f x s = Inr s'" "P s'" by (meson list.set_intros(1))
  with Cons.IH [of s'] Cons.prems(1) show ?case by simp
qed

lemma ta_set_ok:
  "off + length src \<le> length target \<Longrightarrow>
   ta_set target src off = Inr (take off target @ src @ drop (off + length src) target)"
  by (simp add: ta_set_def)

lemma length_subarray: "length (subarray d b e) = min (e - b) (length d - b)"
  by (simp add: subarray_def)

subsection \<open>Pixels and the flat buffer\<close>

lemma length_fold:
  "(\<And>i d. length (f i d) = length d) \<Longrightarrow> length (fold f xs d) = length d"
  by (induction xs arbitrary: d) simp_all

lemma flat_Nil [simp]: "flat [] = []"
  and flat_Cons [simp]: "flat (p # ps) = red p # green p # blue p # alpha p # flat ps"
  by (simp_all add: flat_def)

lemma flat_append [simp]: "flat (ps @ qs) = flat ps @ flat qs"
  by (simp add: flat_def)

lemma length_flat [simp]: "length (flat ps) = 4 * length ps"
  by (induction ps) simp_all

lemma pixels_flat [simp]: "pixels (flat ps) = ps"
  by (induction ps) simp_all

lemma length_pixels [simp]: "length (pixels d) = length d div 4"
  by (induction d rule: pixels.induct) simp_all

lemma flat_pixels: "4 dvd length d \<Longrightarrow> flat (pixels d) = d"
proof (induction d rule: pixels.induct)
  case (1 r g b a rest)
  from "1.prems" have "4 dvd length rest" by simp presburger
  with "1.IH" show ?case by simp
qed (simp_all, presburger+)

lemma byte_offsets_flat: "byte_offsets (4 * n) = map (\<lambda>k. 4 * k) [0..<n]"
  by (simp add: byte_offsets_def)

lemma length_px_put [simp]: "length (px_put i p d) = length d"
  by (simp add: px_put_def)

lemma flat_split:
  "k < length ps \<Longrightarrow>
   flat ps = flat (take k ps) @ [red (ps ! k), green (ps ! k), blue (ps ! k), alpha (ps ! k)]
             @ flat (drop (Suc k) ps)"
  by (subst id_take_nth_drop [of k ps]) simp_all

lemma length_flat_take: "k < length ps \<Longrightarrow> length (flat (take k ps)) = 4 * k"
  by simp

lemma px_get_flat: "k < length ps \<Longrightarrow> px_get (flat ps) (4 * k) = ps ! k"
  by (subst flat_split [of k ps]) (simp_all add: px_get_def nth_append length_flat_take)

lemma px_put_flat: "k < length ps \<Longrightarrow> px_put (4 * k) p (flat ps) = flat (ps[k := p])"
proof -
  assume k: "k < length ps"
  have "ps[k := p] = take k ps @ p # drop (Suc k) ps"
    using k by (simp add: upd_conv_take_nth_drop)
  then show ?thesis
    using k by (subst flat_split [of k ps]) (simp_all add: px_put_def list_update_append length_flat_take)
qed

lemma flat_nth_px:
  assumes "k < length ps"
  shows "flat ps ! (4 * k) = red (ps ! k)" and "flat ps ! (4 * k + 1) = green (ps ! k)"
    and "flat ps ! (4 * k + 2) = blue (ps ! k)" and "flat ps ! (4 * k + 3) = alpha (ps ! k)"
proof -
  have "red (px_get (flat ps) (4 * k)) = red (ps ! k)" "green (px_get (flat ps) (4 * k)) = green (ps ! k)"
      "blue (px_get (flat ps) (4 * k)) = blue (ps ! k)" "alpha (px_get (flat ps) (4 * k)) = alpha (ps ! k)"
    using px_get_flat [OF assms] by simp_all
  then show "flat ps ! (4 * k) = red (ps ! k)" "flat ps ! (4 * k + 1) = green (ps ! k)"
      "flat ps ! (4 * k + 2) = blue (ps ! k)" "flat ps ! (4 * k + 3) = alpha (ps ! k)"
    by (simp_all add: px_get_def)
qed

lemma ta_read_flat_px:
  assumes "k < length ps"
  shows "ta_read (flat ps) (4 * int k) = red (ps ! k)"
    and "ta_read (flat ps) (4 * int k + 1) = green (ps ! k)"
    and "ta_read (flat ps) (4 * int k + 2) = blue (ps ! k)"
    and "ta_read (flat ps) (4 * int k + 3) = alpha (ps ! k)"
proof -
  have "nat (4 * int k + 1) = 4 * k + 1" "nat (4 * int k + 2) = 4 * k + 2"
      "nat (4 * int k + 3) = 4 * k + 3" "nat (4 * int k) = 4 * k"
    by simp_all
  then show "ta_read (flat ps) (4 * int k) = red (ps ! k)"
    and "ta_read (flat ps) (4 * int k + 1) = green (ps ! k)"
    and "ta_read (flat ps) (4 * int k + 2) = blue (ps ! k)"
    and "ta_read (flat ps) (4 * int k + 3) = alpha (ps ! k)"
    using assms flat_nth_px [OF assms] by (simp_all add: ta_read_def)
qed

lemmas ta_read_flat = ta_read_flat_px(1)

lemmas flat_nth_px_Suc = flat_nth_px [simplified]

lemma pixel_coords:
  assumes "0 < w" "k < 2 ^ 30"
  shows "ushr32 (int (4 * k)) 2 = int k" and "js_rem (int k) (int w) = int (k mod w)"
    and "(int k - int (k mod w)) div int w = int (k div w)"
proof -
  have "int (4 * k) < 2 ^ 32" using assms(2) by simp
  then show "ushr32 (int (4 * k)) 2 = int k" by (simp add: ushr32_2)
  show "js_rem (int k) (int w) = int (k mod w)"
    using assms(1) by (simp add: js_rem_nonneg zmod_int)
  have "int k - int (k mod w) = int (k div w) * int w"
    by (metis add_diff_cancel_right' div_mult_mod_eq of_nat_add of_nat_mult)
  then show "(int k - int (k mod w)) div int w = int (k div w)" using assms(1) by simp
qed

lemma px_put_get: "i + 3 < length d \<Longrightarrow> px_put i (px_get d i) d = d"
  by (simp add: px_put_def px_get_def)

lemma four_Suc: "4 * Suc n = Suc (Suc (Suc (Suc (4 * n))))"
  by simp

lemma take_flat: "take (4 * n) (flat ps) = flat (take n ps)"
proof (induction n arbitrary: ps)
  case (Suc n)
  then show ?case by (cases ps) (simp_all only: four_Suc, simp_all)
qed simp

lemma drop_flat: "drop (4 * n) (flat ps) = flat (drop n ps)"
proof (induction n arbitrary: ps)
  case (Suc n)
  then show ?case by (cases ps) (simp_all only: four_Suc, simp_all)
qed simp

lemma map2_const_upt [simp]: "map2 (\<lambda>_. f) [0..<length xs] xs = map f xs"
proof -
  have "map2 (\<lambda>_. f) [0..<length xs] xs = map (f \<circ> snd) (zip [0..<length xs] xs)"
    by (simp add: case_prod_unfold comp_def)
  also have "\<dots> = map f (map snd (zip [0..<length xs] xs))"
    by (simp only: map_map)
  also have "\<dots> = map f xs"
    by (simp add: map_snd_zip)
  finally show ?thesis .
qed

lemma map2_upt_nth: "map2 f [0..<length xs] xs = map (\<lambda>k. f k (xs ! k)) [0..<length xs]"
  by (rule nth_equalityI) simp_all

lemma px_put_rgb:
  assumes "alpha p = d ! (i + 3)"
  shows "px_put i p d = d[i := red p, i + 1 := green p, i + 2 := blue p]"
proof -
  let ?e = "d[i := red p, i + 1 := green p, i + 2 := blue p]"
  have "?e ! (i + 3) = d ! (i + 3)" by simp
  then have "?e[i + 3 := d ! (i + 3)] = ?e" by (metis list_update_id)
  with assms show ?thesis by (simp add: px_put_def)
qed
lemma px_put_red:
  assumes "green p = d ! (i + 1)" "blue p = d ! (i + 2)" "alpha p = d ! (i + 3)"
  shows "px_put i p d = d[i := red p]"
proof -
  let ?e = "d[i := red p]"
  have "?e ! (i + 1) = d ! (i + 1)" "?e ! (i + 2) = d ! (i + 2)" "?e ! (i + 3) = d ! (i + 3)"
    by simp_all
  then have "?e[i + 1 := d ! (i + 1), i + 2 := d ! (i + 2), i + 3 := d ! (i + 3)] = ?e"
    by (metis list_update_id)
  with assms show ?thesis by (simp add: px_put_def)
qed
text \<open>
  A loop over the byte offsets whose body at pixel \<open>k\<close> writes \<open>g k\<close> of that pixel
  and reads nothing else of the buffer is the map of \<open>g\<close> over the pixels.
\<close>

lemma fold_pixel_prefix:
  assumes body: "\<And>k d'. length d' = 4 * length ps \<Longrightarrow> k < length ps \<Longrightarrow>
                   f (4 * k) d' = px_put (4 * k) (g k (px_get d' (4 * k))) d'"
    and "m \<le> length ps"
  shows "fold f (map (\<lambda>k. 4 * k) [0..<m]) (flat ps)
           = flat (map2 g [0..<m] (take m ps) @ drop m ps)"
  using assms(2)
proof (induction m)
  case 0
  then show ?case by simp
next
  case (Suc m)
  let ?Q = "map2 g [0..<m] (take m ps)"
  let ?S = "flat (?Q @ drop m ps)"
  have m: "m < length ps" using Suc.prems by simp
  have lenQ: "length ?Q = m" using m by simp
  have lenS: "length ?S = 4 * length ps" using m by simp
  have "px_get ?S (4 * m) = (?Q @ drop m ps) ! m"
    by (rule px_get_flat) (use m in simp)
  then have get: "px_get ?S (4 * m) = ps ! m"
    using m lenQ by (simp add: nth_append)
  have upd: "(?Q @ drop m ps)[m := g m (ps ! m)] = (?Q @ [g m (ps ! m)]) @ drop (Suc m) ps"
    using m lenQ by (simp add: list_update_append Cons_nth_drop_Suc [symmetric])
  have app: "?Q @ [g m (ps ! m)] = map2 g [0..<Suc m] (take (Suc m) ps)"
    using m by (simp add: take_Suc_conv_app_nth)
  have "fold f (map (\<lambda>k. 4 * k) [0..<Suc m]) (flat ps) = f (4 * m) ?S"
    using Suc.IH Suc.prems by simp
  also have "\<dots> = px_put (4 * m) (g m (ps ! m)) ?S"
    using body [OF lenS m] get by simp
  also have "\<dots> = flat ((?Q @ drop m ps)[m := g m (ps ! m)])"
    by (rule px_put_flat) (use m in simp)
  also have "\<dots> = flat (map2 g [0..<Suc m] (take (Suc m) ps) @ drop (Suc m) ps)"
    by (simp only: upd app)
  finally show ?case .
qed

lemma fold_pixel_map:
  assumes "\<And>k d'. length d' = 4 * length ps \<Longrightarrow> k < length ps \<Longrightarrow>
             f (4 * k) d' = px_put (4 * k) (g k (px_get d' (4 * k))) d'"
  shows "fold f (byte_offsets (4 * length ps)) (flat ps) = flat (map2 g [0..<length ps] ps)"
  using fold_pixel_prefix [OF assms, where m = "length ps"] by (simp add: byte_offsets_flat)

lemma fold_fst:
  assumes "\<And>x st. x \<in> set xs \<Longrightarrow> fst (f x st) = g x (fst st)"
  shows "fst (fold f xs st) = fold g xs (fst st)"
  using assms by (induction xs arbitrary: st) simp_all

lemma length_fold_fst:
  "(\<And>x st. length (fst (f x st)) = length (fst st)) \<Longrightarrow> length (fst (fold f xs st)) = length (fst st)"
  by (induction xs arbitrary: st) simp_all

lemma upt_split_at: "r < h \<Longrightarrow> [0..<h] = [0..<r] @ r # [Suc r..<h]"
  using upt_add_eq_append [of 0 r "h - r"] upt_conv_Cons [of r h] by simp

lemma fold_nth_keep:
  assumes "\<And>x d. x \<in> set xs \<Longrightarrow> f x d ! j = d ! j"
  shows "fold f xs d ! j = d ! j"
  using assms by (induction xs arbitrary: d) simp_all

text \<open>
  A pixel loop over a pair state (buffer and random stream) whose body replaces the
  pixel at \<open>4 * k\<close> by some pixel related to the old one: the result is a pixel list
  related pointwise to the input.
\<close>

lemma fold_pixel_rel_prefix:
  assumes body: "\<And>k d' s'. length d' = 4 * length ps \<Longrightarrow> k < length ps \<Longrightarrow>
                   \<exists>p. fst (f (4 * k) (d', s')) = px_put (4 * k) p d' \<and> R k (px_get d' (4 * k)) p"
    and "m \<le> length ps"
  shows "\<exists>qs. fst (fold f (map (\<lambda>k. 4 * k) [0..<m]) (flat ps, s)) = flat (qs @ drop m ps)
              \<and> length qs = m \<and> (\<forall>k < m. R k (ps ! k) (qs ! k))"
  using assms(2)
proof (induction m)
  case 0
  then show ?case by simp
next
  case (Suc m)
  have m: "m < length ps" using Suc.prems by simp
  obtain Q where Q: "fst (fold f (map (\<lambda>k. 4 * k) [0..<m]) (flat ps, s)) = flat (Q @ drop m ps)"
    and lenQ: "length Q = m" and RQ: "\<forall>k < m. R k (ps ! k) (Q ! k)"
    using Suc.IH Suc.prems by auto
  let ?st = "fold f (map (\<lambda>k. 4 * k) [0..<m]) (flat ps, s)"
  let ?S = "flat (Q @ drop m ps)"
  have lenS: "length ?S = 4 * length ps" using m lenQ by simp
  have get: "px_get ?S (4 * m) = ps ! m"
    using px_get_flat [of m "Q @ drop m ps"] m lenQ by (simp add: nth_append)
  obtain p where p: "fst (f (4 * m) (?S, snd ?st)) = px_put (4 * m) p ?S" and Rp: "R m (ps ! m) p"
    using body [OF lenS m, of "snd ?st"] get by auto
  have st: "?st = (?S, snd ?st)" using Q by (metis prod.collapse)
  have "px_put (4 * m) p ?S = flat ((Q @ drop m ps)[m := p])"
    by (rule px_put_flat) (use m lenQ in simp)
  also have "(Q @ drop m ps)[m := p] = (Q @ [p]) @ drop (Suc m) ps"
    using m lenQ by (simp add: list_update_append Cons_nth_drop_Suc [symmetric])
  finally have put: "px_put (4 * m) p ?S = flat ((Q @ [p]) @ drop (Suc m) ps)" .
  have "fold f (map (\<lambda>k. 4 * k) [0..<Suc m]) (flat ps, s) = f (4 * m) ?st" by simp
  also have "\<dots> = f (4 * m) (?S, snd ?st)" by (subst st) (rule refl)
  finally have "fst (fold f (map (\<lambda>k. 4 * k) [0..<Suc m]) (flat ps, s)) = flat ((Q @ [p]) @ drop (Suc m) ps)"
    using p put by simp
  moreover have "\<forall>k < Suc m. R k (ps ! k) ((Q @ [p]) ! k)"
    using RQ Rp lenQ by (auto simp: nth_append less_Suc_eq)
  ultimately show ?case using lenQ by (intro exI [of _ "Q @ [p]"]) simp
qed

lemma fold_pixel_rel:
  assumes "\<And>k d' s'. length d' = 4 * length ps \<Longrightarrow> k < length ps \<Longrightarrow>
             \<exists>p. fst (f (4 * k) (d', s')) = px_put (4 * k) p d' \<and> R k (px_get d' (4 * k)) p"
  shows "\<exists>qs. fst (fold f (byte_offsets (4 * length ps)) (flat ps, s)) = flat qs
              \<and> length qs = length ps \<and> (\<forall>k < length ps. R k (ps ! k) (qs ! k))"
proof -
  have "\<exists>qs. fst (fold f (map (\<lambda>k. 4 * k) [0..<length ps]) (flat ps, s)) = flat (qs @ drop (length ps) ps)
              \<and> length qs = length ps \<and> (\<forall>k < length ps. R k (ps ! k) (qs ! k))"
    by (rule fold_pixel_rel_prefix [OF assms]) simp_all
  then show ?thesis by (simp add: byte_offsets_flat)
qed

lemma pixels_append_flat [simp]: "pixels (flat ps @ d) = ps @ pixels d"
  by (induction ps) simp_all

subsection \<open>Numbers as strings\<close>

lemma string_of_int_nonneg: "0 \<le> i \<Longrightarrow> string_of_int i = string_of_nat (nat i)"
  by (simp add: string_of_int_def)

end
