(* ===== verification/Params.thy ===== *)
theory Params
  imports Prelude
begin

text \<open>
  The parameter records and enumerations of \<open>types.ts\<close> (kept inside
  \<open>src/utils/glitchAlgorithms.ts\<close>, lines 299--406).  Every TypeScript \<open>number\<close> is a
  real; \<open>rgbShift\<close> is an integer because the code uses it as a pixel offset (its
  slider has step 1).  Field names carry a prefix naming their record, since record
  fields are global constants in HOL and several records share field names.
  String-typed colours stay strings; string-literal unions become datatypes.
\<close>

record global_params =
  gl_brightness :: real
  gl_blur :: real
  gl_colormatrix :: real
  gl_vibration :: real
  gl_saturation :: real
  gl_scaleX :: real
  gl_scaleY :: real
  gl_threshold :: real

record glitch_params =
  gt_amount :: real
  gt_seed :: real
  gt_iterations :: real
  gt_quality :: real
  gt_rgbShift :: int
  gt_blockShift :: real
  gt_scanlines :: real
  gt_pixelSort :: real

record ascii_params =
  as_scale :: real
  as_contrast :: real
  as_colorMode :: bool
  as_inverted :: bool
  as_chars :: string
  as_backgroundColor :: string
  as_textColor :: string

datatype halftone_shape = Circle | Line | Diamond

record halftone_params =
  ht_radius :: real
  ht_angle :: real
  ht_contrast :: real
  ht_shape :: halftone_shape
  ht_colorMode :: bool
  ht_backgroundColor :: string
  ht_color :: string

datatype blend_mode = Displacement | Difference | HardMix | Interlace

record blend_params =
  bl_mode :: blend_mode
  bl_mix :: real
  bl_threshold :: real
  bl_scale :: real

datatype font = Helvetica | ComicSansMS | Arial

record text_params =
  tx_content :: string
  tx_font :: font
  tx_size :: real
  tx_x :: real
  tx_y :: real
  tx_color :: string
  tx_isBold :: bool

record chroma_params =
  ck_enabled :: bool
  ck_keyColor :: string
  ck_similarity :: real
  ck_smoothness :: real
  ck_spill :: real

datatype tab = MANUAL | TEXT | BLEND | ASCII | HALFTONE | AI

text \<open>\<open>ActiveLayers\<close>: one flag per optional layer, indexed by its tab.\<close>

record active_layers =
  al_manual :: bool
  al_text :: bool
  al_blend :: bool
  al_ascii :: bool
  al_halftone :: bool

datatype post_type = PostImage | PostVideo

record user =
  username :: string
  joinedAt :: string
  avatar :: "string option"

record post =
  post_id :: string
  post_username :: string
  post_image :: string
  post_type :: post_type
  caption :: string
  timestamp :: int
  likes :: nat

datatype app_mode = LANDING | IMAGE | CAMERA | AUTH | PROFILE

end
