(* ===== verification/Threshold.thy ===== *)
theory Threshold
  imports Prelude
begin

text \<open>
  The silhouette pass \<open>applyThreshold\<close> (\<open>src/utils/glitchAlgorithms.ts\<close>, lines
  9--28), run by \<open>renderCanvas\<close> right after the base frame is drawn when
  \<open>globalParams.threshold > 0\<close>.  The loop is modelled as written (a fold over the
  byte offsets \<open>0, 4, 8, \<dots>\<close>, each step reading three channels and storing
  \<open>val\<close> through \<open>ToUint8Clamp\<close>); \<open>threshold_pixel\<close> is the per-pixel reference,
  and \<open>applyThreshold_pixels\<close> shows that the loop is its map over the pixels.
\<close>

definition threshold_body :: "real \<Rightarrow> nat \<Rightarrow> buffer \<Rightarrow> buffer" where
  "threshold_body threshold i data =
     (let r = bval (data ! i); g = bval (data ! (i + 1)); b = bval (data ! (i + 2));
          brightness = (r + g + b) / 3;
          val = (if threshold \<le> brightness then 255 else 0)
      in data[i := to_u8 val, i + 1 := to_u8 val, i + 2 := to_u8 val])"

definition applyThreshold :: "buffer \<Rightarrow> real \<Rightarrow> buffer" where
  "applyThreshold data threshold =
     (if threshold \<le> 0 then data
      else fold (threshold_body threshold) (byte_offsets (length data)) data)"

definition threshold_pixel :: "real \<Rightarrow> rgba \<Rightarrow> rgba" where
  "threshold_pixel threshold p =
     (let v = (if threshold \<le> (bval (red p) + bval (green p) + bval (blue p)) / 3 then 255 else 0)
      in p\<lparr>red := v, green := v, blue := v\<rparr>)"

lemma threshold_body_local:
  "k < length ps \<Longrightarrow> length d = 4 * length ps \<Longrightarrow>
   threshold_body t (4 * k) d = px_put (4 * k) (threshold_pixel t (px_get d (4 * k))) d"
  by (simp add: threshold_body_def threshold_pixel_def px_put_rgb px_get_def Let_def)

lemma applyThreshold_pixels:
  assumes "0 < t"
  shows "applyThreshold (flat ps) t = flat (map (threshold_pixel t) ps)"
proof -
  have "fold (threshold_body t) (byte_offsets (4 * length ps)) (flat ps)
          = flat (map2 (\<lambda>_. threshold_pixel t) [0..<length ps] ps)"
    by (rule fold_pixel_map) (rule threshold_body_local)
  then show ?thesis using assms by (simp add: applyThreshold_def)
qed

lemma length_applyThreshold [buffer_len]: "length (applyThreshold d t) = length d"
  by (simp add: applyThreshold_def threshold_body_def length_fold Let_def)

lemma applyThreshold_eq:
  "0 < t \<Longrightarrow> 4 dvd length d \<Longrightarrow> applyThreshold d t = flat (map (threshold_pixel t) (pixels d))"
  using applyThreshold_pixels [of t "pixels d"] by (simp add: flat_pixels)

lemma threshold_pixel_rgb:
  "green (threshold_pixel t p) = red (threshold_pixel t p) \<and>
   blue (threshold_pixel t p) = red (threshold_pixel t p) \<and>
   red (threshold_pixel t p) \<in> {0, 255} \<and> alpha (threshold_pixel t p) = alpha p"
  by (simp add: threshold_pixel_def Let_def)

lemma threshold_pixel_idem: "0 < t \<Longrightarrow> threshold_pixel t (threshold_pixel t p) = threshold_pixel t p"
proof -
  have "bval (red p) + bval (green p) + bval (blue p) \<le> 765"
    using bval_le_255 [of "red p"] bval_le_255 [of "green p"] bval_le_255 [of "blue p"] by linarith
  then show "0 < t \<Longrightarrow> ?thesis" by (auto simp: threshold_pixel_def Let_def)
qed

text \<open>C1: with a positive threshold every pixel of the result is black or white (its
  three colour channels equal, 0 or 255) and keeps its alpha.\<close>

theorem applyThreshold_binary:
  assumes "0 < t" "4 dvd length d"
  shows "(\<forall>p \<in> set (pixels (applyThreshold d t)). green p = red p \<and> blue p = red p \<and> red p \<in> {0, 255})
         \<and> map alpha (pixels (applyThreshold d t)) = map alpha (pixels d)"
  using assms threshold_pixel_rgb by (auto simp: applyThreshold_eq comp_def)

text \<open>C21: the threshold pass is idempotent.\<close>

theorem applyThreshold_idem:
  assumes "4 dvd length d"
  shows "applyThreshold (applyThreshold d t) t = applyThreshold d t"
proof (cases "0 < t")
  case True
  let ?ps = "map (threshold_pixel t) (pixels d)"
  have "applyThreshold (applyThreshold d t) t = applyThreshold (flat ?ps) t"
    using True assms by (simp add: applyThreshold_eq)
  also have "\<dots> = flat (map (threshold_pixel t) ?ps)"
    using True by (rule applyThreshold_pixels)
  also have "\<dots> = flat ?ps"
    using True by (simp add: comp_def threshold_pixel_idem)
  finally show ?thesis using True assms by (simp add: applyThreshold_eq)
qed (simp add: applyThreshold_def)

subsection \<open>Witnesses\<close>

theorem applyThreshold_binary_witness:
  "0 < (128::real) \<and> 4 dvd length [255, 255, 255, 255, 10, 200, 30, 7 :: byte]
   \<and> list_all (\<lambda>p. green p = red p \<and> blue p = red p \<and> red p \<in> {0, 255})
         (pixels (applyThreshold [255, 255, 255, 255, 10, 200, 30, 7] 128))
   \<and> map alpha (pixels (applyThreshold [255, 255, 255, 255, 10, 200, 30, 7] 128)) = [255, 7]"
proof -
  have l: "length [255, 255, 255, 255, 10, 200, 30, 7 :: byte] = 8" by simp
  have "4 dvd length [255, 255, 255, 255, 10, 200, 30, 7 :: byte]"
    by (subst l) simp
  then show ?thesis
    using applyThreshold_binary [of 128 "[255, 255, 255, 255, 10, 200, 30, 7]"]
    by (simp add: list_all_iff)
qed

theorem applyThreshold_idem_witness:
  "4 dvd length [255, 255, 255, 255, 10, 200, 30, 7 :: byte]
   \<and> applyThreshold (applyThreshold [255, 255, 255, 255, 10, 200, 30, 7] 128) 128
       = applyThreshold [255, 255, 255, 255, 10, 200, 30, 7] 128"
proof -
  have l: "length [255, 255, 255, 255, 10, 200, 30, 7 :: byte] = 8" by simp
  have "4 dvd length [255, 255, 255, 255, 10, 200, 30, 7 :: byte]"
    by (subst l) simp
  then show ?thesis
    using applyThreshold_idem [of "[255, 255, 255, 255, 10, 200, 30, 7]" 128] by simp
qed

end
