(* ===== verification/Glitch_Shift.thy ===== *)
theory Glitch_Shift
  imports Prelude
begin

text \<open>
  The two displacement passes of the glitch layer (\<open>src/utils/glitchAlgorithms.ts\<close>):
  \<open>applyRGBShift\<close> (lines 31--51), which shifts the red channel horizontally with
  wrap-around, reading from a snapshot of the buffer, and \<open>applyBlockShift\<close>
  (lines 53--87), which copies random rectangles of rows to clamped destinations
  with \<open>subarray\<close>/\<open>set\<close>.  The index arithmetic is kept at its width
  (\<open>>>> 2\<close> and \<open><< 2\<close> on 32 bits, JavaScript's truncating \<open>%\<close>); the theorems
  show that on a well-formed buffer of fewer than \<open>2^31\<close> bytes it is exact.
\<close>

section \<open>RGB shift\<close>

definition rgbShift_body :: "buffer \<Rightarrow> int \<Rightarrow> int \<Rightarrow> nat \<Rightarrow> buffer \<Rightarrow> buffer" where
  "rgbShift_body buffer width offset i data =
     (let len = int (length buffer);
          pixelIndex = ushr32 (int i) 2;
          x = js_rem pixelIndex width;
          y = (pixelIndex - x) div width;
          newX = js_rem (x + offset) width;
          newIndex = shl32 (y * width + newX) 2
      in if newIndex < len then data[i := ta_read buffer newIndex] else data)"

definition applyRGBShift :: "buffer \<Rightarrow> int \<Rightarrow> int \<Rightarrow> int \<Rightarrow> buffer" where
  "applyRGBShift data width height offset =
     (if offset = 0 then data
      else let buffer = data
           in fold (rgbShift_body buffer width offset) (byte_offsets (length data)) data)"

text \<open>
  The reference: pixel \<open>k\<close> of row \<open>k div width\<close> takes its red channel from the pixel
  \<open>offset\<close> columns to its right in the same row, wrapping at the row's end; the
  other channels stay.
\<close>

definition shift_src :: "nat \<Rightarrow> nat \<Rightarrow> nat \<Rightarrow> nat" where
  "shift_src width offset k = k - k mod width + (k mod width + offset) mod width"

definition rgb_shift_ref :: "rgba list \<Rightarrow> nat \<Rightarrow> nat \<Rightarrow> rgba list" where
  "rgb_shift_ref ps width offset =
     map (\<lambda>k. (ps ! k)\<lparr>red := red (ps ! shift_src width offset k)\<rparr>) [0..<length ps]"

lemma length_applyRGBShift [buffer_len]: "length (applyRGBShift d w h off) = length d"
  by (simp add: applyRGBShift_def rgbShift_body_def length_fold Let_def)

lemma shift_src_less:
  assumes "0 < w" "k < w * h"
  shows "shift_src w off k < w * h"
proof -
  have "k div w < h" using assms by (simp add: div_less_iff_less_mult mult.commute)
  then have "w * (k div w) + w \<le> w * h"
    by (metis add.commute mult.commute mult_Suc_right mult_le_mono2 Suc_leI)
  moreover have "(k mod w + off) mod w < w" using assms(1) by simp
  moreover have "k - k mod w = w * (k div w)" by (simp add: minus_mod_eq_mult_div)
  ultimately show ?thesis by (simp add: shift_src_def)
qed

lemma rgbShift_body_at:
  assumes "0 < w" "0 \<le> off" "k < w * h" "length buffer = 4 * (w * h)" "4 * (w * h) < 2 ^ 31"
  shows "rgbShift_body buffer (int w) off (4 * k) data
           = data[4 * k := ta_read buffer (4 * int (shift_src w (nat off) k))]"
proof -
  have wh: "w * h < 2 ^ 29" using assms(5) by (simp add: mult.commute)
  then have k: "int (4 * k) < 2 ^ 32" using assms(3) by simp
  have pi: "ushr32 (int (4 * k)) 2 = int k" using k by (simp add: ushr32_2)
  have x: "js_rem (int k) (int w) = int (k mod w)"
    using assms(1) by (simp add: js_rem_nonneg zmod_int)
  have nx: "js_rem (int (k mod w) + off) (int w) = int ((k mod w + nat off) mod w)"
    using assms(1,2) by (simp add: js_rem_nonneg zmod_int)
  have km: "int k - int (k mod w) = int (k div w) * int w"
    by (metis add_diff_cancel_right' div_mult_mod_eq of_nat_add of_nat_mult)
  have y: "(int k - int (k mod w)) div int w * int w = int (k - k mod w)"
    using assms(1) by (simp add: km of_nat_diff)
  have src: "shift_src w (nat off) k < w * h" using shift_src_less assms(1,3) by blast
  have eq: "int (k - k mod w) + int ((k mod w + nat off) mod w) = int (shift_src w (nat off) k)"
    by (simp only: shift_src_def of_nat_add)
  have "int (shift_src w (nat off) k) < 2 ^ 29" using src wh by simp
  then have shl: "shl32 (int (shift_src w (nat off) k)) 2 = 4 * int (shift_src w (nat off) k)"
    by (simp add: shl32_2)
  have lt: "4 * int (shift_src w (nat off) k) < int (length buffer)"
    using src assms(4) by (simp flip: of_nat_mult)
  show ?thesis using pi x nx y eq shl lt by (simp add: rgbShift_body_def Let_def)
qed

lemma applyRGBShift_flat:
  assumes "0 < W" "0 \<le> off" "length ps = W * H" "4 * (W * H) < 2 ^ 31"
  shows "pixels (applyRGBShift (flat ps) (int W) (int H) off) = rgb_shift_ref ps W (nat off)"
proof (cases "off = 0")
  case True
  then have "rgb_shift_ref ps W (nat off) = map (\<lambda>k. ps ! k) [0..<length ps]"
    by (simp add: rgb_shift_ref_def shift_src_def)
  also have "\<dots> = ps" by (rule map_nth)
  finally show ?thesis using True by (simp add: applyRGBShift_def)
next
  case False
  let ?g = "\<lambda>k p. p\<lparr>red := red (ps ! shift_src W (nat off) k)\<rparr>"
  have body: "rgbShift_body (flat ps) (int W) off (4 * k) d'
                = px_put (4 * k) (?g k (px_get d' (4 * k))) d'"
    if "length d' = 4 * length ps" "k < length ps" for k d'
  proof -
    have k: "k < W * H" using that assms(3) by simp
    have src: "shift_src W (nat off) k < length ps"
      using shift_src_less [OF assms(1) k] assms(3) by simp
    have "rgbShift_body (flat ps) (int W) off (4 * k) d'
            = d'[4 * k := ta_read (flat ps) (4 * int (shift_src W (nat off) k))]"
      by (rule rgbShift_body_at [OF assms(1,2) k _ assms(4)]) (simp add: assms(3))
    also have "\<dots> = d'[4 * k := red (ps ! shift_src W (nat off) k)]"
      using src by (simp add: ta_read_flat)
    also have "\<dots> = px_put (4 * k) (?g k (px_get d' (4 * k))) d'"
      using px_put_red [of "?g k (px_get d' (4 * k))" d' "4 * k"] by (simp add: px_get_def)
    finally show ?thesis .
  qed
  have "fold (rgbShift_body (flat ps) (int W) off) (byte_offsets (4 * length ps)) (flat ps)
          = flat (map2 ?g [0..<length ps] ps)"
    by (rule fold_pixel_map) (rule body)
  then show ?thesis
    using False by (simp add: applyRGBShift_def rgb_shift_ref_def map2_upt_nth)
qed

text \<open>C2: the RGB shift moves the red channel of every row \<open>offset\<close> columns to the
  left with wrap-around and leaves green, blue and alpha alone.\<close>

theorem applyRGBShift_correct:
  assumes "0 < W" "0 \<le> off" "length d = 4 * (W * H)" "length d < 2 ^ 31"
  shows "pixels (applyRGBShift d (int W) (int H) off) = rgb_shift_ref (pixels d) W (nat off)"
proof -
  have "d = flat (pixels d)" using assms(3) by (simp add: flat_pixels)
  moreover have "length (pixels d) = W * H" using assms(3) by simp
  ultimately show ?thesis
    using applyRGBShift_flat [OF assms(1,2), of "pixels d" H] assms(3,4) by simp
qed

section \<open>Block shift\<close>

text \<open>
  One block: its size, its source origin and its clamped destination, drawn in the
  order of the source (six calls of \<open>randomInt\<close>, lines 60--70).
\<close>

record block =
  blockW :: int
  blockH :: int
  srcX :: int
  srcY :: int
  destX :: int
  destY :: int

definition draw_block :: "int \<Rightarrow> int \<Rightarrow> int \<Rightarrow> rng \<Rightarrow> block \<times> rng" where
  "draw_block width height maxBlockSize s0 =
     (let (bw, s1) = randomInt 10 maxBlockSize s0;
          (bh, s2) = randomInt 2 50 s1;
          (sx, s3) = randomInt 0 (width - bw) s2;
          (sy, s4) = randomInt 0 (height - bh) s3;
          (shiftX, s5) = randomInt (-50) 50 s4;
          (shiftY, s6) = randomInt (-10) 10 s5;
          dx = min (width - bw) (max 0 (sx + shiftX));
          dy = min (height - bh) (max 0 (sy + shiftY))
      in (\<lparr>blockW = bw, blockH = bh, srcX = sx, srcY = sy, destX = dx, destY = dy\<rparr>, s6))"

text \<open>Row \<open>y\<close> of a block (lines 73--85): a guarded \<open>data.set(data.subarray(..), destStart)\<close>.\<close>

definition copy_block_row :: "int \<Rightarrow> block \<Rightarrow> int \<Rightarrow> buffer \<Rightarrow> js_error + buffer" where
  "copy_block_row width blk y data =
     (let srcStart = ((srcY blk + y) * width + srcX blk) * 4;
          destStart = ((destY blk + y) * width + destX blk) * 4;
          len = blockW blk * 4
      in if srcStart + len < int (length data) \<and> destStart + len < int (length data)
            \<and> 0 \<le> srcStart \<and> 0 \<le> destStart
         then ta_set data (subarray data (nat srcStart) (nat (srcStart + len))) (nat destStart)
         else Inr data)"

definition block_step :: "int \<Rightarrow> int \<Rightarrow> int \<Rightarrow> nat \<Rightarrow> buffer \<times> rng \<Rightarrow> js_error + buffer \<times> rng" where
  "block_step width height maxBlockSize b st =
     (let (data, s) = st;
          (blk, s') = draw_block width height maxBlockSize s
      in case foldE (copy_block_row width blk) (map int [0..<nat (blockH blk)]) data of
           Inl e \<Rightarrow> Inl e
         | Inr d \<Rightarrow> Inr (d, s'))"

definition applyBlockShift ::
  "buffer \<Rightarrow> int \<Rightarrow> int \<Rightarrow> real \<Rightarrow> real \<Rightarrow> rng \<Rightarrow> js_error + buffer \<times> rng" where
  "applyBlockShift data width height intensity seed s =
     (if intensity = 0 then Inr (data, s)
      else let numBlocks = \<lfloor>(intensity / 100) * 30\<rfloor>;
               maxBlockSize = \<lfloor>real_of_int width / 4\<rfloor>
           in foldE (block_step width height maxBlockSize) [0..<nat numBlocks] (data, s))"

text \<open>
  A row copy that passes the guard is a move of \<open>blockW * 4\<close> bytes inside the
  buffer: the bytes before the destination and after it are kept.
\<close>

lemma guarded_move:
  fixes ss ds n :: int
  assumes "ss + n < int (length data)" "ds + n < int (length data)" "0 \<le> ss" "0 \<le> ds" "0 \<le> n"
  shows "ta_set data (subarray data (nat ss) (nat (ss + n))) (nat ds)
           = Inr (take (nat ds) data @ take (nat n) (drop (nat ss) data) @ drop (nat ds + nat n) data)"
proof -
  have sub: "subarray data (nat ss) (nat (ss + n)) = take (nat n) (drop (nat ss) data)"
    using assms by (simp add: subarray_def nat_add_distrib)
  have "length (take (nat n) (drop (nat ss) data)) = nat n"
    using assms by simp
  with sub assms show ?thesis by (simp add: ta_set_ok nat_add_distrib [symmetric])
qed

lemma copy_block_row_move:
  assumes "0 \<le> blockW blk"
  shows "copy_block_row width blk y data = Inr data \<or>
         (\<exists>ss ds n. ss + n < length data \<and> ds + n < length data \<and>
            copy_block_row width blk y data
              = Inr (take ds data @ take n (drop ss data) @ drop (ds + n) data))"
proof -
  define ss where "ss = ((srcY blk + y) * width + srcX blk) * 4"
  define ds where "ds = ((destY blk + y) * width + destX blk) * 4"
  define n where "n = blockW blk * 4"
  have n: "0 \<le> n" using assms by (simp add: n_def)
  have def: "copy_block_row width blk y data =
      (if ss + n < int (length data) \<and> ds + n < int (length data) \<and> 0 \<le> ss \<and> 0 \<le> ds
       then ta_set data (subarray data (nat ss) (nat (ss + n))) (nat ds) else Inr data)"
    by (simp only: copy_block_row_def Let_def ss_def ds_def n_def)
  show ?thesis
  proof (cases "ss + n < int (length data) \<and> ds + n < int (length data) \<and> 0 \<le> ss \<and> 0 \<le> ds")
    case True
    then have "copy_block_row width blk y data
        = Inr (take (nat ds) data @ take (nat n) (drop (nat ss) data) @ drop (nat ds + nat n) data)"
      using def guarded_move [of ss n data ds] n by simp
    moreover have "nat ss + nat n < length data" "nat ds + nat n < length data"
      using True n by linarith+
    ultimately show ?thesis by blast
  next
    case False
    have "copy_block_row width blk y data = Inr data"
      using def if_not_P [OF False] by (rule trans)
    then show ?thesis by simp
  qed
qed

lemma copy_block_row_ok:
  assumes "0 \<le> blockW blk"
  shows "\<exists>d'. copy_block_row width blk y data = Inr d' \<and> length d' = length data"
  using copy_block_row_move [OF assms, of width y data] by auto

lemma draw_block_fields:
  "blockW (fst (draw_block w h m s)) = fst (randomInt 10 m s)"
  "blockH (fst (draw_block w h m s)) = fst (randomInt 2 50 (stl s))"
  "srcX (fst (draw_block w h m s)) = fst (randomInt 0 (w - fst (randomInt 10 m s)) (stl (stl s)))"
  "srcY (fst (draw_block w h m s))
     = fst (randomInt 0 (h - fst (randomInt 2 50 (stl s))) (stl (stl (stl s))))"
  "destX (fst (draw_block w h m s))
     = min (w - blockW (fst (draw_block w h m s)))
           (max 0 (srcX (fst (draw_block w h m s)) + fst (randomInt (-50) 50 (stl (stl (stl (stl s)))))))"
  "destY (fst (draw_block w h m s))
     = min (h - blockH (fst (draw_block w h m s)))
           (max 0 (srcY (fst (draw_block w h m s))
                   + fst (randomInt (-10) 10 (stl (stl (stl (stl (stl s))))))))"
  by (simp_all add: draw_block_def Let_def split_def)

lemma draw_block_width:
  assumes "0 \<le> w"
  shows "1 \<le> blockW (fst (draw_block w h \<lfloor>real_of_int w / 4\<rfloor> s))
         \<and> blockW (fst (draw_block w h \<lfloor>real_of_int w / 4\<rfloor> s)) \<le> max 10 \<lfloor>real_of_int w / 4\<rfloor>"
proof (cases "10 \<le> \<lfloor>real_of_int w / 4\<rfloor>")
  case True
  then show ?thesis using randomInt_range [OF True, of s] by (simp add: draw_block_fields)
next
  case False
  have f0: "0 \<le> \<lfloor>real_of_int w / 4\<rfloor>" using assms by simp
  have r: "\<lfloor>real_of_int w / 4\<rfloor> + 1 \<le> fst (randomInt 10 \<lfloor>real_of_int w / 4\<rfloor> s)
           \<and> fst (randomInt 10 \<lfloor>real_of_int w / 4\<rfloor> s) \<le> 10"
    using False by (intro randomInt_empty_range) simp
  have "max 10 \<lfloor>real_of_int w / 4\<rfloor> = 10" using False by simp
  then show ?thesis unfolding draw_block_fields using r f0 by linarith
qed

lemma block_step_ok:
  assumes "0 \<le> width" "length (fst st) = n"
  shows "\<exists>st'. block_step width height \<lfloor>real_of_int width / 4\<rfloor> b st = Inr st' \<and> length (fst st') = n"
proof -
  obtain d s0 where st: "st = (d, s0)" by (cases st)
  let ?blk = "fst (draw_block width height \<lfloor>real_of_int width / 4\<rfloor> s0)"
  have w: "0 \<le> blockW ?blk" using draw_block_width [OF assms(1), of height s0] by simp
  have "\<exists>d'. foldE (copy_block_row width ?blk) (map int [0..<nat (blockH ?blk)]) d = Inr d'
           \<and> length d' = length d"
  proof (rule foldE_invariant)
    fix y and d0 :: buffer
    assume "length d0 = length d"
    then show "\<exists>d'. copy_block_row width ?blk y d0 = Inr d' \<and> length d' = length d"
      using copy_block_row_ok [OF w, of width y d0] by auto
  qed simp
  then obtain d' where "foldE (copy_block_row width ?blk) (map int [0..<nat (blockH ?blk)]) d = Inr d'"
      and "length d' = length d"
    by blast
  then show ?thesis using assms(2) st by (simp add: block_step_def split_def)
qed

lemma applyBlockShift_ok:
  assumes "0 \<le> width"
  shows "\<exists>d' s'. applyBlockShift data width height intensity seed s = Inr (d', s')
                \<and> length d' = length data"
proof (cases "intensity = 0")
  case True
  then show ?thesis by (simp add: applyBlockShift_def)
next
  case False
  have "\<exists>st'. foldE (block_step width height \<lfloor>real_of_int width / 4\<rfloor>)
                 [0..<nat \<lfloor>intensity / 100 * 30\<rfloor>] (data, s) = Inr st'
              \<and> length (fst st') = length data"
  proof (rule foldE_invariant)
    fix b and st :: "buffer \<times> rng"
    assume "length (fst st) = length data"
    then show "\<exists>st'. block_step width height \<lfloor>real_of_int width / 4\<rfloor> b st = Inr st'
                 \<and> length (fst st') = length data"
      by (rule block_step_ok [OF assms])
  qed simp
  then show ?thesis using False by (auto simp: applyBlockShift_def)
qed

text \<open>C4: the block shift never throws (every \<open>set\<close> it makes fits) and keeps the length
  of the buffer, for every random stream.\<close>

theorem applyBlockShift_no_throw:
  assumes "0 \<le> width"
  shows "\<exists>d' s'. applyBlockShift data width height intensity seed s = Inr (d', s')
                \<and> length d' = length data"
  using applyBlockShift_ok [OF assms] .

text \<open>C22: on a frame at least 10 pixels wide and 50 high, every block's source and clamped
  destination rectangles lie inside the frame.\<close>

theorem draw_block_in_frame:
  assumes "10 \<le> width" "50 \<le> height"
  shows "let blk = fst (draw_block width height \<lfloor>real_of_int width / 4\<rfloor> s)
         in 0 \<le> srcX blk \<and> srcX blk + blockW blk \<le> width \<and> 0 \<le> srcY blk \<and> srcY blk + blockH blk \<le> height
          \<and> 0 \<le> destX blk \<and> destX blk + blockW blk \<le> width
          \<and> 0 \<le> destY blk \<and> destY blk + blockH blk \<le> height"
proof -
  define blk where "blk = fst (draw_block width height \<lfloor>real_of_int width / 4\<rfloor> s)"
  have "\<lfloor>real_of_int width / 4\<rfloor> \<le> width" using assms(1) by linarith
  then have m: "max 10 \<lfloor>real_of_int width / 4\<rfloor> \<le> width" using assms(1) by simp
  have "1 \<le> blockW blk \<and> blockW blk \<le> max 10 \<lfloor>real_of_int width / 4\<rfloor>"
    using draw_block_width [of width height s] assms(1) by (simp add: blk_def)
  with m have bw: "1 \<le> blockW blk \<and> blockW blk \<le> width" by linarith
  have bh: "2 \<le> blockH blk \<and> blockH blk \<le> 50"
    using randomInt_range [of 2 50 "stl s"] by (simp add: blk_def draw_block_fields)
  have sx: "0 \<le> srcX blk \<and> srcX blk \<le> width - blockW blk"
    using randomInt_range [of 0 "width - blockW blk" "stl (stl s)"] bw
    by (simp add: blk_def draw_block_fields)
  have sy: "0 \<le> srcY blk \<and> srcY blk \<le> height - blockH blk"
    using randomInt_range [of 0 "height - blockH blk" "stl (stl (stl s))"] bh assms(2)
    by (simp add: blk_def draw_block_fields)
  have dx: "0 \<le> destX blk \<and> destX blk \<le> width - blockW blk"
    using bw by (simp add: blk_def draw_block_fields(5))
  have dy: "0 \<le> destY blk \<and> destY blk \<le> height - blockH blk"
    using bh assms(2) by (simp add: blk_def draw_block_fields(6))
  show ?thesis using sx sy dx dy unfolding blk_def [symmetric] Let_def by linarith
qed

text \<open>C25: on every frame narrower than 9 pixels the clamp does not keep a block inside
  the frame.  \<open>randomInt(10, floor(width / 4))\<close> has an empty range there; every first
  draw of at most 1/9 (a ninth of all draws, whatever the height and the later draws)
  gives a block at least 9 pixels wide, wider than the frame, and
  \<open>Math.min(width - blockW, \<dots>)\<close> then puts its destination at the negative column
  \<open>width - blockW\<close>.\<close>

theorem draw_block_narrow_frame:
  assumes "0 \<le> width" "width < 9" "rnd (shd s) \<le> 1/9"
  shows "let blk = fst (draw_block width height \<lfloor>real_of_int width / 4\<rfloor> s)
         in width < blockW blk \<and> destX blk = width - blockW blk \<and> destX blk < 0"
proof -
  define m where "m = \<lfloor>real_of_int width / 4\<rfloor>"
  have m: "0 \<le> m" "m \<le> 2" using assms(1,2) by (simp_all add: m_def floor_le_iff)
  have "- 1 \<le> rnd (shd s) * of_int (m - 10 + 1)"
  proof -
    have "rnd (shd s) * of_int (9 - m) \<le> (1/9) * 9"
      using assms(3) m by (intro mult_mono) simp_all
    then show ?thesis by (simp add: algebra_simps)
  qed
  then have "- 1 \<le> \<lfloor>rnd (shd s) * of_int (m - 10 + 1)\<rfloor>" by linarith
  then have bw: "9 \<le> blockW (fst (draw_block width height m s))"
    by (simp add: draw_block_fields randomInt_def)
  then show ?thesis
    using assms(2) by (simp add: m_def [symmetric] draw_block_fields(5) Let_def)
qed

subsection \<open>Witnesses\<close>

theorem applyRGBShift_correct_witness:
  "pixels (applyRGBShift [1, 2, 3, 4, 5, 6, 7, 8] 2 1 1)
     = [\<lparr>red = 5, green = 2, blue = 3, alpha = 4\<rparr>, \<lparr>red = 1, green = 6, blue = 7, alpha = 8\<rparr>]"
proof -
  have "pixels (applyRGBShift [1, 2, 3, 4, 5, 6, 7, 8] (int 2) (int 1) 1)
          = rgb_shift_ref (pixels [1, 2, 3, 4, 5, 6, 7, 8]) 2 (nat 1)"
    by (rule applyRGBShift_correct) simp_all
  then show ?thesis
    by (simp add: rgb_shift_ref_def shift_src_def upt_rec)
qed

theorem applyBlockShift_no_throw_witness:
  "0 \<le> (8::int) \<and> (\<exists>d' s'. applyBlockShift (replicate 256 7) 8 8 50 0 (sconst 0) = Inr (d', s')
                   \<and> length d' = 256)"
  using applyBlockShift_no_throw [of 8 "replicate 256 7" 8 50 0 "sconst 0"] by simp

theorem draw_block_in_frame_witness:
  "10 \<le> (40::int) \<and> 50 \<le> (60::int) \<and>
   (let blk = fst (draw_block 40 60 \<lfloor>real_of_int 40 / 4\<rfloor> (sconst 0))
    in 0 \<le> srcX blk \<and> srcX blk + blockW blk \<le> 40 \<and> 0 \<le> srcY blk \<and> srcY blk + blockH blk \<le> 60
     \<and> 0 \<le> destX blk \<and> destX blk + blockW blk \<le> 40
     \<and> 0 \<le> destY blk \<and> destY blk + blockH blk \<le> 60)"
  using draw_block_in_frame [of 40 60 "sconst 0"] by simp

theorem draw_block_narrow_frame_witness:
  "0 \<le> (5::int) \<and> (5::int) < 9 \<and> rnd (shd (sconst 0)) \<le> 1/9
   \<and> (let blk = fst (draw_block 5 20 \<lfloor>real_of_int 5 / 4\<rfloor> (sconst 0))
      in 5 < blockW blk \<and> destX blk = 5 - blockW blk \<and> destX blk < 0)"
proof -
  have h: "0 \<le> (5::int)" "(5::int) < 9" "rnd (shd (sconst 0)) \<le> 1/9" by (simp_all add: rnd_def)
  show ?thesis using draw_block_narrow_frame [OF h, of 20] h by simp
qed

end
