(* ===== verification/Pixel_Sort.thy ===== *)
theory Pixel_Sort
  imports Prelude
begin

text \<open>
  The pixel-sort pass \<open>applyPixelSort\<close> (\<open>src/utils/glitchAlgorithms.ts\<close>, lines
  118--164): \<open>floor(height * threshold / 100)\<close> times, a row is chosen with
  \<open>randomInt(0, height - 1)\<close>, its column indices are sorted by the brightness
  \<open>R + G + B\<close> with \<open>Array.prototype.sort\<close> (stable since ES2019, so it is the
  library's stable \<open>sort_key\<close>), the row is rebuilt in that order and written back with
  \<open>data.set(tempRow, rowStart)\<close>, which throws a \<open>RangeError\<close> if it does not fit.
  The theorems: sorting one row is the stable sort of its pixels by brightness with
  the other rows kept (\<open>sort_row_rows\<close>), and the whole pass never throws on a
  well-formed buffer and permutes the pixels of every row.
\<close>

definition sort_row :: "int \<Rightarrow> int \<Rightarrow> buffer \<Rightarrow> js_error + buffer" where
  "sort_row width y data =
     (let rowStart = (y * width) * 4;
          brightness = (\<lambda>k. let idx = rowStart + int k * 4
                             in unat (ta_read data idx) + unat (ta_read data (idx + 1))
                                + unat (ta_read data (idx + 2)));
          rowIndices = sort_key brightness [0..<nat width];
          tempRow = concat (map (\<lambda>k. let idx = rowStart + int k * 4
                                     in [ta_read data idx, ta_read data (idx + 1),
                                         ta_read data (idx + 2), ta_read data (idx + 3)])
                                rowIndices)
      in if rowStart < 0 then Inl RangeError else ta_set data tempRow (nat rowStart))"

definition pixelSort_step :: "int \<Rightarrow> int \<Rightarrow> nat \<Rightarrow> buffer \<times> rng \<Rightarrow> js_error + buffer \<times> rng" where
  "pixelSort_step width height r st =
     (let (data, s) = st;
          (y, s') = randomInt 0 (height - 1) s
      in case sort_row width y data of Inl e \<Rightarrow> Inl e | Inr d \<Rightarrow> Inr (d, s'))"

definition applyPixelSort :: "buffer \<Rightarrow> int \<Rightarrow> int \<Rightarrow> real \<Rightarrow> rng \<Rightarrow> js_error + buffer \<times> rng" where
  "applyPixelSort data width height threshold s =
     (if threshold = 0 then Inr (data, s)
      else let rowsToSort = \<lfloor>real_of_int height * (threshold / 100)\<rfloor>
           in foldE (pixelSort_step width height) [0..<nat rowsToSort] (data, s))"

text \<open>The brightness the comparator uses, on a pixel.\<close>

definition pbright :: "rgba \<Rightarrow> nat" where
  "pbright p = unat (red p) + unat (green p) + unat (blue p)"

text \<open>\<open>rows_perm w h rs d\<close>: the buffer \<open>d\<close> is \<open>h\<close> rows of \<open>w\<close> pixels, row \<open>y\<close> a
  permutation of row \<open>y\<close> of \<open>rs\<close>.\<close>

definition rows_perm :: "nat \<Rightarrow> nat \<Rightarrow> rgba list list \<Rightarrow> buffer \<Rightarrow> bool" where
  "rows_perm w h rs d \<longleftrightarrow>
     (\<exists>rs'. d = flat (concat rs') \<and> length rs' = h \<and> (\<forall>r \<in> set rs'. length r = w)
            \<and> (\<forall>y < h. mset (rs' ! y) = mset (rs ! y)))"

subsection \<open>Sorting indices\<close>

lemma insort_key_cong:
  "(\<And>z. z \<in> insert x (set ys) \<Longrightarrow> f z = g z) \<Longrightarrow> insort_key f x ys = insort_key g x ys"
  by (induction ys) auto

lemma sort_key_cong:
  "(\<And>z. z \<in> set xs \<Longrightarrow> f z = g z) \<Longrightarrow> sort_key f xs = sort_key g xs"
proof (induction xs)
  case (Cons x xs)
  then have "sort_key f xs = sort_key g xs" by simp
  moreover have "insort_key f x (sort_key g xs) = insort_key g x (sort_key g xs)"
    by (rule insort_key_cong) (use Cons.prems in auto)
  ultimately show ?case by simp
qed simp

text \<open>Sorting the indices by the key of their element and gathering is sorting the elements.\<close>

lemma sort_key_indices:
  "map ((!) xs) (sort_key (\<lambda>k. f (xs ! k)) [0..<length xs]) = sort_key f xs"
proof (rule properties_for_sort_key [symmetric])
  let ?is = "sort_key (\<lambda>k. f (xs ! k)) [0..<length xs]"
  have "mset (map ((!) xs) ?is) = image_mset ((!) xs) (mset [0..<length xs])"
    by (simp only: mset_map mset_sort)
  also have "\<dots> = mset xs"
    by (metis map_nth mset_map)
  finally show "mset (map ((!) xs) ?is) = mset xs" .
  have "map f (map ((!) xs) ?is) = map (\<lambda>k. f (xs ! k)) ?is"
    by (simp only: map_map comp_def)
  then show "sorted (map f (map ((!) xs) ?is))"
    by (simp only: sorted_sort_key)
  fix k
  have sym: "(\<lambda>i. f k = f (xs ! i)) = (\<lambda>i. f (xs ! i) = f k)" by auto
  have "filter (\<lambda>x. f k = f x) (map ((!) xs) ?is) = map ((!) xs) (filter (\<lambda>i. f (xs ! i) = f k) ?is)"
    by (simp only: filter_map comp_def sym)
  also have "\<dots> = map ((!) xs) (filter (\<lambda>i. f (xs ! i) = f k) [0..<length xs])"
    by (simp only: sort_key_stable)
  also have "\<dots> = filter (\<lambda>x. f k = f x) (map ((!) xs) [0..<length xs])"
    by (simp only: filter_map comp_def sym)
  also have "\<dots> = filter (\<lambda>x. f k = f x) xs"
    by (simp only: map_nth)
  finally show "filter (\<lambda>x. f k = f x) (map ((!) xs) ?is) = filter (\<lambda>x. f k = f x) xs" .
qed

subsection \<open>A buffer as rows\<close>

lemma length_concat_rows: "\<forall>r \<in> set rs. length r = w \<Longrightarrow> length (concat rs) = length rs * w"
  by (induction rs) auto

lemma concat_rows_split:
  assumes "\<forall>r \<in> set rs. length r = w" "y < length rs"
  shows "concat rs = concat (take y rs) @ rs ! y @ concat (drop (Suc y) rs)"
    and "length (concat (take y rs)) = y * w"
proof -
  show "concat rs = concat (take y rs) @ rs ! y @ concat (drop (Suc y) rs)"
    using assms(2) by (subst id_take_nth_drop [of y rs]) simp_all
  have "\<forall>r \<in> set (take y rs). length r = w" using assms(1) by (meson in_set_takeD)
  then show "length (concat (take y rs)) = y * w"
    using assms(2) length_concat_rows [of "take y rs" w] by simp
qed

subsection \<open>Sorting one row\<close>

lemma flat_map_nth:
  "flat (map ((!) r) is) = concat (map (\<lambda>k. [red (r ! k), green (r ! k), blue (r ! k), alpha (r ! k)]) is)"
  by (simp add: flat_def comp_def)

lemma sort_row_reads:
  assumes "\<forall>r \<in> set rs. length r = w" "y < length rs" "k < w"
  defines "idx \<equiv> int y * int w * 4 + int k * 4"
  shows "ta_read (flat (concat rs)) idx = red (rs ! y ! k)"
    and "ta_read (flat (concat rs)) (idx + 1) = green (rs ! y ! k)"
    and "ta_read (flat (concat rs)) (idx + 2) = blue (rs ! y ! k)"
    and "ta_read (flat (concat rs)) (idx + 3) = alpha (rs ! y ! k)"
proof -
  note sp = concat_rows_split [OF assms(1,2)]
  have row: "length (rs ! y) = w" using assms(1,2) by simp
  have i: "idx = 4 * int (y * w + k)" by (simp add: idx_def algebra_simps)
  have len: "length (concat rs) = y * w + length (rs ! y) + length (concat (drop (Suc y) rs))"
    by (subst sp(1)) (simp add: sp(2))
  have lt: "y * w + k < length (concat rs)"
    using len row assms(3) by simp
  have nth: "concat rs ! (y * w + k) = rs ! y ! k"
    by (subst sp(1)) (simp add: nth_append sp(2) row assms(3))
  show "ta_read (flat (concat rs)) idx = red (rs ! y ! k)"
    and "ta_read (flat (concat rs)) (idx + 1) = green (rs ! y ! k)"
    and "ta_read (flat (concat rs)) (idx + 2) = blue (rs ! y ! k)"
    and "ta_read (flat (concat rs)) (idx + 3) = alpha (rs ! y ! k)"
    using ta_read_flat_px [OF lt] unfolding i nth by simp_all
qed

lemma sort_row_rows:
  assumes "\<forall>r \<in> set rs. length r = w" "y < length rs"
  shows "sort_row (int w) (int y) (flat (concat rs))
           = Inr (flat (concat (rs[y := sort_key pbright (rs ! y)])))"
proof -
  let ?row = "rs ! y" and ?A = "concat (take y rs)" and ?B = "concat (drop (Suc y) rs)"
  let ?S = "sort_key pbright ?row"
  note sp = concat_rows_split [OF assms]
  note rd = sort_row_reads [OF assms]
  have row: "length ?row = w" using assms by simp
  let ?br = "\<lambda>k. unat (ta_read (flat (concat rs)) (int y * int w * 4 + int k * 4))
               + unat (ta_read (flat (concat rs)) (int y * int w * 4 + int k * 4 + 1))
               + unat (ta_read (flat (concat rs)) (int y * int w * 4 + int k * 4 + 2))"
  have "sort_key ?br [0..<w] = sort_key (\<lambda>k. pbright (?row ! k)) [0..<w]"
    by (rule sort_key_cong) (simp add: rd pbright_def Let_def)
  then have br: "sort_key ?br [0..<w] = sort_key (\<lambda>k. pbright (?row ! k)) [0..<length ?row]"
    using row by simp
  let ?px = "\<lambda>k. [ta_read (flat (concat rs)) (int y * int w * 4 + int k * 4),
               ta_read (flat (concat rs)) (int y * int w * 4 + int k * 4 + 1),
               ta_read (flat (concat rs)) (int y * int w * 4 + int k * 4 + 2),
               ta_read (flat (concat rs)) (int y * int w * 4 + int k * 4 + 3)]"
  have tmp: "concat (map ?px (sort_key ?br [0..<w])) = flat ?S"
  proof -
    have "map ?px (sort_key ?br [0..<w])
            = map (\<lambda>k. [red (?row ! k), green (?row ! k), blue (?row ! k), alpha (?row ! k)])
                (sort_key ?br [0..<w])"
      by (rule map_cong) (simp_all add: rd Let_def)
    then have "concat (map ?px (sort_key ?br [0..<w])) = flat (map ((!) ?row) (sort_key ?br [0..<w]))"
      by (simp only: flat_map_nth)
    then show ?thesis using br by (simp add: sort_key_indices)
  qed
  have lenS: "length (flat ?S) = 4 * w" using row by simp
  have start: "y * w * 4 = 4 * length ?A" using sp(2) by simp
  have len: "length (concat rs) = length ?A + w + length ?B"
    by (subst sp(1)) (simp add: row)
  have fits: "4 * length ?A + length (flat ?S) \<le> length (flat (concat rs))"
    using len lenS by simp
  have "take (length ?A) (concat rs) = ?A" by (subst sp(1)) simp
  then have tk: "take (4 * length ?A) (flat (concat rs)) = flat ?A"
    by (simp only: take_flat)
  have "drop (length ?A + w) (concat rs) = ?B" by (subst sp(1)) (simp add: row)
  then have "drop (4 * (length ?A + w)) (flat (concat rs)) = flat ?B"
    by (simp only: drop_flat)
  then have dr: "drop (4 * length ?A + length (flat ?S)) (flat (concat rs)) = flat ?B"
    using lenS by (simp add: add_mult_distrib2)
  have upd: "concat (rs[y := ?S]) = ?A @ ?S @ ?B"
    using assms(2) by (simp add: upd_conv_take_nth_drop)
  have "sort_row (int w) (int y) (flat (concat rs))
          = ta_set (flat (concat rs)) (flat ?S) (4 * length ?A)"
  proof -
    have ns: "nat (int y * int w * 4) = 4 * length ?A"
      using start by (metis mult.commute nat_int of_nat_mult of_nat_numeral)
    have nn: "\<not> int y * int w * 4 < 0" by (simp add: not_less)
    show ?thesis by (simp only: sort_row_def Let_def if_not_P [OF nn] ns nat_int tmp)
  qed
  also have "\<dots> = Inr (flat ?A @ flat ?S @ flat ?B)"
    using fits tk dr by (simp add: ta_set_ok)
  finally show ?thesis using upd by simp
qed

lemma rows_exist:
  "length ps = w * h \<Longrightarrow> \<exists>rs. ps = concat rs \<and> length rs = h \<and> (\<forall>r \<in> set rs. length r = w)"
proof (induction h arbitrary: ps)
  case 0
  then show ?case by simp
next
  case (Suc h)
  then have "length (drop w ps) = w * h" by simp
  then obtain rs where "drop w ps = concat rs" "length rs = h" "\<forall>r \<in> set rs. length r = w"
    using Suc.IH by blast
  moreover have "length (take w ps) = w" using Suc.prems by simp
  ultimately have "ps = concat (take w ps # rs) \<and> length (take w ps # rs) = Suc h
                   \<and> (\<forall>r \<in> set (take w ps # rs). length r = w)"
    by (metis append_take_drop_id concat.simps(2) length_Cons set_ConsD)
  then show ?case by blast
qed

lemma pixelSort_step_rows:
  assumes "rows_perm w h rs (fst st)" "0 < h"
  shows "\<exists>st'. pixelSort_step (int w) (int h) r st = Inr st' \<and> rows_perm w h rs (fst st')"
proof -
  obtain d s where st: "st = (d, s)" by (cases st)
  from assms(1) obtain rs' where d: "d = flat (concat rs')" and len: "length rs' = h"
      and wid: "\<forall>r \<in> set rs'. length r = w" and pm: "\<forall>y < h. mset (rs' ! y) = mset (rs ! y)"
    by (auto simp: rows_perm_def st)
  let ?y = "fst (randomInt 0 (int h - 1) s)"
  have "0 \<le> ?y \<and> ?y \<le> int h - 1" using randomInt_range [of 0 "int h - 1" s] assms(2) by simp
  then obtain y where y: "?y = int y" "y < h" by (metis nonneg_int_cases of_nat_less_iff zle_diff1_eq
      add_le_imp_le_diff int_ops(1) le_imp_less_Suc less_le_trans not_le of_nat_Suc)
  let ?rs = "rs'[y := sort_key pbright (rs' ! y)]"
  have sr: "sort_row (int w) (int y) d = Inr (flat (concat ?rs))"
    using sort_row_rows [OF wid] y len d by simp
  have "rows_perm w h rs (flat (concat ?rs))"
    unfolding rows_perm_def
  proof (intro exI conjI)
    show "length ?rs = h" using len by simp
    show "\<forall>r \<in> set ?rs. length r = w" using wid y len
      by (auto dest: set_update_subset_insert [THEN subsetD])
    show "\<forall>z < h. mset (?rs ! z) = mset (rs ! z)" using pm y len by (simp add: nth_list_update)
  qed simp
  then show ?thesis using sr y by (simp add: pixelSort_step_def st split_def)
qed

lemma rows_perm_refl: "\<forall>r \<in> set rs. length r = w \<Longrightarrow> length rs = h \<Longrightarrow> rows_perm w h rs (flat (concat rs))"
  by (auto simp: rows_perm_def)

lemma rows_perm_mset:
  assumes "rows_perm w h rs d'" "length rs = h"
  shows "mset (pixels d') = mset (concat rs)"
proof -
  from assms(1) obtain rs' where d': "d' = flat (concat rs')" and len: "length rs' = h"
      and pm: "\<forall>y < h. mset (rs' ! y) = mset (rs ! y)"
    by (auto simp: rows_perm_def)
  have "map mset rs' = map mset rs"
    using len assms(2) pm by (simp add: list_eq_iff_nth_eq)
  then have "sum_list (map mset rs') = sum_list (map mset rs)" by simp
  then show ?thesis using d' by (simp add: mset_concat)
qed

lemma rows_perm_length: "rows_perm w h rs d \<Longrightarrow> length d = 4 * (w * h)"
proof -
  assume "rows_perm w h rs d"
  then obtain rs' where "d = flat (concat rs')" "length rs' = h" "\<forall>r \<in> set rs'. length r = w"
    by (auto simp: rows_perm_def)
  then show ?thesis using length_concat_rows [of rs' w] by simp
qed

lemma applyPixelSort_rows:
  assumes "\<forall>r \<in> set rs. length r = w" "length rs = h"
  shows "\<exists>d' s'. applyPixelSort (flat (concat rs)) (int w) (int h) t s = Inr (d', s')
                \<and> rows_perm w h rs d'"
proof (cases "t = 0")
  case True
  then show ?thesis using rows_perm_refl [OF assms] by (simp add: applyPixelSort_def)
next
  case False
  let ?n = "nat \<lfloor>real_of_int (int h) * (t / 100)\<rfloor>"
  have "\<exists>st'. foldE (pixelSort_step (int w) (int h)) [0..<?n] (flat (concat rs), s) = Inr st'
              \<and> rows_perm w h rs (fst st')"
  proof (rule foldE_invariant)
    fix r and st :: "buffer \<times> rng"
    assume r: "r \<in> set [0..<?n]" and p: "rows_perm w h rs (fst st)"
    have "0 < h" using r by (cases h) simp_all
    then show "\<exists>st'. pixelSort_step (int w) (int h) r st = Inr st' \<and> rows_perm w h rs (fst st')"
      using pixelSort_step_rows [OF p] by blast
  qed (simp add: rows_perm_refl [OF assms])
  then show ?thesis using False by (auto simp: applyPixelSort_def)
qed

text \<open>C11: on a buffer made of \<open>h\<close> rows of \<open>w\<close> pixels, the pixel sort never throws, and
  every row of the result is a permutation of the same row before.\<close>

theorem applyPixelSort_permutes_rows:
  assumes "\<forall>r \<in> set rs. length r = w" "length rs = h"
  shows "\<exists>d' s'. applyPixelSort (flat (concat rs)) (int w) (int h) t s = Inr (d', s')
                \<and> rows_perm w h rs d'"
  using applyPixelSort_rows [OF assms] .

text \<open>C3: sorting row \<open>y\<close> replaces that row by a permutation of its pixels that is
  sorted by brightness \<open>R + G + B\<close> and keeps pixels of equal brightness in their
  order (stable), and keeps every other row.\<close>

theorem sort_row_correct:
  assumes "\<forall>r \<in> set rs. length r = w" "y < length rs"
  shows "\<exists>S. sort_row (int w) (int y) (flat (concat rs)) = Inr (flat (concat (rs[y := S])))
             \<and> sorted (map pbright S) \<and> mset S = mset (rs ! y)
             \<and> (\<forall>b. filter (\<lambda>p. pbright p = b) S = filter (\<lambda>p. pbright p = b) (rs ! y))"
  using sort_row_rows [OF assms] by (intro exI [of _ "sort_key pbright (rs ! y)"]) (simp add: sort_key_stable)

subsection \<open>Witnesses\<close>

theorem sort_row_correct_witness:
  "\<exists>S. sort_row 2 0 (flat (concat [[\<lparr>red = 9, green = 9, blue = 9, alpha = 1\<rparr>, \<lparr>red = 1, green = 2, blue = 3, alpha = 2\<rparr>]]))
        = Inr (flat (concat [S])) \<and> sorted (map pbright S)
        \<and> mset S = mset [\<lparr>red = 9, green = 9, blue = 9, alpha = 1\<rparr>, \<lparr>red = 1, green = 2, blue = 3, alpha = 2\<rparr>]
        \<and> (\<forall>b. filter (\<lambda>p. pbright p = b) S
               = filter (\<lambda>p. pbright p = b) [\<lparr>red = 9, green = 9, blue = 9, alpha = 1\<rparr>, \<lparr>red = 1, green = 2, blue = 3, alpha = 2\<rparr>])"
  using sort_row_correct [of "[[\<lparr>red = 9, green = 9, blue = 9, alpha = 1\<rparr>, \<lparr>red = 1, green = 2, blue = 3, alpha = 2\<rparr>]]" 2 0]
  by simp

theorem applyPixelSort_permutes_rows_witness:
  "\<exists>d' s'. applyPixelSort (flat (concat [[\<lparr>red = 9, green = 9, blue = 9, alpha = 1\<rparr>, \<lparr>red = 1, green = 2, blue = 3, alpha = 2\<rparr>]]))
              2 1 50 (sconst 0) = Inr (d', s')
     \<and> rows_perm 2 1 [[\<lparr>red = 9, green = 9, blue = 9, alpha = 1\<rparr>, \<lparr>red = 1, green = 2, blue = 3, alpha = 2\<rparr>]] d'"
  using applyPixelSort_permutes_rows [of "[[\<lparr>red = 9, green = 9, blue = 9, alpha = 1\<rparr>, \<lparr>red = 1, green = 2, blue = 3, alpha = 2\<rparr>]]" 2 1 50 "sconst 0"]
  by simp

end
