(* ===== verification/Scanlines.thy ===== *)
theory Scanlines
  imports Prelude
begin

text \<open>
  The scanline pass \<open>applyScanlines\<close> (\<open>src/utils/glitchAlgorithms.ts\<close>, lines
  89--116): every row \<open>y\<close> with \<open>y % lineSkip === 0\<close> has its three colour channels
  multiplied by \<open>factor\<close> and, when a draw falls below \<open>noiseChance\<close>, shifted by a
  second draw's noise in \<open>[-25, 25)\<close>; every store goes through \<open>ToUint8Clamp\<close>.
  The theorem \<open>applyScanlines_frame\<close>: alpha bytes and the bytes of rows off the
  \<open>lineSkip\<close> grid are never changed.
\<close>

definition scan_px :: "real \<Rightarrow> real \<Rightarrow> nat \<Rightarrow> buffer \<times> rng \<Rightarrow> buffer \<times> rng" where
  "scan_px factor noiseChance i st =
     (let (data, s) = st;
          data = data[i := to_u8 (bval (data ! i) * factor),
                      i + 1 := to_u8 (bval (data ! (i + 1)) * factor),
                      i + 2 := to_u8 (bval (data ! (i + 2)) * factor)]
      in if rnd (shd s) < noiseChance
         then let noise = (rnd (shd (stl s)) - 1/2) * 50
              in (data[i := to_u8 (bval (data ! i) + noise),
                       i + 1 := to_u8 (bval (data ! (i + 1)) + noise),
                       i + 2 := to_u8 (bval (data ! (i + 2)) + noise)], stl (stl s))
         else (data, stl s))"

definition scan_row :: "real \<Rightarrow> real \<Rightarrow> nat \<Rightarrow> nat \<Rightarrow> buffer \<times> rng \<Rightarrow> buffer \<times> rng" where
  "scan_row factor noiseChance width y st =
     (let rowStart = y * width * 4
      in fold (scan_px factor noiseChance) (map (\<lambda>j. rowStart + 4 * j) [0..<width]) st)"

definition applyScanlines :: "buffer \<Rightarrow> nat \<Rightarrow> nat \<Rightarrow> real \<Rightarrow> rng \<Rightarrow> buffer \<times> rng" where
  "applyScanlines data width height intensity s =
     (if intensity = 0 then (data, s)
      else let lineSkip = 2 + \<lfloor>(10 - intensity) / 2\<rfloor>;
               factor = 1/2 + (10 - intensity) / 20;
               noiseChance = intensity * 0.01
           in fold (\<lambda>y st. if lineSkip \<noteq> 0 \<and> js_rem (int y) lineSkip = 0
                           then scan_row factor noiseChance width y st else st)
                [0..<height] (data, s))"

lemma fold_keeps_nth:
  assumes "\<And>x st. x \<in> set xs \<Longrightarrow> fst (f x st) ! j = fst st ! j"
  shows "fst (fold f xs st) ! j = fst st ! j"
  using assms by (induction xs arbitrary: st) simp_all

lemma fold_keeps_length:
  assumes "\<And>x st. x \<in> set xs \<Longrightarrow> length (fst (f x st)) = length (fst st)"
  shows "length (fst (fold f xs st)) = length (fst st)"
  using assms by (induction xs arbitrary: st) simp_all

lemma scan_px_length [simp]: "length (fst (scan_px f n i st)) = length (fst st)"
  by (simp add: scan_px_def split_def Let_def)

lemma scan_px_nth:
  "j \<noteq> i \<Longrightarrow> j \<noteq> i + 1 \<Longrightarrow> j \<noteq> i + 2 \<Longrightarrow> fst (scan_px f n i st) ! j = fst st ! j"
  by (simp add: scan_px_def split_def Let_def)

lemma scan_row_length: "length (fst (scan_row f n w y st)) = length (fst st)"
  unfolding scan_row_def Let_def by (rule fold_keeps_length) simp

lemma scan_row_nth:
  assumes "j mod 4 = 3 \<or> j div 4 div w \<noteq> y"
  shows "fst (scan_row f n w y st) ! j = fst st ! j"
  unfolding scan_row_def Let_def
proof (rule fold_keeps_nth)
  fix x and st' :: "buffer \<times> rng"
  assume "x \<in> set (map (\<lambda>k. y * w * 4 + 4 * k) [0..<w])"
  then obtain k where x: "x = y * w * 4 + 4 * k" and k: "k < w" by auto
  have "j \<noteq> x \<and> j \<noteq> x + 1 \<and> j \<noteq> x + 2"
  proof (cases "j mod 4 = 3")
    case True
    then show ?thesis using x by presburger
  next
    case False
    with assms have "j div 4 div w \<noteq> y" by simp
    moreover have row: "(x + c) div 4 div w = y" if "c < 3" for c
    proof -
      have "(x + c) div 4 = y * w + k" using x that by simp
      then show ?thesis using k by simp
    qed
    ultimately show ?thesis
      using row [of 0] row [of 1] row [of 2] by (auto simp: numeral_2_eq_2)
  qed
  then show "fst (scan_px f n x st') ! j = fst st' ! j" by (simp add: scan_px_nth)
qed

lemma length_applyScanlines [buffer_len]: "length (fst (applyScanlines d w h intensity s)) = length d"
proof -
  have "length (fst (fold f [0..<h] (d, s))) = length d"
    if "\<And>y st. length (fst (f y st)) = length (fst st)" for f :: "nat \<Rightarrow> buffer \<times> rng \<Rightarrow> buffer \<times> rng"
    using fold_keeps_length [of _ f] that by fastforce
  then show ?thesis by (simp add: applyScanlines_def Let_def scan_row_length)
qed

lemma to_u8_scale_le: "0 \<le> f \<Longrightarrow> f \<le> 1 \<Longrightarrow> to_u8 (bval b * f) \<le> b"
proof -
  assume "0 \<le> f" "f \<le> 1"
  then have "bval b * f \<le> bval b"
    using bval_nonneg [of b] by (simp add: mult_left_le)
  then show ?thesis using to_u8_mono by fastforce
qed

lemma scanline_factor:
  "0 \<le> intensity \<Longrightarrow> intensity \<le> 10 \<Longrightarrow> 0 \<le> 1/2 + (10 - intensity) / 20 \<and> 1/2 + (10 - intensity) / 20 \<le> (1::real)"
  by (simp add: field_simps)

text \<open>At a scanline intensity in \<open>[0, 10]\<close>, a pixel of a processed row whose
  noise draw fails (the first draw is at least \<open>noiseChance = intensity * 0.01\<close>)
  consumes one draw, keeps its alpha, and has each colour channel replaced by the
  stored product with \<open>factor = 0.5 + (10 - intensity) / 20\<close>, never brighter than
  before.\<close>

theorem scan_px_darkens:
  assumes "0 \<le> intensity" "intensity \<le> 10" "intensity * 0.01 \<le> rnd (shd s)" "i + 2 < length d"
  shows "snd (scan_px (1/2 + (10 - intensity) / 20) (intensity * 0.01) i (d, s)) = stl s
         \<and> list_all (\<lambda>c. fst (scan_px (1/2 + (10 - intensity) / 20) (intensity * 0.01) i (d, s)) ! (i + c)
                          = to_u8 (bval (d ! (i + c)) * (1/2 + (10 - intensity) / 20))
                        \<and> fst (scan_px (1/2 + (10 - intensity) / 20) (intensity * 0.01) i (d, s)) ! (i + c)
                          \<le> d ! (i + c)) [0, 1, 2]
         \<and> fst (scan_px (1/2 + (10 - intensity) / 20) (intensity * 0.01) i (d, s)) ! (i + 3) = d ! (i + 3)"
proof -
  have f: "0 \<le> 1/2 + (10 - intensity) / 20" "1/2 + (10 - intensity) / 20 \<le> (1::real)"
    using scanline_factor [OF assms(1,2)] by simp_all
  show ?thesis
    using assms(3,4) to_u8_scale_le [OF f]
    by (simp add: scan_px_def Let_def nth_list_update del: times_divide_eq_left)
qed

text \<open>C14: the scanline pass changes no alpha byte and no byte of a row off the
  \<open>lineSkip\<close> grid (rows \<open>y\<close> with \<open>y % lineSkip \<noteq> 0\<close>), and keeps the buffer length.\<close>

theorem applyScanlines_frame:
  assumes "j mod 4 = 3 \<or> js_rem (int (j div 4 div w)) (2 + \<lfloor>(10 - intensity) / 2\<rfloor>) \<noteq> 0"
  shows "length (fst (applyScanlines d w h intensity s)) = length d
         \<and> fst (applyScanlines d w h intensity s) ! j = d ! j"
proof (cases "intensity = 0")
  case False
  let ?step = "\<lambda>y st. if 2 + \<lfloor>(10 - intensity) / 2\<rfloor> \<noteq> 0 \<and> js_rem (int y) (2 + \<lfloor>(10 - intensity) / 2\<rfloor>) = 0
                   then scan_row (1/2 + (10 - intensity) / 20) (intensity * 0.01) w y st else st"
  have "fst (fold ?step [0..<h] (d, s)) ! j = fst (d, s) ! j"
  proof (rule fold_keeps_nth)
    fix y and st :: "buffer \<times> rng"
    show "fst (?step y st) ! j = fst st ! j"
      using assms by (auto intro: scan_row_nth)
  qed
  then show ?thesis using False length_applyScanlines [of d w h intensity s]
    unfolding applyScanlines_def Let_def if_not_P [OF False] fst_conv by blast
qed (simp add: applyScanlines_def)

subsection \<open>Witnesses\<close>

theorem scan_px_darkens_witness:
  "0 \<le> (10::real) \<and> (10::real) \<le> 10 \<and> 10 * 0.01 \<le> rnd (shd (sconst (2 ^ 51)))
   \<and> 0 + 2 < length [200, 100, 51, 7 :: byte]
   \<and> snd (scan_px (1/2 + (10 - 10) / 20) (10 * 0.01) 0 ([200, 100, 51, 7], sconst (2 ^ 51))) = stl (sconst (2 ^ 51))
   \<and> list_all (\<lambda>c. fst (scan_px (1/2 + (10 - 10) / 20) (10 * 0.01) 0 ([200, 100, 51, 7], sconst (2 ^ 51))) ! (0 + c)
                     = to_u8 (bval ([200, 100, 51, 7] ! (0 + c)) * (1/2 + (10 - 10) / 20))
                   \<and> fst (scan_px (1/2 + (10 - 10) / 20) (10 * 0.01) 0 ([200, 100, 51, 7], sconst (2 ^ 51))) ! (0 + c)
                     \<le> [200, 100, 51, 7] ! (0 + c)) [0, 1, 2]
   \<and> fst (scan_px (1/2 + (10 - 10) / 20) (10 * 0.01) 0 ([200, 100, 51, 7], sconst (2 ^ 51))) ! (0 + 3)
       = [200, 100, 51, 7 :: byte] ! (0 + 3)"
proof -
  have h1: "0 \<le> (10::real)" and h2: "(10::real) \<le> 10" by simp_all
  have h3: "10 * 0.01 \<le> rnd (shd (sconst (2 ^ 51 :: 52 word)))" by (simp add: rnd_def)
  have h4: "0 + 2 < length [200, 100, 51, 7 :: byte]" by simp
  show ?thesis using h1 h2 h3 h4 scan_px_darkens [OF h1 h2 h3 h4] by blast
qed

theorem applyScanlines_frame_witness:
  "(4 mod 4 = (3::nat) \<or> js_rem (int (4 div 4 div 1)) (2 + \<lfloor>(10 - 10) / 2\<rfloor>) \<noteq> 0)
   \<and> length (fst (applyScanlines [1, 2, 3, 4, 5, 6, 7, 8] 1 2 10 (sconst 0))) = 8
   \<and> fst (applyScanlines [1, 2, 3, 4, 5, 6, 7, 8] 1 2 10 (sconst 0)) ! 4 = 5"
  using applyScanlines_frame [of 4 1 10 "[1, 2, 3, 4, 5, 6, 7, 8]" 2 "sconst 0"]
  by (simp add: js_rem_def)

end
