(* ===== verification/Glitch.thy ===== *)
theory Glitch
  imports Params Glitch_Shift Pixel_Sort Scanlines
begin

text \<open>
  \<open>processImage\<close> (\<open>src/utils/glitchAlgorithms.ts\<close>, lines 166--182), the glitch
  stage: it reads the canvas with \<open>getImageData(0, 0, width, height)\<close>, runs the
  pixel sort, the block shift, the RGB shift and the scanlines on the same buffer in
  that order, threading \<open>Math.random()\<close> through them, and writes the buffer back.
  The canvas is its \<open>width * height * 4\<close> bytes (\<open>renderCanvas\<close> sizes it to
  exactly \<open>w\<close> by \<open>h\<close> before calling), so the written-back buffer is the new canvas.
\<close>

definition processImage ::
  "buffer \<Rightarrow> nat \<Rightarrow> nat \<Rightarrow> glitch_params \<Rightarrow> rng \<Rightarrow> js_error + buffer \<times> rng" where
  "processImage canvas width height params s =
     (case getImageData width height canvas of
        Inl e \<Rightarrow> Inl e
      | Inr data \<Rightarrow>
          (case applyPixelSort data (int width) (int height) (gt_pixelSort params) s of
             Inl e \<Rightarrow> Inl e
           | Inr (d1, s1) \<Rightarrow>
               (case applyBlockShift d1 (int width) (int height) (gt_blockShift params) (gt_seed params) s1 of
                  Inl e \<Rightarrow> Inl e
                | Inr (d2, s2) \<Rightarrow>
                    (let d3 = applyRGBShift d2 (int width) (int height) (gt_rgbShift params)
                     in Inr (applyScanlines d3 width height (gt_scanlines params) s2)))))"

lemma applyPixelSort_frame:
  assumes "length d = 4 * (w * h)"
  shows "\<exists>d' s'. applyPixelSort d (int w) (int h) t s = Inr (d', s') \<and> length d' = length d"
proof -
  obtain rs where rs: "pixels d = concat rs" "length rs = h" "\<forall>r \<in> set rs. length r = w"
    using rows_exist [of "pixels d" w h] assms by (auto simp: length_pixels)
  have d: "d = flat (concat rs)"
    using assms rs(1) flat_pixels [of d] by simp
  show ?thesis
    using applyPixelSort_rows [OF rs(3,2), of t s] rows_perm_length assms by (auto simp: d)
qed

lemma processImage_frame:
  assumes "0 < width" "0 < height" "length d = 4 * (width * height)"
  shows "\<exists>d' s'. processImage d width height p s = Inr (d', s') \<and> length d' = length d"
proof -
  obtain d1 s1 where 1: "applyPixelSort d (int width) (int height) (gt_pixelSort p) s = Inr (d1, s1)"
    and l1: "length d1 = length d"
    using applyPixelSort_frame [OF assms(3)] by blast
  obtain d2 s2 where 2: "applyBlockShift d1 (int width) (int height) (gt_blockShift p) (gt_seed p) s1 = Inr (d2, s2)"
    and l2: "length d2 = length d1"
    using applyBlockShift_ok [of "int width" d1 "int height" "gt_blockShift p" "gt_seed p" s1] by auto
  show ?thesis
    using assms(1,2) 1 2 l1 l2
    by (simp add: processImage_def getImageData_def)
       (metis length_applyRGBShift length_applyScanlines prod.collapse)
qed

text \<open>C5: on a non-empty frame whose buffer has \<open>width * height * 4\<close> bytes, the glitch
  stage never throws, for all parameters and every random stream, and gives a buffer of
  the same size.\<close>

theorem processImage_ok:
  assumes "0 < width" "0 < height" "length d = 4 * (width * height)"
  shows "\<exists>d' s'. processImage d width height p s = Inr (d', s') \<and> length d' = length d"
  using processImage_frame [OF assms] .

text \<open>C24: the glitch stage throws \<open>IndexSizeError\<close> on a frame of zero width or height
  (the exception of \<open>getImageData\<close>); no pass runs.\<close>

theorem processImage_degenerate:
  assumes "width = 0 \<or> height = 0"
  shows "processImage d width height p s = Inl IndexSizeError"
  using assms by (auto simp: processImage_def getImageData_def)

text \<open>C23: with all four glitch parameters at their neutral value 0 the glitch stage on
  a non-empty frame is the identity and draws no random number.\<close>

theorem processImage_neutral:
  assumes "0 < width" "0 < height"
    and "gt_pixelSort p = 0" "gt_blockShift p = 0" "gt_rgbShift p = 0" "gt_scanlines p = 0"
  shows "processImage d width height p s = Inr (d, s)"
  using assms
  by (simp add: processImage_def getImageData_def applyPixelSort_def applyBlockShift_def
                applyRGBShift_def applyScanlines_def)

subsection \<open>Witnesses\<close>

theorem processImage_ok_witness:
  "\<exists>d' s'. processImage [1, 2, 3, 4] 1 1
             \<lparr>gt_amount = 0, gt_seed = 0, gt_iterations = 0, gt_quality = 0,
              gt_rgbShift = 5, gt_blockShift = 10, gt_scanlines = 2, gt_pixelSort = 0\<rparr> (sconst 0)
           = Inr (d', s') \<and> length d' = length [1, 2, 3, 4 :: byte]"
  using processImage_ok [of 1 1 "[1, 2, 3, 4]"] by simp

theorem processImage_degenerate_witness:
  "((0::nat) = 0 \<or> (5::nat) = 0)
   \<and> processImage [] 0 5 \<lparr>gt_amount = 0, gt_seed = 0, gt_iterations = 0, gt_quality = 0,
              gt_rgbShift = 5, gt_blockShift = 10, gt_scanlines = 2, gt_pixelSort = 0\<rparr> (sconst 0)
     = Inl IndexSizeError"
  using processImage_degenerate [of 0 5] by simp

theorem processImage_neutral_witness:
  "processImage [1, 2, 3, 4] 1 1
     \<lparr>gt_amount = 30, gt_seed = 7, gt_iterations = 0, gt_quality = 0,
      gt_rgbShift = 0, gt_blockShift = 0, gt_scanlines = 0, gt_pixelSort = 0\<rparr> (sconst 0)
   = Inr ([1, 2, 3, 4], sconst 0)"
  using processImage_neutral [of 1 1] by simp

end
