(* ===== verification/Blend.thy ===== *)
theory Blend
  imports Params
begin

text \<open>
  The blend stage \<open>renderBlend\<close> (\<open>src/utils/glitchAlgorithms.ts\<close>, lines 184--298):
  it reads the canvas (\<open>targetData\<close>), returns if there is no second source, draws
  the second source resized to the frame and reads it back (\<open>blendData\<close>; the
  resampling is the browser's, so the model takes the resized raster as an input of
  the same size), then runs one of four per-mode loops on \<open>targetData\<close> and writes
  it back.  Displacement and difference draw one \<open>Math.random()\<close> per pixel; hard mix
  and interlace draw none.  \<open>globalParams\<close> is not read by the function.
\<close>

definition displacement_body ::
  "buffer \<Rightarrow> buffer \<Rightarrow> int \<Rightarrow> int \<Rightarrow> real \<Rightarrow> real \<Rightarrow> nat \<Rightarrow> buffer \<times> rng \<Rightarrow> buffer \<times> rng" where
  "displacement_body blendData buffer width height displacementScale mix i st =
     (let (targetData, s) = st;
          br = bval (blendData ! i);
          shiftX = \<lfloor>(br / 127.5 - 1) * displacementScale\<rfloor>;
          shiftY = \<lfloor>(bval (blendData ! (i + 1)) / 127.5 - 1) * displacementScale\<rfloor>;
          pixelIndex = ushr32 (int i) 2;
          x = js_rem pixelIndex width;
          y = (pixelIndex - x) div width;
          srcX0 = x + shiftX;
          srcY0 = y + shiftY;
          srcX = (if srcX0 < 0 then 0 else if width \<le> srcX0 then width - 1 else srcX0);
          srcY = (if srcY0 < 0 then 0 else if height \<le> srcY0 then height - 1 else srcY0);
          srcIdx = shl32 (srcY * width + srcX) 2
      in if 1 - mix < rnd (shd s)
         then (targetData[i := ta_read buffer srcIdx, i + 1 := ta_read buffer (srcIdx + 1),
                          i + 2 := ta_read buffer (srcIdx + 2)], stl s)
         else (targetData, stl s))"

definition difference_body :: "buffer \<Rightarrow> real \<Rightarrow> nat \<Rightarrow> buffer \<times> rng \<Rightarrow> buffer \<times> rng" where
  "difference_body blendData mix i st =
     (let (targetData, s) = st
      in if rnd (shd s) < mix
         then (targetData[i := to_u8 \<bar>bval (targetData ! i) - bval (blendData ! i)\<bar>,
                          i + 1 := to_u8 \<bar>bval (targetData ! (i + 1)) - bval (blendData ! (i + 1))\<bar>,
                          i + 2 := to_u8 \<bar>bval (targetData ! (i + 2)) - bval (blendData ! (i + 2))\<bar>], stl s)
         else (targetData, stl s))"

text \<open>\<open>(a + b) >> 1\<close> on two bytes is \<open>(a + b) div 2\<close>.\<close>

definition hardMix_body :: "buffer \<Rightarrow> real \<Rightarrow> real \<Rightarrow> nat \<Rightarrow> buffer \<Rightarrow> buffer" where
  "hardMix_body blendData thresh mix255 i targetData =
     (let r = real ((unat (targetData ! i) + unat (blendData ! i)) div 2);
          g = real ((unat (targetData ! (i + 1)) + unat (blendData ! (i + 1))) div 2);
          b = real ((unat (targetData ! (i + 2)) + unat (blendData ! (i + 2))) div 2);
          push = (\<lambda>v. if thresh < v then min 255 (v + mix255) else max 0 (v - mix255))
      in targetData[i := to_u8 (push r), i + 1 := to_u8 (push g), i + 2 := to_u8 (push b)])"

definition interlace_row :: "buffer \<Rightarrow> nat \<Rightarrow> nat \<Rightarrow> buffer \<Rightarrow> buffer" where
  "interlace_row blendData width y targetData =
     (let rowStart = y * width * 4; rowEnd = rowStart + width * 4
      in fold (\<lambda>j t. t[j := blendData ! j]) [rowStart..<rowEnd] targetData)"

definition applyBlend :: "buffer \<Rightarrow> buffer \<Rightarrow> nat \<Rightarrow> nat \<Rightarrow> blend_params \<Rightarrow> rng \<Rightarrow> buffer \<times> rng" where
  "applyBlend targetData blendData width height params s =
     (let len = length targetData;
          mix = bl_mix params / 100;
          displacementScale = bl_scale params * 2;
          thresh = bl_threshold params;
          mix255 = mix * 255;
          rowHeight = max 1 \<lfloor>bl_scale params / 10\<rfloor>
      in case bl_mode params of
           Displacement \<Rightarrow>
             (let buffer = targetData
              in fold (displacement_body blendData buffer (int width) (int height) displacementScale mix)
                   (byte_offsets len) (targetData, s))
         | Difference \<Rightarrow>
             (if 0 < mix then fold (difference_body blendData mix) (byte_offsets len) (targetData, s)
              else (targetData, s))
         | HardMix \<Rightarrow> (fold (hardMix_body blendData thresh mix255) (byte_offsets len) targetData, s)
         | Interlace \<Rightarrow>
             (fold (\<lambda>y t. if js_rem \<lfloor>real y / real_of_int rowHeight\<rfloor> 2 = 0 \<and> 0.1 < mix
                          then interlace_row blendData width y t else t)
                [0..<height] targetData, s))"

definition renderBlend ::
  "buffer \<Rightarrow> buffer option \<Rightarrow> nat \<Rightarrow> nat \<Rightarrow> blend_params \<Rightarrow> rng \<Rightarrow> js_error + buffer \<times> rng" where
  "renderBlend canvas img2 width height params s =
     (case getImageData width height canvas of
        Inl e \<Rightarrow> Inl e
      | Inr targetData \<Rightarrow>
          (case img2 of
             None \<Rightarrow> Inr (canvas, s)
           | Some blendData \<Rightarrow> Inr (applyBlend targetData blendData width height params s)))"


text \<open>Per-pixel references for the two deterministic colour modes.\<close>

definition hardmix_pixel :: "real \<Rightarrow> real \<Rightarrow> rgba \<Rightarrow> rgba \<Rightarrow> rgba" where
  "hardmix_pixel thresh mix255 p b =
     (let push = (\<lambda>v. if thresh < v then min 255 (v + mix255) else max 0 (v - mix255));
          ch = (\<lambda>x y. to_u8 (push (real ((unat x + unat y) div 2))))
      in p\<lparr>red := ch (red p) (red b), green := ch (green p) (green b), blue := ch (blue p) (blue b)\<rparr>)"

definition absdiff :: "byte \<Rightarrow> byte \<Rightarrow> byte" where
  "absdiff a b = (if b \<le> a then a - b else b - a)"

definition diff_pixel :: "rgba \<Rightarrow> rgba \<Rightarrow> rgba" where
  "diff_pixel p b =
     p\<lparr>red := absdiff (red p) (red b), green := absdiff (green p) (green b), blue := absdiff (blue p) (blue b)\<rparr>"

text \<open>The displacement relation: a pixel is kept, or takes the colour of a pixel of
  \<open>ps\<close> at most \<open>bound\<close> columns and rows away.\<close>

definition displaced :: "nat \<Rightarrow> int \<Rightarrow> rgba list \<Rightarrow> nat \<Rightarrow> rgba \<Rightarrow> rgba \<Rightarrow> bool" where
  "displaced w bound ps k old new \<longleftrightarrow>
     new = old
     \<or> (\<exists>j \<in> set [0..<length ps].
          new = old\<lparr>red := red (ps ! j), green := green (ps ! j), blue := blue (ps ! j)\<rparr>
          \<and> \<bar>int (j mod w) - int (k mod w)\<bar> \<le> bound \<and> \<bar>int (j div w) - int (k div w)\<bar> \<le> bound)"

lemma hardMix_body_local:
  "k < length bs \<Longrightarrow> length d = 4 * length bs \<Longrightarrow>
   hardMix_body (flat bs) th m (4 * k) d = px_put (4 * k) (hardmix_pixel th m (px_get d (4 * k)) (bs ! k)) d"
  by (simp add: hardMix_body_def hardmix_pixel_def px_put_rgb px_get_def flat_nth_px_Suc Let_def)

lemma applyBlend_hardMix:
  assumes "bl_mode p = HardMix" "length bs = length ps"
  shows "applyBlend (flat ps) (flat bs) w h p s
           = (flat (map2 (hardmix_pixel (bl_threshold p) (bl_mix p / 100 * 255)) ps bs), s)"
proof -
  let ?g = "\<lambda>k q. hardmix_pixel (bl_threshold p) (bl_mix p / 100 * 255) q (bs ! k)"
  have "fold (hardMix_body (flat bs) (bl_threshold p) (bl_mix p / 100 * 255)) (byte_offsets (4 * length ps)) (flat ps)
          = flat (map2 ?g [0..<length ps] ps)"
    by (rule fold_pixel_map) (use assms(2) in \<open>simp add: hardMix_body_local\<close>)
  moreover have "map2 ?g [0..<length ps] ps = map2 (hardmix_pixel (bl_threshold p) (bl_mix p / 100 * 255)) ps bs"
    using assms(2) by (intro nth_equalityI) simp_all
  ultimately show ?thesis using assms(1) by (simp add: applyBlend_def Let_def)
qed

lemma to_u8_absdiff: "to_u8 \<bar>bval a - bval b\<bar> = absdiff a b"
proof (cases "b \<le> a")
  case True
  then have "\<bar>bval a - bval b\<bar> = bval (a - b)"
    by (simp add: bval_def unat_sub of_nat_diff word_le_nat_alt del: of_nat_unat)
  then show ?thesis using True by (simp add: absdiff_def)
next
  case False
  then have "\<bar>bval a - bval b\<bar> = bval (b - a)"
    by (simp add: bval_def unat_sub of_nat_diff word_le_nat_alt del: of_nat_unat)
  then show ?thesis using False by (simp add: absdiff_def)
qed

lemma applyBlend_difference_full:
  assumes "bl_mode p = Difference" "bl_mix p = 100" "length bs = length ps"
  shows "fst (applyBlend (flat ps) (flat bs) w h p s) = flat (map2 diff_pixel ps bs)"
proof -
  let ?h = "\<lambda>i d. d[i := to_u8 \<bar>bval (d ! i) - bval (flat bs ! i)\<bar>,
                    i + 1 := to_u8 \<bar>bval (d ! (i + 1)) - bval (flat bs ! (i + 1))\<bar>,
                    i + 2 := to_u8 \<bar>bval (d ! (i + 2)) - bval (flat bs ! (i + 2))\<bar>]"
  have det: "fst (difference_body (flat bs) 1 i st) = ?h i (fst st)" for i st
    using rnd_less_1 [of "shd (snd st)"] by (simp add: difference_body_def split_def)
  have "fold ?h (byte_offsets (4 * length ps)) (flat ps) = flat (map2 (\<lambda>k q. diff_pixel q (bs ! k)) [0..<length ps] ps)"
    by (rule fold_pixel_map)
       (use assms(3) in \<open>simp add: px_put_rgb px_get_def flat_nth_px_Suc to_u8_absdiff diff_pixel_def\<close>)
  moreover have "map2 (\<lambda>k q. diff_pixel q (bs ! k)) [0..<length ps] ps = map2 diff_pixel ps bs"
    using assms(3) by (intro nth_equalityI) simp_all
  ultimately show ?thesis
    using assms(1,2) fold_fst [of "byte_offsets (4 * length ps)" "difference_body (flat bs) 1" ?h "(flat ps, s)"] det
    by (simp add: applyBlend_def Let_def)
qed

lemma fold_copy_nth:
  "i < length t \<Longrightarrow> fold (\<lambda>j t. t[j := b ! j]) xs t ! i = (if i \<in> set xs then b ! i else t ! i)"
  by (induction xs arbitrary: t) (auto simp: nth_list_update)

lemma fold_copy_keep: "i \<notin> set xs \<Longrightarrow> fold (\<lambda>j t. t[j := b ! j]) xs t ! i = t ! i"
  by (induction xs arbitrary: t) auto

lemma length_interlace_row [simp]: "length (interlace_row b w y t) = length t"
proof -
  have "length (fold (\<lambda>j t. t[j := b ! j]) xs t) = length t" for xs :: "nat list" and t :: buffer
    by (induction xs arbitrary: t) simp_all
  then show ?thesis by (simp add: interlace_row_def Let_def)
qed

lemma length_displacement_body [buffer_len]:
  "length (fst (displacement_body bd buf w h sc m i st)) = length (fst st)"
  by (simp add: displacement_body_def Let_def split: prod.split)

lemma length_difference_body [buffer_len]: "length (fst (difference_body bd m i st)) = length (fst st)"
  by (simp add: difference_body_def Let_def split: prod.split)

lemma length_applyBlend [buffer_len]: "length (fst (applyBlend t b w h p s)) = length t"
proof (cases "bl_mode p")
  case Displacement
  then show ?thesis
    by (simp add: applyBlend_def Let_def length_fold_fst length_displacement_body)
next
  case Difference
  then show ?thesis
    by (simp add: applyBlend_def Let_def length_fold_fst length_difference_body)
qed (auto simp: applyBlend_def Let_def hardMix_body_def intro!: length_fold)

text \<open>On a non-empty frame the blend stage returns a frame of the same size.\<close>

lemma renderBlend_frame:
  assumes "0 < w" "0 < h"
  shows "\<exists>c' s'. renderBlend c img w h p s = Inr (c', s') \<and> length c' = length c"
proof (cases img)
  case (Some b)
  then show ?thesis
    using assms length_applyBlend [of c b w h p s]
    by (simp add: renderBlend_def getImageData_def) (metis prod.collapse)
qed (use assms in \<open>simp add: renderBlend_def getImageData_def\<close>)

lemma row_bytes:
  fixes w :: nat
  assumes w: "0 < w"
  shows "(y * w * 4 \<le> j \<and> j < y * w * 4 + w * 4) = (j div 4 div w = y)"
proof -
  have c: "0 < 4 * w" using w by simp
  have "(y * (4 * w) \<le> j \<and> j < y * (4 * w) + 4 * w) = (j div (4 * w) = y)"
  proof
    assume "y * (4 * w) \<le> j \<and> j < y * (4 * w) + 4 * w"
    then show "j div (4 * w) = y" by (intro div_nat_eqI) (simp_all add: mult.commute)
  next
    assume y: "j div (4 * w) = y"
    have "y * (4 * w) + j mod (4 * w) = j" using div_mult_mod_eq [of j "4 * w"] y by simp
    then show "y * (4 * w) \<le> j \<and> j < y * (4 * w) + 4 * w"
      using mod_less_divisor [OF c, of j] by linarith
  qed
  moreover have "y * (4 * w) = y * w * 4" "4 * w = w * 4" by simp_all
  moreover have "j div (4 * w) = j div 4 div w" by (simp add: div_mult2_eq)
  ultimately show ?thesis by (simp only: mult.assoc)
qed

lemma interlace_row_nth:
  "j < length t \<Longrightarrow> 0 < w \<Longrightarrow> interlace_row b w y t ! j = (if j div 4 div w = y then b ! j else t ! j)"
  by (simp add: interlace_row_def Let_def fold_copy_nth row_bytes)

lemma interlace_row_keep: "0 < w \<Longrightarrow> j div 4 div w \<noteq> y \<Longrightarrow> interlace_row b w y t ! j = t ! j"
  by (simp add: interlace_row_def Let_def fold_copy_keep row_bytes)

lemma interlace_band:
  assumes "1 \<le> rh"
  shows "(js_rem \<lfloor>real r / real_of_int rh\<rfloor> 2 = 0) = even (r div nat rh)"
proof -
  have "\<lfloor>real r / real_of_int rh\<rfloor> = int r div rh"
    using floor_divide_of_int_eq [of "int r" rh] by simp
  also have "\<dots> = int (r div nat rh)" using assms by (simp add: zdiv_int)
  finally show ?thesis by (simp add: js_rem_nonneg even_iff_mod_2_eq_zero) presburger
qed

lemma applyBlend_interlace_nth:
  assumes "bl_mode p = Interlace" "0 < w" "length t = 4 * (w * h)" "j < length t"
  shows "applyBlend t b w h p s
           = (fold (\<lambda>y t'. if js_rem \<lfloor>real y / real_of_int (max 1 \<lfloor>bl_scale p / 10\<rfloor>)\<rfloor> 2 = 0
                              \<and> 0.1 < bl_mix p / 100
                           then interlace_row b w y t' else t') [0..<h] t, s)"
    and "length (fst (applyBlend t b w h p s)) = length t"
    and "fst (applyBlend t b w h p s) ! j
           = (if 10 < bl_mix p \<and> even (j div 4 div w div nat (max 1 \<lfloor>bl_scale p / 10\<rfloor>))
              then b ! j else t ! j)"
proof -
  let ?rh = "max 1 \<lfloor>bl_scale p / 10\<rfloor>"
  let ?c = "\<lambda>y. js_rem \<lfloor>real y / real_of_int ?rh\<rfloor> 2 = 0 \<and> 0.1 < bl_mix p / 100"
  let ?step = "\<lambda>y t'. if ?c y then interlace_row b w y t' else t'"
  let ?r = "j div 4 div w"
  show app: "applyBlend t b w h p s = (fold ?step [0..<h] t, s)"
    using assms(1) by (simp add: applyBlend_def Let_def)
  have r: "?r < h"
    using assms(2-4) by (simp add: div_less_iff_less_mult mult.commute mult.left_commute)
  have split: "[0..<h] = [0..<?r] @ ?r # [Suc ?r..<h]"
    using r by (rule upt_split_at)
  have keep: "fold ?step ys d ! j = d ! j" if "?r \<notin> set ys" for ys d
  proof (rule fold_nth_keep)
    fix y d'
    assume "y \<in> set ys"
    then have "?r \<noteq> y" using that by blast
    then show "?step y d' ! j = d' ! j" using assms(2) by (simp add: interlace_row_keep)
  qed
  have len: "length (fold ?step ys d) = length d" for ys d
    by (rule length_fold) simp
  show "length (fst (applyBlend t b w h p s)) = length t" using app len by simp
  have "fold ?step [0..<h] t = fold ?step [Suc ?r..<h] (?step ?r (fold ?step [0..<?r] t))"
    by (subst split) (simp only: fold_append fold_simps comp_apply)
  then have "fold ?step [0..<h] t ! j = ?step ?r (fold ?step [0..<?r] t) ! j"
    using keep [of "[Suc ?r..<h]"] by simp
  also have "\<dots> = (if ?c ?r then b ! j else t ! j)"
  proof (cases "?c ?r")
    case True
    have "j < length (fold ?step [0..<?r] t)" using assms(4) len [of "[0..<?r]" t] by simp
    then show ?thesis
      using assms(2) by (subst (1 2) if_P [OF True]) (simp add: interlace_row_nth)
  next
    case False
    show ?thesis using keep [of "[0..<?r]" t] by (subst (1 2) if_not_P [OF False]) simp
  qed
  also have "?c ?r = (10 < bl_mix p \<and> even (?r div nat ?rh))"
    using interlace_band [of ?rh ?r] by (simp add: conj_commute)
  finally show "fst (applyBlend t b w h p s) ! j
           = (if 10 < bl_mix p \<and> even (j div 4 div w div nat ?rh) then b ! j else t ! j)"
    using app by simp
qed

lemma hardmix_full_channel:
  assumes "n \<le> 510"
  shows "to_u8 (if th < real (n div 2) then min 255 (real (n div 2) + 255) else max 0 (real (n div 2) - 255))
           \<in> {0, 255}"
proof -
  have "real (n div 2) \<le> 255" using assms by simp
  then show ?thesis by auto
qed

lemma hardmix_pixel_full:
  "red (hardmix_pixel th 255 p b) \<in> {0, 255} \<and> green (hardmix_pixel th 255 p b) \<in> {0, 255}
   \<and> blue (hardmix_pixel th 255 p b) \<in> {0, 255} \<and> alpha (hardmix_pixel th 255 p b) = alpha p"
proof -
  have b: "unat x \<le> 255" for x :: byte
    using bval_le_255 [of x] by (simp add: bval_def del: of_nat_unat)
  have "unat x + unat y \<le> (510::nat)" for x y :: byte
    using b [of x] b [of y] by simp
  then show ?thesis unfolding hardmix_pixel_def Let_def using hardmix_full_channel by simp
qed

lemma clamp_dist:
  fixes x sh W :: int
  assumes "0 \<le> x" "x < W"
  shows "0 \<le> (if x + sh < 0 then 0 else if W \<le> x + sh then W - 1 else x + sh)
         \<and> (if x + sh < 0 then 0 else if W \<le> x + sh then W - 1 else x + sh) < W
         \<and> \<bar>(if x + sh < 0 then 0 else if W \<le> x + sh then W - 1 else x + sh) - x\<bar> \<le> \<bar>sh\<bar>"
  using assms by auto

lemma shift_bound:
  assumes "0 \<le> D"
  shows "\<bar>\<lfloor>(bval b / 127.5 - 1) * D\<rfloor>\<bar> \<le> \<lceil>D\<rceil>"
proof -
  have "0 \<le> bval b" "bval b \<le> 255" by (rule bval_nonneg, rule bval_le_255)
  then have u: "\<bar>bval b / 127.5 - 1\<bar> \<le> 1" by (simp add: abs_le_iff field_simps)
  have "\<bar>(bval b / 127.5 - 1) * D\<bar> \<le> D"
    using mult_right_mono [OF u assms] assms by (simp add: abs_mult)
  then have "- D \<le> (bval b / 127.5 - 1) * D" "(bval b / 127.5 - 1) * D \<le> D"
    by (simp_all only: abs_le_iff) linarith+
  then have "- \<lceil>D\<rceil> \<le> \<lfloor>(bval b / 127.5 - 1) * D\<rfloor>" "\<lfloor>(bval b / 127.5 - 1) * D\<rfloor> \<le> \<lceil>D\<rceil>"
    using floor_mono [of "- D" "(bval b / 127.5 - 1) * D"] floor_mono [of "(bval b / 127.5 - 1) * D" D]
          floor_le_ceiling [of D] by (simp_all add: ceiling_def)
  then show ?thesis by linarith
qed


lemma cell_index:
  fixes cx cy :: int
  assumes "0 \<le> cx" "cx < int w" "0 \<le> cy" "cy < int h"
  shows "nat (cy * int w + cx) < w * h \<and> nat (cy * int w + cx) mod w = nat cx
         \<and> nat (cy * int w + cx) div w = nat cy"
proof -
  have e: "nat (cy * int w + cx) = nat cy * w + nat cx" using assms by (simp add: nat_add_distrib nat_mult_distrib)
  have "nat cy * w + nat cx < w * h"
  proof -
    have "nat cy + 1 \<le> h" using assms by linarith
    then have "(nat cy + 1) * w \<le> h * w" by (rule mult_right_mono) simp
    then show ?thesis using assms by (simp add: algebra_simps)
  qed
  moreover have "(nat cy * w + nat cx) mod w = nat cx" "(nat cy * w + nat cx) div w = nat cy"
    using assms by simp_all
  ultimately show ?thesis using e by simp
qed

lemma displacement_body_pixel:
  assumes w: "0 < w" and n: "length ps = w * h" "w * h < 2 ^ 29" and k: "k < length ps"
    and d: "length d = 4 * length ps" and bs: "length bs = length ps" and D: "0 \<le> D"
  shows "\<exists>q. fst (displacement_body (flat bs) (flat ps) (int w) (int h) D mix (4 * k) (d, s)) = px_put (4 * k) q d
             \<and> displaced w \<lceil>D\<rceil> ps k (px_get d (4 * k)) q"
proof -
  have k30: "k < 2 ^ 30" using k n by simp
  have y: "k div w < h" using k n w by (simp add: div_less_iff_less_mult mult.commute)
  have x: "k mod w < w" using w by simp
  define sx where "sx = \<lfloor>(bval (red (bs ! k)) / 127.5 - 1) * D\<rfloor>"
  define sy where "sy = \<lfloor>(bval (green (bs ! k)) / 127.5 - 1) * D\<rfloor>"
  define cx where "cx = (if int (k mod w) + sx < 0 then 0 else if int w \<le> int (k mod w) + sx then int w - 1 else int (k mod w) + sx)"
  define cy where "cy = (if int (k div w) + sy < 0 then 0 else if int h \<le> int (k div w) + sy then int h - 1 else int (k div w) + sy)"
  define j where "j = nat (cy * int w + cx)"
  have cxb: "0 \<le> cx \<and> cx < int w \<and> \<bar>cx - int (k mod w)\<bar> \<le> \<bar>sx\<bar>"
    unfolding cx_def by (rule clamp_dist) (use x in simp_all)
  have cyb: "0 \<le> cy \<and> cy < int h \<and> \<bar>cy - int (k div w)\<bar> \<le> \<bar>sy\<bar>"
    unfolding cy_def by (rule clamp_dist) (use y in simp_all)
  have j: "j < length ps" "j mod w = nat cx" "j div w = nat cy"
    using cell_index [of cx w cy h] cxb cyb n unfolding j_def by simp_all
  have shl: "shl32 (cy * int w + cx) 2 = 4 * int j"
  proof -
    have "cy * int w + cx = int j" using cxb cyb unfolding j_def by simp
    moreover have "int j < 2 ^ 29" using j(1) n by simp
    ultimately show ?thesis by (simp add: shl32_2)
  qed
  have reads: "flat bs ! (4 * k) = red (bs ! k)" "flat bs ! (4 * k + 1) = green (bs ! k)"
    using flat_nth_px [of k bs] k bs by simp_all
  have rd: "ta_read (flat ps) (4 * int j) = red (ps ! j)" "ta_read (flat ps) (4 * int j + 1) = green (ps ! j)"
      "ta_read (flat ps) (4 * int j + 2) = blue (ps ! j)"
    using ta_read_flat_px [OF j(1)] by simp_all
  have body: "fst (displacement_body (flat bs) (flat ps) (int w) (int h) D mix (4 * k) (d, s))
    = (if 1 - mix < rnd (shd s)
       then d[4 * k := red (ps ! j), 4 * k + 1 := green (ps ! j), 4 * k + 2 := blue (ps ! j)] else d)"
  proof -
    have "displacement_body (flat bs) (flat ps) (int w) (int h) D mix (4 * k) (d, s)
      = (if 1 - mix < rnd (shd s)
         then (d[4 * k := red (ps ! j), 4 * k + 1 := green (ps ! j), 4 * k + 2 := blue (ps ! j)], stl s)
         else (d, stl s))"
      by (simp only: displacement_body_def Let_def prod.case pixel_coords [OF w k30] reads
                     sx_def [symmetric] sy_def [symmetric] cx_def [symmetric] cy_def [symmetric] shl rd)
    then show ?thesis by simp
  qed
  have bound: "\<bar>int (j mod w) - int (k mod w)\<bar> \<le> \<lceil>D\<rceil> \<and> \<bar>int (j div w) - int (k div w)\<bar> \<le> \<lceil>D\<rceil>"
    using cxb cyb j(2,3) shift_bound [OF D, of "red (bs ! k)"] shift_bound [OF D, of "green (bs ! k)"]
    unfolding sx_def sy_def by simp
  show ?thesis
  proof (cases "1 - mix < rnd (shd s)")
    case True
    let ?q = "(px_get d (4 * k))\<lparr>red := red (ps ! j), green := green (ps ! j), blue := blue (ps ! j)\<rparr>"
    have "fst (displacement_body (flat bs) (flat ps) (int w) (int h) D mix (4 * k) (d, s)) = px_put (4 * k) ?q d"
      using body True by (simp add: px_put_rgb px_get_def)
    moreover have "displaced w \<lceil>D\<rceil> ps k (px_get d (4 * k)) ?q"
      unfolding displaced_def using j(1) bound by auto
    ultimately show ?thesis by blast
  next
    case False
    then show ?thesis using body k d px_put_get [of "4 * k" d]
      by (intro exI [of _ "px_get d (4 * k)"]) (simp add: displaced_def)
  qed
qed

lemma applyBlend_displacement:
  assumes "bl_mode p = Displacement" "0 \<le> bl_scale p" "0 < w" "length ps = w * h" "w * h < 2 ^ 29"
    "length bs = length ps"
  shows "\<exists>qs. fst (applyBlend (flat ps) (flat bs) w h p s) = flat qs \<and> length qs = length ps
              \<and> list_all (\<lambda>k. displaced w \<lceil>bl_scale p * 2\<rceil> ps k (ps ! k) (qs ! k)) [0..<length ps]"
proof -
  have "\<exists>qs. fst (fold (displacement_body (flat bs) (flat ps) (int w) (int h) (bl_scale p * 2) (bl_mix p / 100))
                    (byte_offsets (4 * length ps)) (flat ps, s)) = flat qs
             \<and> length qs = length ps \<and> (\<forall>k < length ps. displaced w \<lceil>bl_scale p * 2\<rceil> ps k (ps ! k) (qs ! k))"
  proof (rule fold_pixel_rel)
    fix k and d' :: buffer and s'
    assume "length d' = 4 * length ps" "k < length ps"
    then show "\<exists>q. fst (displacement_body (flat bs) (flat ps) (int w) (int h) (bl_scale p * 2) (bl_mix p / 100)
                       (4 * k) (d', s')) = px_put (4 * k) q d'
                 \<and> displaced w \<lceil>bl_scale p * 2\<rceil> ps k (px_get d' (4 * k)) q"
      using displacement_body_pixel [OF assms(3,4,5) _ _ assms(6)] assms(2) by simp
  qed
  then obtain qs where
    "fst (fold (displacement_body (flat bs) (flat ps) (int w) (int h) (bl_scale p * 2) (bl_mix p / 100))
            (byte_offsets (4 * length ps)) (flat ps, s)) = flat qs"
    and "length qs = length ps" and "\<forall>k < length ps. displaced w \<lceil>bl_scale p * 2\<rceil> ps k (ps ! k) (qs ! k)"
    by blast
  moreover have "list_all (\<lambda>k. displaced w \<lceil>bl_scale p * 2\<rceil> ps k (ps ! k) (qs ! k)) [0..<length ps]"
    using calculation(3) by (simp add: list_all_iff)
  moreover have "fst (applyBlend (flat ps) (flat bs) w h p s)
      = fst (fold (displacement_body (flat bs) (flat ps) (int w) (int h) (bl_scale p * 2) (bl_mix p / 100))
              (byte_offsets (4 * length ps)) (flat ps, s))"
    using assms(1) by (simp add: applyBlend_def Let_def)
  ultimately show ?thesis by metis
qed

text \<open>C26: in interlace mode the blend stage replaces byte \<open>j\<close> of the frame by byte
  \<open>j\<close> of the second source exactly when \<open>mix > 10\<close> and the row of \<open>j\<close> lies in an
  even band of height \<open>max(1, floor(scale / 10))\<close>; every other byte is kept, and no
  random number is drawn.\<close>

theorem renderBlend_interlace:
  assumes "bl_mode p = Interlace" "0 < w" "0 < h" "length t = 4 * (w * h)" "j < length t"
  shows "\<exists>t'. renderBlend t (Some b) w h p s = Inr (t', s) \<and> length t' = length t
              \<and> t' ! j = (if 10 < bl_mix p \<and> even (j div 4 div w div nat (max 1 \<lfloor>bl_scale p / 10\<rfloor>))
                         then b ! j else t ! j)"
proof -
  have "renderBlend t (Some b) w h p s = Inr (applyBlend t b w h p s)"
    using assms(2,3) by (simp add: renderBlend_def getImageData_def)
  moreover have "snd (applyBlend t b w h p s) = s"
    using applyBlend_interlace_nth(1) [OF assms(1,2,4,5)] by simp
  ultimately show ?thesis
    using applyBlend_interlace_nth(2,3) [OF assms(1,2,4,5)] by (metis prod.collapse)
qed

text \<open>C27: in hard-mix mode at \<open>mix = 100\<close> every colour channel of the result is 0
  or 255 and every alpha byte is kept; no random number is drawn.\<close>

theorem renderBlend_hardMix_full:
  assumes "bl_mode p = HardMix" "bl_mix p = 100" "0 < w" "0 < h" "length bs = length ps"
  shows "\<exists>qs. renderBlend (flat ps) (Some (flat bs)) w h p s = Inr (flat qs, s)
              \<and> list_all (\<lambda>q. red q \<in> {0, 255} \<and> green q \<in> {0, 255} \<and> blue q \<in> {0, 255}) qs
              \<and> map alpha qs = map alpha ps"
proof -
  let ?qs = "map2 (hardmix_pixel (bl_threshold p) 255) ps bs"
  have "renderBlend (flat ps) (Some (flat bs)) w h p s = Inr (flat ?qs, s)"
    using assms applyBlend_hardMix [OF assms(1,5)] by (simp add: renderBlend_def getImageData_def)
  moreover have "list_all (\<lambda>q. red q \<in> {0, 255} \<and> green q \<in> {0, 255} \<and> blue q \<in> {0, 255}) ?qs"
    using hardmix_pixel_full by (auto simp: list_all_iff set_zip)
  moreover have "map alpha ?qs = map alpha ps"
    using assms(5) hardmix_pixel_full by (intro nth_equalityI) simp_all
  ultimately show ?thesis by blast
qed

text \<open>C28: in difference mode at \<open>mix = 100\<close> every draw passes, so every pixel's
  colour channels become \<open>|A - B|\<close> and its alpha is kept, for every random stream.\<close>

theorem renderBlend_difference_full:
  assumes "bl_mode p = Difference" "bl_mix p = 100" "0 < w" "0 < h" "length bs = length ps"
  shows "\<exists>s'. renderBlend (flat ps) (Some (flat bs)) w h p s = Inr (flat (map2 diff_pixel ps bs), s')"
proof -
  have "renderBlend (flat ps) (Some (flat bs)) w h p s = Inr (applyBlend (flat ps) (flat bs) w h p s)"
    using assms(3,4) by (simp add: renderBlend_def getImageData_def)
  then show ?thesis using applyBlend_difference_full [OF assms(1,2,5)] by (metis prod.collapse)
qed

text \<open>Without a second source the blend stage leaves the frame and the random
  stream unchanged; but it reads the canvas first, so on a frame of zero width or
  height it throws \<open>IndexSizeError\<close> even then.\<close>

theorem renderBlend_no_source:
  "renderBlend c None w h p s = (if w = 0 \<or> h = 0 then Inl IndexSizeError else Inr (c, s))"
  by (simp add: renderBlend_def getImageData_def)

text \<open>C15: in displacement mode, on a frame of fewer than \<open>2^29\<close> pixels and with
  \<open>scale \<ge> 0\<close>, the blend stage never throws, and every pixel of the result is either
  kept or takes the colour channels of a pixel of the pre-pass snapshot at most
  \<open>ceil(2 * scale)\<close> columns and rows away (the sampled position is clamped into
  the frame), keeping its alpha; this holds for every random stream.\<close>

theorem renderBlend_displacement:
  assumes "bl_mode p = Displacement" "0 \<le> bl_scale p" "0 < w" "0 < h" "length ps = w * h"
    "w * h < 2 ^ 29" "length bs = length ps"
  shows "\<exists>qs s'. renderBlend (flat ps) (Some (flat bs)) w h p s = Inr (flat qs, s') \<and> length qs = length ps
              \<and> list_all (\<lambda>k. displaced w \<lceil>bl_scale p * 2\<rceil> ps k (ps ! k) (qs ! k)) [0..<length ps]"
proof -
  have "renderBlend (flat ps) (Some (flat bs)) w h p s = Inr (applyBlend (flat ps) (flat bs) w h p s)"
    using assms(3,4) by (simp add: renderBlend_def getImageData_def)
  then show ?thesis using applyBlend_displacement [OF assms(1,2,3,5,6,7), of s] by (metis prod.collapse)
qed

subsection \<open>Witnesses\<close>

theorem renderBlend_interlace_witness:
  "\<exists>t'. renderBlend [1, 1, 1, 1, 2, 2, 2, 2, 3, 3, 3, 3, 4, 4, 4, 4]
          (Some [9, 9, 9, 9, 8, 8, 8, 8, 7, 7, 7, 7, 6, 6, 6, 6]) 1 4
          \<lparr>bl_mode = Interlace, bl_mix = 50, bl_threshold = 128, bl_scale = 20\<rparr> (sconst 0)
        = Inr (t', sconst 0) \<and> t' ! 8 = 3"
proof -
  have l: "length [1, 1, 1, 1, 2, 2, 2, 2, 3, 3, 3, 3, 4, 4, 4, 4 :: byte] = 4 * (1 * 4)" by simp
  have f: "nat (max 1 \<lfloor>(20::real) / 10\<rfloor>) = 2" by simp
  show ?thesis
    using renderBlend_interlace [of "\<lparr>bl_mode = Interlace, bl_mix = 50, bl_threshold = 128, bl_scale = 20\<rparr>"
            1 4 "[1, 1, 1, 1, 2, 2, 2, 2, 3, 3, 3, 3, 4, 4, 4, 4]" 8
            "[9, 9, 9, 9, 8, 8, 8, 8, 7, 7, 7, 7, 6, 6, 6, 6]" "sconst 0"] l f
    by simp blast
qed

theorem renderBlend_hardMix_full_witness:
  "\<exists>qs. renderBlend (flat [\<lparr>red = 200, green = 10, blue = 128, alpha = 77\<rparr>])
            (Some (flat [\<lparr>red = 100, green = 20, blue = 130, alpha = 255\<rparr>])) 1 1
            \<lparr>bl_mode = HardMix, bl_mix = 100, bl_threshold = 128, bl_scale = 0\<rparr> (sconst 0)
          = Inr (flat qs, sconst 0)
        \<and> list_all (\<lambda>q. red q \<in> {0, 255} \<and> green q \<in> {0, 255} \<and> blue q \<in> {0, 255}) qs
        \<and> map alpha qs = [77]"
  using renderBlend_hardMix_full [of _ 1 1 "[\<lparr>red = 100, green = 20, blue = 130, alpha = 255\<rparr>]"
          "[\<lparr>red = 200, green = 10, blue = 128, alpha = 77\<rparr>]"] by simp

theorem renderBlend_difference_full_witness:
  "\<exists>s'. renderBlend (flat [\<lparr>red = 200, green = 10, blue = 128, alpha = 77\<rparr>])
            (Some (flat [\<lparr>red = 100, green = 20, blue = 130, alpha = 255\<rparr>])) 1 1
            \<lparr>bl_mode = Difference, bl_mix = 100, bl_threshold = 128, bl_scale = 0\<rparr> (sconst 0)
          = Inr (flat [\<lparr>red = 100, green = 10, blue = 2, alpha = 77\<rparr>], s')"
proof -
  have "map2 diff_pixel [\<lparr>red = 200, green = 10, blue = 128, alpha = 77\<rparr>]
          [\<lparr>red = 100, green = 20, blue = 130, alpha = 255\<rparr>] = [\<lparr>red = 100, green = 10, blue = 2, alpha = 77\<rparr>]"
    by (simp add: diff_pixel_def absdiff_def)
  then show ?thesis
    using renderBlend_difference_full [of _ 1 1 "[\<lparr>red = 100, green = 20, blue = 130, alpha = 255\<rparr>]"
          "[\<lparr>red = 200, green = 10, blue = 128, alpha = 77\<rparr>]"] by simp
qed

theorem renderBlend_displacement_witness:
  "\<exists>qs s'. renderBlend (flat [\<lparr>red = 1, green = 2, blue = 3, alpha = 4\<rparr>, \<lparr>red = 5, green = 6, blue = 7, alpha = 8\<rparr>])
            (Some (flat [\<lparr>red = 255, green = 0, blue = 0, alpha = 255\<rparr>, \<lparr>red = 0, green = 0, blue = 0, alpha = 255\<rparr>])) 2 1
            \<lparr>bl_mode = Displacement, bl_mix = 50, bl_threshold = 0, bl_scale = 1\<rparr> (sconst 0)
          = Inr (flat qs, s')
        \<and> length qs = length [\<lparr>red = 1, green = 2, blue = 3, alpha = 4\<rparr>, \<lparr>red = 5, green = 6, blue = 7, alpha = 8\<rparr>]
        \<and> list_all (\<lambda>k. displaced 2 2 [\<lparr>red = 1, green = 2, blue = 3, alpha = 4\<rparr>, \<lparr>red = 5, green = 6, blue = 7, alpha = 8\<rparr>] k
                         ([\<lparr>red = 1, green = 2, blue = 3, alpha = 4\<rparr>, \<lparr>red = 5, green = 6, blue = 7, alpha = 8\<rparr>] ! k) (qs ! k))
             [0..<length [\<lparr>red = 1, green = 2, blue = 3, alpha = 4\<rparr>, \<lparr>red = 5, green = 6, blue = 7, alpha = 8\<rparr>]]"
proof -
  have h1: "bl_mode \<lparr>bl_mode = Displacement, bl_mix = 50, bl_threshold = 0, bl_scale = 1\<rparr> = Displacement" and h2: "0 \<le> bl_scale \<lparr>bl_mode = Displacement, bl_mix = 50, bl_threshold = 0, bl_scale = 1\<rparr>" by simp_all
  have h3: "0 < (2::nat)" and h4: "0 < (1::nat)" and h5: "length [\<lparr>red = 1, green = 2, blue = 3, alpha = 4\<rparr>, \<lparr>red = 5, green = 6, blue = 7, alpha = 8\<rparr>] = 2 * 1"
    and h6: "2 * 1 < (2::nat) ^ 29" and h7: "length [\<lparr>red = 255, green = 0, blue = 0, alpha = 255\<rparr>, \<lparr>red = 0, green = 0, blue = 0, alpha = 255\<rparr>] = length [\<lparr>red = 1, green = 2, blue = 3, alpha = 4\<rparr>, \<lparr>red = 5, green = 6, blue = 7, alpha = 8\<rparr>]" by simp_all
  have c: "\<lceil>bl_scale \<lparr>bl_mode = Displacement, bl_mix = 50, bl_threshold = 0, bl_scale = 1\<rparr> * 2\<rceil> = 2" by simp
  show ?thesis
    using renderBlend_displacement [OF h1 h2 h3 h4 h5 h6 h7, of "sconst 0"] by (simp only: c)
qed

end
