(* ===== verification/Chroma.thy ===== *)
theory Chroma
  imports Params
begin

text \<open>
  The chroma key \<open>applyChromaKey\<close> and its colour parser \<open>hexToRgb\<close>
  (\<open>src/utils/chromaKeyAlgorithms.ts\<close>, lines 4--73).  \<open>hexToRgb\<close> accepts
  \<open>/^#?([a-f\d]{2})([a-f\d]{2})([a-f\d]{2})$/i\<close> and falls back to green
  \<open>(0, 255, 0)\<close>.  The key loop visits pixel \<open>i\<close> for every \<open>i < length / 4\<close>; a
  pixel whose squared RGB distance to the key is below \<open>(similarity * 442)^2\<close>
  becomes transparent, one inside the smoothing band gets a ramped alpha (after the
  spill desaturation), any other is kept.  \<open>Math.sqrt\<close> is the real square root.
\<close>

definition hex_digit :: "char \<Rightarrow> nat option" where
  "hex_digit c =
     (let n = of_char c :: nat
      in if 48 \<le> n \<and> n \<le> 57 then Some (n - 48)
         else if 97 \<le> n \<and> n \<le> 102 then Some (n - 87)
         else if 65 \<le> n \<and> n \<le> 70 then Some (n - 55)
         else None)"

definition hexToRgb :: "string \<Rightarrow> nat \<times> nat \<times> nat" where
  "hexToRgb hex =
     (let t = (if hex \<noteq> [] \<and> hd hex = CHR ''#'' then tl hex else hex);
          ds = map hex_digit t
      in if length t = 6 \<and> list_all (\<lambda>d. d \<noteq> None) ds
         then (let v = map the ds in (16 * v ! 0 + v ! 1, 16 * v ! 2 + v ! 3, 16 * v ! 4 + v ! 5))
         else (0, 255, 0))"

definition chroma_body :: "nat \<times> nat \<times> nat \<Rightarrow> real \<Rightarrow> real \<Rightarrow> real \<Rightarrow> nat \<Rightarrow> buffer \<Rightarrow> buffer" where
  "chroma_body target distThresholdSq smoothRange spill i data =
     (let (tr, tg, tb) = target;
          r = bval (data ! (i * 4 + 0)); g = bval (data ! (i * 4 + 1)); b = bval (data ! (i * 4 + 2));
          dr = r - real tr; dg = g - real tg; db = b - real tb;
          distSq = dr * dr + dg * dg + db * db
      in if distSq < distThresholdSq then data[i * 4 + 3 := 0]
         else if 0 < smoothRange \<and> distSq < distThresholdSq + smoothRange * smoothRange then
           (let dist = sqrt distSq;
                base = sqrt distThresholdSq;
                alpha = (dist - base) / smoothRange;
                gray = r * 0.299 + g * 0.587 + b * 0.114;
                data' = (if 0 < spill
                         then data[i * 4 := to_u8 (r * (1 - spill) + gray * spill),
                                   i * 4 + 1 := to_u8 (g * (1 - spill) + gray * spill),
                                   i * 4 + 2 := to_u8 (b * (1 - spill) + gray * spill)]
                         else data)
            in data'[i * 4 + 3 := to_u8 (alpha * 255)])
         else data)"

definition applyChromaKey :: "buffer \<Rightarrow> nat \<Rightarrow> nat \<Rightarrow> chroma_params \<Rightarrow> js_error + buffer" where
  "applyChromaKey canvas width height params =
     (if \<not> ck_enabled params then Inr canvas
      else case getImageData width height canvas of
        Inl e \<Rightarrow> Inl e
      | Inr data \<Rightarrow>
          (let l = (length data + 3) div 4;
               target = hexToRgb (ck_keyColor params);
               distThreshold = ck_similarity params * 442;
               distThresholdSq = distThreshold * distThreshold;
               smoothRange = ck_smoothness params * 100
           in Inr (fold (chroma_body target distThresholdSq smoothRange (ck_spill params)) [0..<l] data)))"

text \<open>The \<open>#rrggbb\<close> form an HTML colour input produces.\<close>

definition hex_char :: "nat \<Rightarrow> char" where
  "hex_char d = (if d < 10 then char_of (48 + d) else char_of (87 + d))"

definition hex2 :: "nat \<Rightarrow> string" where
  "hex2 n = [hex_char (n div 16), hex_char (n mod 16)]"

text \<open>The key decision on one pixel, the reference for the loop body, and the squared
  RGB distance it is based on.\<close>

definition dist2 :: "nat \<times> nat \<times> nat \<Rightarrow> rgba \<Rightarrow> real" where
  "dist2 target p =
     (let (tr, tg, tb) = target
      in (bval (red p) - real tr)\<^sup>2 + (bval (green p) - real tg)\<^sup>2 + (bval (blue p) - real tb)\<^sup>2)"

definition chroma_px :: "nat \<times> nat \<times> nat \<Rightarrow> real \<Rightarrow> real \<Rightarrow> real \<Rightarrow> rgba \<Rightarrow> rgba" where
  "chroma_px target T2 R spill p =
     (let (tr, tg, tb) = target;
          r = bval (red p); g = bval (green p); b = bval (blue p);
          distSq = dist2 target p
      in if distSq < T2 then p\<lparr>alpha := 0\<rparr>
         else if 0 < R \<and> distSq < T2 + R * R then
           (let gray = r * 0.299 + g * 0.587 + b * 0.114;
                p' = (if 0 < spill
                      then p\<lparr>red := to_u8 (r * (1 - spill) + gray * spill),
                             green := to_u8 (g * (1 - spill) + gray * spill),
                             blue := to_u8 (b * (1 - spill) + gray * spill)\<rparr>
                      else p)
            in p'\<lparr>alpha := to_u8 ((sqrt distSq - sqrt T2) / R * 255)\<rparr>)
         else p)"

lemma hex_digit_hex_char: "d < 16 \<Longrightarrow> hex_digit (hex_char d) = Some d"
  by (auto simp: hex_digit_def hex_char_def Let_def)

lemma chroma_body_local:
  assumes "k < n" "length d = 4 * n"
  shows "chroma_body target T2 R sp k d = px_put (4 * k) (chroma_px target T2 R sp (px_get d (4 * k))) d"
proof -
  obtain tr tg tb where t: "target = (tr, tg, tb)" by (cases target)
  have e: "d[4 * k := d ! (4 * k), Suc (4 * k) := d ! Suc (4 * k), Suc (Suc (4 * k)) := d ! Suc (Suc (4 * k))] = d"
    by simp
  show ?thesis
    unfolding chroma_body_def chroma_px_def px_put_def px_get_def t
    by (simp add: Let_def mult.commute e dist2_def power2_eq_square)
qed

lemma applyChromaKey_pixels:
  assumes "ck_enabled p" "0 < w" "0 < h"
  shows "applyChromaKey (flat ps) w h p
           = Inr (flat (map (chroma_px (hexToRgb (ck_keyColor p)) ((ck_similarity p * 442) * (ck_similarity p * 442))
                                       (ck_smoothness p * 100) (ck_spill p)) ps))"
proof -
  let ?f = "chroma_body (hexToRgb (ck_keyColor p)) ((ck_similarity p * 442) * (ck_similarity p * 442))
                        (ck_smoothness p * 100) (ck_spill p)"
  let ?g = "\<lambda>_. chroma_px (hexToRgb (ck_keyColor p)) ((ck_similarity p * 442) * (ck_similarity p * 442))
                         (ck_smoothness p * 100) (ck_spill p)"
  have "fold (\<lambda>j. ?f (j div 4)) (byte_offsets (4 * length ps)) (flat ps) = flat (map2 ?g [0..<length ps] ps)"
    by (rule fold_pixel_map) (simp add: chroma_body_local)
  moreover have "fold (\<lambda>j. ?f (j div 4)) (byte_offsets (4 * length ps)) (flat ps) = fold ?f [0..<length ps] (flat ps)"
    by (simp add: byte_offsets_flat fold_map comp_def)
  moreover have "(4 * length ps + 3) div 4 = length ps" by simp
  ultimately show ?thesis using assms by (simp add: applyChromaKey_def getImageData_def Let_def)
qed

lemma hex_digit_less: "hex_digit c = Some v \<Longrightarrow> v < 16"
  by (auto simp: hex_digit_def Let_def split: if_splits)

text \<open>C16: the chroma key is exactly the per-pixel key decision on an enabled non-empty
  frame, the identity (without reading the canvas) when disabled, and throws
  \<open>IndexSizeError\<close> on an enabled empty frame.\<close>

theorem applyChromaKey_spec:
  "applyChromaKey (flat ps) w h p
     = (if \<not> ck_enabled p then Inr (flat ps)
        else if w = 0 \<or> h = 0 then Inl IndexSizeError
        else Inr (flat (map (chroma_px (hexToRgb (ck_keyColor p)) ((ck_similarity p * 442) * (ck_similarity p * 442))
                                       (ck_smoothness p * 100) (ck_spill p)) ps)))"
  using applyChromaKey_pixels [of p w h ps] by (auto simp: applyChromaKey_def getImageData_def)

text \<open>With a positive similarity, a pixel of exactly the key colour becomes fully
  transparent and keeps its colour.\<close>

theorem applyChromaKey_key_transparent:
  assumes "ck_enabled p" "0 < w" "0 < h" "0 < ck_similarity p" "k < length ps"
    and "(unat (red (ps ! k)), unat (green (ps ! k)), unat (blue (ps ! k))) = hexToRgb (ck_keyColor p)"
  shows "\<exists>qs. applyChromaKey (flat ps) w h p = Inr (flat qs) \<and> qs ! k = (ps ! k)\<lparr>alpha := 0\<rparr>"
proof -
  let ?key = "hexToRgb (ck_keyColor p)" and ?T2 = "(ck_similarity p * 442) * (ck_similarity p * 442)"
  let ?f = "chroma_px ?key ?T2 (ck_smoothness p * 100) (ck_spill p)"
  have "dist2 ?key (ps ! k) = 0"
    using assms(6) [symmetric] by (simp add: dist2_def bval_def)
  moreover have "0 < ?T2" using assms(4) by simp
  ultimately have c: "dist2 ?key (ps ! k) < ?T2" by simp
  have "?f (ps ! k) = (ps ! k)\<lparr>alpha := 0\<rparr>"
    unfolding chroma_px_def Let_def split_def if_P [OF c] ..
  then show ?thesis
    using applyChromaKey_pixels [OF assms(1-3), of ps] assms(5) by (intro exI [of _ "map ?f ps"]) simp
qed

text \<open>A pixel at squared distance at least \<open>threshold^2 + max(0, smoothRange)^2\<close> from
  the key colour is left unchanged.\<close>

theorem applyChromaKey_far_kept:
  assumes "ck_enabled p" "0 < w" "0 < h" "k < length ps"
    and "(ck_similarity p * 442)\<^sup>2 + (max 0 (ck_smoothness p * 100))\<^sup>2 \<le> dist2 (hexToRgb (ck_keyColor p)) (ps ! k)"
  shows "\<exists>qs. applyChromaKey (flat ps) w h p = Inr (flat qs) \<and> qs ! k = ps ! k"
proof -
  let ?key = "hexToRgb (ck_keyColor p)" and ?T2 = "(ck_similarity p * 442) * (ck_similarity p * 442)"
    and ?R = "ck_smoothness p * 100"
  let ?f = "chroma_px ?key ?T2 ?R (ck_spill p)"
  have "(ck_similarity p * 442)\<^sup>2 \<le> dist2 ?key (ps ! k)"
    using assms(5) zero_le_power2 [of "max 0 ?R"] by linarith
  then have c1: "\<not> dist2 ?key (ps ! k) < ?T2" by (simp add: power2_eq_square)
  have c2: "\<not> (0 < ?R \<and> dist2 ?key (ps ! k) < ?T2 + ?R * ?R)"
    using assms(5) by (auto simp: power2_eq_square max_def)
  have "?f (ps ! k) = ps ! k"
    unfolding chroma_px_def Let_def split_def if_not_P [OF c1] if_not_P [OF c2] ..
  then show ?thesis
    using applyChromaKey_pixels [OF assms(1-3), of ps] assms(4) by (intro exI [of _ "map ?f ps"]) simp
qed

text \<open>The ramp value inside the band is below the value at its edge.\<close>

lemma band_ramp_bound:
  fixes T R d :: real
  assumes "0 \<le> T" "0 < R" "T\<^sup>2 \<le> d" "d < T\<^sup>2 + R\<^sup>2"
  shows "0 \<le> (sqrt d - T) / R \<and> (sqrt d - T) / R < R / (T + sqrt (T\<^sup>2 + R\<^sup>2))"
proof -
  have "T \<le> sqrt d" using assms(1,3) real_le_rsqrt by blast
  then have nonneg: "0 \<le> (sqrt d - T) / R" using assms(2) by simp
  have "sqrt d < sqrt (T\<^sup>2 + R\<^sup>2)" using assms(4) by simp
  then have "(sqrt d - T) / R < (sqrt (T\<^sup>2 + R\<^sup>2) - T) / R" using assms(2) by (simp add: divide_strict_right_mono)
  also have "\<dots> = R / (T + sqrt (T\<^sup>2 + R\<^sup>2))"
  proof -
    have pos: "0 < T + sqrt (T\<^sup>2 + R\<^sup>2)" using assms(1,2) by (simp add: add_nonneg_pos)
    have "(sqrt (T\<^sup>2 + R\<^sup>2) - T) * (T + sqrt (T\<^sup>2 + R\<^sup>2)) = R * R"
      by (simp add: algebra_simps power2_eq_square)
    then show ?thesis using pos assms(2) by (simp add: field_simps)
  qed
  finally show ?thesis using nonneg by simp
qed

text \<open>C35: inside the smoothing band, the alpha ramp \<open>(dist - T) / R\<close> stays below its
  value at the band edge \<open>sqrt(T^2 + R^2)\<close>, which is \<open>R / (T + sqrt(T^2 + R^2))\<close>
  (\<open>T = similarity * 442\<close>, \<open>R = smoothness * 100\<close>): for every key colour,
  spill and frame, each pixel in the band gets the alpha byte of such a ramp value,
  while a pixel just outside keeps its alpha (\<open>applyChromaKey_far_kept\<close>).  For a
  positive threshold the edge value is below 1, so the alpha jumps at the edge.\<close>

theorem applyChromaKey_alpha_jump:
  assumes "ck_enabled p" "0 < w" "0 < h" "k < length ps" "0 \<le> ck_similarity p" "0 < ck_smoothness p"
    and "(ck_similarity p * 442)\<^sup>2 \<le> dist2 (hexToRgb (ck_keyColor p)) (ps ! k)"
    and "dist2 (hexToRgb (ck_keyColor p)) (ps ! k) < (ck_similarity p * 442)\<^sup>2 + (ck_smoothness p * 100)\<^sup>2"
  shows "\<exists>qs a. applyChromaKey (flat ps) w h p = Inr (flat qs) \<and> alpha (qs ! k) = to_u8 (a * 255) \<and> 0 \<le> a
           \<and> a < (ck_smoothness p * 100)
                 / (ck_similarity p * 442 + sqrt ((ck_similarity p * 442)\<^sup>2 + (ck_smoothness p * 100)\<^sup>2))"
proof -
  define T where "T = ck_similarity p * 442"
  define R where "R = ck_smoothness p * 100"
  let ?key = "hexToRgb (ck_keyColor p)"
  let ?f = "chroma_px ?key (T * T) R (ck_spill p)"
  have T: "0 \<le> T" and R: "0 < R" using assms(5,6) by (simp_all add: T_def R_def)
  have d1: "T\<^sup>2 \<le> dist2 ?key (ps ! k)" and d2: "dist2 ?key (ps ! k) < T\<^sup>2 + R\<^sup>2"
    using assms(7,8) by (simp_all add: T_def R_def)
  have c1: "\<not> dist2 ?key (ps ! k) < T * T" using d1 by (simp add: power2_eq_square)
  have c2: "0 < R \<and> dist2 ?key (ps ! k) < T * T + R * R" using d2 R by (simp add: power2_eq_square)
  have sT: "sqrt (T * T) = T" using T by simp
  have "alpha (?f (ps ! k)) = to_u8 ((sqrt (dist2 ?key (ps ! k)) - T) / R * 255)"
    using c1 c2 sT unfolding chroma_px_def Let_def split_def by simp
  moreover have "applyChromaKey (flat ps) w h p = Inr (flat (map ?f ps))"
    using applyChromaKey_pixels [OF assms(1-3), of ps] by (simp add: T_def R_def)
  moreover have "map ?f ps ! k = ?f (ps ! k)" using assms(4) by simp
  ultimately have "applyChromaKey (flat ps) w h p = Inr (flat (map ?f ps))
      \<and> alpha (map ?f ps ! k) = to_u8 ((sqrt (dist2 ?key (ps ! k)) - T) / R * 255)"
    by simp
  then show ?thesis
    using band_ramp_bound [OF T R d1 d2] unfolding T_def [symmetric] R_def [symmetric] by blast
qed

text \<open>C36: \<open>hexToRgb\<close> reads back every colour written as \<open>#rrggbb\<close> with lower-case
  hexadecimal digits.\<close>

theorem hexToRgb_hex2:
  assumes "r < 256" "g < 256" "b < 256"
  shows "hexToRgb (CHR ''#'' # hex2 r @ hex2 g @ hex2 b) = (r, g, b)"
proof -
  have d: "hex_digit (hex_char (n div 16)) = Some (n div 16)" "hex_digit (hex_char (n mod 16)) = Some (n mod 16)"
    if "n < 256" for n :: nat
    using that by (simp_all add: hex_digit_hex_char less_mult_imp_div_less)
  show ?thesis using d [OF assms(1)] d [OF assms(2)] d [OF assms(3)]
    by (simp add: hexToRgb_def hex2_def Let_def)
qed

text \<open>Every colour \<open>hexToRgb\<close> returns, parsed or fallback, has its three
  components in the byte range.\<close>

theorem hexToRgb_bounds: "fst (hexToRgb s) < 256 \<and> fst (snd (hexToRgb s)) < 256 \<and> snd (snd (hexToRgb s)) < 256"
proof -
  define t where "t = (if s \<noteq> [] \<and> hd s = CHR ''#'' then tl s else s)"
  show ?thesis
  proof (cases "length t = 6 \<and> list_all (\<lambda>d. d \<noteq> None) (map hex_digit t)")
    case True
    have v: "the (hex_digit (t ! i)) < 16" if "i < 6" for i
    proof -
      have "hex_digit (t ! i) \<noteq> None" using True that by (simp add: list_all_length)
      then show ?thesis using hex_digit_less by fastforce
    qed
    have c: "16 * a + b < (256::nat)" if "a < 16" "b < 16" for a b using that by linarith
    show ?thesis using True c [OF v v] by (simp add: hexToRgb_def t_def [symmetric] Let_def)
  next
    case False
    show ?thesis unfolding hexToRgb_def Let_def t_def [symmetric] if_not_P [OF False] by simp
  qed
qed

subsection \<open>Witnesses\<close>

theorem applyChromaKey_key_transparent_witness:
  "\<exists>qs. applyChromaKey (flat [\<lparr>red = 0, green = 255, blue = 0, alpha = 200\<rparr>]) 1 1
          \<lparr>ck_enabled = True, ck_keyColor = ''#00FF00'', ck_similarity = 1 / 10, ck_smoothness = 0, ck_spill = 0\<rparr>
        = Inr (flat qs) \<and> qs ! 0 = \<lparr>red = 0, green = 255, blue = 0, alpha = 0\<rparr>"
proof -
  have key: "hexToRgb ''#00FF00'' = (0, 255, 0)" by (simp add: hexToRgb_def hex_digit_def)
  show ?thesis
    using applyChromaKey_key_transparent [of "\<lparr>ck_enabled = True, ck_keyColor = ''#00FF00'', ck_similarity = 1 / 10,
            ck_smoothness = 0, ck_spill = 0\<rparr>" 1 1 0 "[\<lparr>red = 0, green = 255, blue = 0, alpha = 200\<rparr>]"] key
    by simp
qed

theorem applyChromaKey_far_kept_witness:
  "\<exists>qs. applyChromaKey (flat [\<lparr>red = 255, green = 0, blue = 0, alpha = 200\<rparr>]) 1 1
          \<lparr>ck_enabled = True, ck_keyColor = ''#00ff00'', ck_similarity = 1 / 10, ck_smoothness = 1 / 10, ck_spill = 1\<rparr>
        = Inr (flat qs) \<and> qs ! 0 = \<lparr>red = 255, green = 0, blue = 0, alpha = 200\<rparr>"
proof -
  have key: "hexToRgb ''#00ff00'' = (0, 255, 0)" by (simp add: hexToRgb_def hex_digit_def)
  have d: "dist2 (0, 255, 0) \<lparr>red = 255, green = 0, blue = 0, alpha = 200\<rparr> = 130050"
    by (simp add: dist2_def bval_def)
  have c: "((1::real) / 10 * 442)\<^sup>2 + (max 0 (1 / 10 * 100))\<^sup>2 \<le> 130050"
    by (simp add: power2_eq_square)
  show ?thesis
    using applyChromaKey_far_kept [of "\<lparr>ck_enabled = True, ck_keyColor = ''#00ff00'', ck_similarity = 1 / 10,
            ck_smoothness = 1 / 10, ck_spill = 1\<rparr>" 1 1 0 "[\<lparr>red = 255, green = 0, blue = 0, alpha = 200\<rparr>]"] key d c
    by simp
qed

theorem hexToRgb_hex2_witness:
  "(255::nat) < 256 \<and> (128::nat) < 256 \<and> (0::nat) < 256
   \<and> hexToRgb (CHR ''#'' # hex2 255 @ hex2 128 @ hex2 0) = (255, 128, 0)"
  using hexToRgb_hex2 [of 255 128 0] by simp


theorem applyChromaKey_alpha_jump_witness:
  "\<exists>qs a. applyChromaKey (flat [\<lparr>red = 141, green = 255, blue = 0, alpha = 255\<rparr>]) 1 1
            \<lparr>ck_enabled = True, ck_keyColor = ''#00ff00'', ck_similarity = 100 / 442, ck_smoothness = 1, ck_spill = 0\<rparr>
          = Inr (flat qs) \<and> alpha (qs ! 0) = to_u8 (a * 255) \<and> 0 \<le> a \<and> a < 100 / (100 + sqrt 20000)"
proof -
  let ?p = "\<lparr>ck_enabled = True, ck_keyColor = ''#00ff00'', ck_similarity = 100 / 442, ck_smoothness = 1, ck_spill = 0\<rparr>"
  let ?x = "\<lparr>red = 141, green = 255, blue = 0, alpha = 255\<rparr> :: rgba"
  have key: "hexToRgb ''#00ff00'' = (0, 255, 0)" by (simp add: hexToRgb_def hex_digit_def)
  have d: "dist2 (0, 255, 0) ?x = 19881" by (simp add: dist2_def bval_def)
  have h: "ck_enabled ?p" "0 < (1::nat)" "0 < (1::nat)" "0 < length [?x]" "0 \<le> ck_similarity ?p" "0 < ck_smoothness ?p"
          "(ck_similarity ?p * 442)\<^sup>2 \<le> dist2 (hexToRgb (ck_keyColor ?p)) ([?x] ! 0)"
          "dist2 (hexToRgb (ck_keyColor ?p)) ([?x] ! 0) < (ck_similarity ?p * 442)\<^sup>2 + (ck_smoothness ?p * 100)\<^sup>2"
    using key d by simp_all
  show ?thesis using applyChromaKey_alpha_jump [OF h] by simp
qed

end
