(* ===== verification/Storage.thy ===== *)
theory Storage
  imports Params
begin

text \<open>
  The storage service \<open>src/utils/storage.ts\<close>: users, posts and the session user
  kept in \<open>localStorage\<close> under three keys.  The model's state \<open>db\<close> holds the three
  values (an absent key reads as its default, \<open>[]\<close> or \<open>null\<close>).  \<open>setStorage\<close> may
  throw when the quota is exceeded; whether a write fits is the parameter \<open>fits\<close>
  (a predicate on the state after the write), since the quota belongs to the browser.
  \<open>Date.now()\<close>, \<open>Math.random()\<close> and \<open>new Date().toISOString()\<close> are inputs of the
  operations that read them.  \<open>toLowerCase\<close> is modelled on ASCII letters.
  Each exported function is one operation returning \<open>js_error + result \<times> db\<close>;
  \<open>storage_step\<close> runs one of them, \<open>reachable\<close> is the set of states reachable from
  the empty store, and \<open>db_inv\<close> (case-insensitively unique user names, at most 15
  posts) holds in all of them.
\<close>

record db =
  db_users :: "user list"
  db_posts :: "post list"
  db_current :: "string option"

definition empty_db :: db where
  "empty_db = \<lparr>db_users = [], db_posts = [], db_current = None\<rparr>"

definition lower_char :: "char \<Rightarrow> char" where
  "lower_char c = (let n = of_char c :: nat in if 65 \<le> n \<and> n \<le> 90 then char_of (n + 32) else c)"

definition toLowerCase :: "string \<Rightarrow> string" where
  "toLowerCase s = map lower_char s"

definition find_user :: "string \<Rightarrow> user list \<Rightarrow> user option" where
  "find_user name users = find (\<lambda>u. toLowerCase (username u) = toLowerCase name) users"

text \<open>\<open>setStorage(KEYS.USERS | KEYS.POSTS, v)\<close> (lines 20--27).\<close>

definition setStorage :: "(db \<Rightarrow> bool) \<Rightarrow> db \<Rightarrow> js_error + db" where
  "setStorage fits db' = (if fits db' then Inr db' else Inl (Thrown ''STORAGE_FULL_DELETE_OLD_POSTS''))"

definition loginUser :: "string \<Rightarrow> db \<Rightarrow> js_error + user \<times> db" where
  "loginUser name st =
     (case find_user name (db_users st) of
        None \<Rightarrow> Inl (Thrown ''User not found'')
      | Some u \<Rightarrow> Inr (u, st\<lparr>db_current := Some (username u)\<rparr>))"

definition registerUser :: "(db \<Rightarrow> bool) \<Rightarrow> string \<Rightarrow> string \<Rightarrow> db \<Rightarrow> js_error + user \<times> db" where
  "registerUser fits name now st =
     (if find_user name (db_users st) \<noteq> None then Inl (Thrown ''Username taken'')
      else let newUser = \<lparr>username = name, joinedAt = now,
                          avatar = Some (''https://api.dicebear.com/7.x/shapes/svg?seed='' @ name)\<rparr>;
               users = db_users st @ [newUser]
           in case setStorage fits (st\<lparr>db_users := users\<rparr>) of
                Inl e \<Rightarrow> Inl e
              | Inr st' \<Rightarrow> Inr (newUser, st'\<lparr>db_current := Some name\<rparr>))"

definition getCurrentUser :: "db \<Rightarrow> user option" where
  "getCurrentUser st =
     (case db_current st of
        None \<Rightarrow> None
      | Some name \<Rightarrow> if name = [] then None else find_user name (db_users st))"

definition logoutUser :: "db \<Rightarrow> db" where
  "logoutUser st = st\<lparr>db_current := None\<rparr>"

text \<open>
  \<open>createPost\<close> (lines 80--117): the new post is prepended, the list cut to 15; if the
  write does not fit, a list longer than 5 is cut to 5 and written again (an exception
  of that second write escapes), and a list of at most 5 gives
  \<open>STORAGE FULL. DELETE POSTS.\<close>.  \<open>postId\<close> and \<open>now\<close> stand for the id built from
  \<open>Date.now()\<close> and \<open>Math.random()\<close> and for \<open>Date.now()\<close>.
\<close>

definition createPost ::
  "(db \<Rightarrow> bool) \<Rightarrow> user \<Rightarrow> string \<Rightarrow> string \<Rightarrow> post_type \<Rightarrow> string \<Rightarrow> int \<Rightarrow> db \<Rightarrow> js_error + post \<times> db" where
  "createPost fits u mediaData captionText ptype postId now st =
     (let newPost = \<lparr>post_id = postId, post_username = username u, post_image = mediaData,
                     post_type = ptype, caption = captionText, timestamp = now, likes = 0\<rparr>;
          updatedPosts = take 15 (newPost # db_posts st)
      in case setStorage fits (st\<lparr>db_posts := updatedPosts\<rparr>) of
           Inr st' \<Rightarrow> Inr (newPost, st')
         | Inl (Thrown m) \<Rightarrow>
             (if m = ''STORAGE_FULL_DELETE_OLD_POSTS'' then
                (if 5 < length updatedPosts then
                   (case setStorage fits (st\<lparr>db_posts := take 5 updatedPosts\<rparr>) of
                      Inl e \<Rightarrow> Inl e
                    | Inr st' \<Rightarrow> Inr (newPost, st'))
                 else Inl (Thrown ''STORAGE FULL. DELETE POSTS.''))
              else Inl (Thrown m))
         | Inl e \<Rightarrow> Inl e)"

definition getPosts :: "db \<Rightarrow> post list" where
  "getPosts st = db_posts st"

definition getUserPosts :: "string \<Rightarrow> db \<Rightarrow> post list" where
  "getUserPosts name st = filter (\<lambda>p. post_username p = name) (db_posts st)"

subsection \<open>The service as a state machine\<close>

datatype storage_op =
    Login string
  | Register string string
  | Logout
  | CreatePost user string string post_type string int

fun storage_step :: "(db \<Rightarrow> bool) \<Rightarrow> storage_op \<Rightarrow> db \<Rightarrow> js_error + db" where
  "storage_step fits (Login n) st = map_sum id snd (loginUser n st)"
| "storage_step fits (Register n now) st = map_sum id snd (registerUser fits n now st)"
| "storage_step fits Logout st = Inr (logoutUser st)"
| "storage_step fits (CreatePost u m c t i now) st = map_sum id snd (createPost fits u m c t i now st)"

inductive reachable :: "(db \<Rightarrow> bool) \<Rightarrow> db \<Rightarrow> bool" for fits where
  init: "reachable fits empty_db"
| step: "reachable fits st \<Longrightarrow> storage_step fits op st = Inr st' \<Longrightarrow> reachable fits st'"

definition db_inv :: "db \<Rightarrow> bool" where
  "db_inv st \<longleftrightarrow> distinct (map (toLowerCase \<circ> username) (db_users st)) \<and> length (db_posts st) \<le> 15"


lemma find_user_Some: "find_user n us = Some u \<Longrightarrow> u \<in> set us \<and> toLowerCase (username u) = toLowerCase n"
  by (auto simp: find_user_def find_Some_iff)

lemma find_user_None: "(find_user n us = None) = (\<forall>u \<in> set us. toLowerCase (username u) \<noteq> toLowerCase n)"
  by (auto simp: find_user_def find_None_iff)

lemma find_user_append_new:
  "find_user n us = None \<Longrightarrow> toLowerCase (username u) = toLowerCase n \<Longrightarrow> find_user n (us @ [u]) = Some u"
  by (induction us) (auto simp: find_user_def)

text \<open>The outcomes of \<open>createPost\<close>: the list written, or the error and its cause.\<close>

lemma createPost_cases:
  fixes fits u m c t i now st
  defines "np \<equiv> \<lparr>post_id = i, post_username = username u, post_image = m, post_type = t, caption = c,
                  timestamp = now, likes = 0\<rparr>"
  defines "ps \<equiv> take 15 (np # db_posts st)"
  shows "createPost fits u m c t i now st
           = (if fits (st\<lparr>db_posts := ps\<rparr>) then Inr (np, st\<lparr>db_posts := ps\<rparr>)
              else if 5 < length ps then
                (if fits (st\<lparr>db_posts := take 5 ps\<rparr>) then Inr (np, st\<lparr>db_posts := take 5 ps\<rparr>)
                 else Inl (Thrown ''STORAGE_FULL_DELETE_OLD_POSTS''))
              else Inl (Thrown ''STORAGE FULL. DELETE POSTS.''))"
  by (simp add: createPost_def setStorage_def np_def ps_def Let_def)

lemma loginUser_db: "loginUser n st = Inr (u, st') \<Longrightarrow> st' = st\<lparr>db_current := Some (username u)\<rparr>"
  by (auto simp: loginUser_def split: option.splits)

lemma registerUser_db:
  "registerUser fits n now st = Inr (u, st') \<Longrightarrow>
     find_user n (db_users st) = None \<and> username u = n
     \<and> st' = st\<lparr>db_users := db_users st @ [u], db_current := Some n\<rparr>"
  by (auto simp: registerUser_def setStorage_def Let_def split: if_splits)

lemma createPost_db:
  "createPost fits u m c t i now st = Inr (p, st') \<Longrightarrow>
     \<exists>k \<in> {5, 15}. st' = st\<lparr>db_posts := take k (p # db_posts st)\<rparr>"
  by (auto simp: createPost_cases split: if_splits)

lemma db_inv_step: "storage_step fits op st = Inr st' \<Longrightarrow> db_inv st \<Longrightarrow> db_inv st'"
proof (cases op)
  case (Register n now)
  assume "storage_step fits op st = Inr st'" "db_inv st"
  then obtain u where "registerUser fits n now st = Inr (u, st')" using Register by (auto simp: map_sum_def split: sum.splits)
  then have r: "find_user n (db_users st) = None" "username u = n"
    "st' = st\<lparr>db_users := db_users st @ [u], db_current := Some n\<rparr>" using registerUser_db by blast+
  then show ?thesis using \<open>db_inv st\<close> by (auto simp: db_inv_def find_user_None)
next
  case (CreatePost u m c t i now)
  assume "storage_step fits op st = Inr st'" "db_inv st"
  then obtain p where "createPost fits u m c t i now st = Inr (p, st')" using CreatePost by (auto simp: map_sum_def split: sum.splits)
  then show ?thesis using \<open>db_inv st\<close> createPost_db by (fastforce simp: db_inv_def)
qed (auto simp: db_inv_def map_sum_def logoutUser_def dest: loginUser_db split: sum.splits)

lemma reachable_inv:
  assumes "reachable fits st"
  shows "db_inv st"
  using assms
proof (induction rule: reachable.induct)
  case init
  then show ?case by (simp add: db_inv_def empty_db_def)
next
  case (step st op st')
  then show ?case using db_inv_step by blast
qed

text \<open>C13: in every state reachable from the empty store by successful operations (for
  any quota), user names are unique up to ASCII case and at most 15 posts are kept.\<close>

theorem reachable_db_inv:
  assumes "reachable fits st"
  shows "db_inv st"
  using reachable_inv [OF assms] .

lemma registerUser_current:
  assumes "registerUser fits n now st = Inr (u, st')"
  shows "loginUser n st' = Inr (u, st') \<and> getCurrentUser st' = (if n = [] then None else Some u)"
proof -
  have r: "find_user n (db_users st) = None" "username u = n"
    and st': "st' = st\<lparr>db_users := db_users st @ [u], db_current := Some n\<rparr>"
    using registerUser_db [OF assms] by blast+
  have f: "find_user n (db_users st') = Some u"
    using find_user_append_new [OF r(1)] r(2) st' by simp
  show ?thesis using f r(2) st' by (simp add: loginUser_def getCurrentUser_def)
qed

text \<open>C37: after a successful registration, logging in with the same name returns the new
  user and leaves the store as it is, and the session names the new user, except for the
  empty name, whose stored session \<open>getCurrentUser\<close> reads as no session.\<close>

theorem register_then_login:
  assumes "registerUser fits n now st = Inr (u, st')"
  shows "loginUser n st' = Inr (u, st') \<and> getCurrentUser st' = (if n = [] then None else Some u)"
  using registerUser_current [OF assms] .

lemma loginUser_current:
  assumes "loginUser n st = Inr (u, st')"
  shows "getCurrentUser st' = (if username u = [] then None else Some u)"
proof -
  obtain v where v: "find_user n (db_users st) = Some v" and u: "u = v"
    and st': "st' = st\<lparr>db_current := Some (username v)\<rparr>"
    using assms by (auto simp: loginUser_def split: option.splits)
  have "toLowerCase (username v) = toLowerCase n" using find_user_Some [OF v] by blast
  then have "find_user (username v) (db_users st) = Some v"
    using v by (simp add: find_user_def)
  then show ?thesis using u st' by (simp add: getCurrentUser_def)
qed

text \<open>A successful login makes the found user the session user (up to the empty
  name, which \<open>getCurrentUser\<close> treats as no session).\<close>

theorem login_session:
  assumes "loginUser n st = Inr (u, st')"
  shows "getCurrentUser st' = (if username u = [] then None else Some u)"
  using loginUser_current [OF assms] .

text \<open>C40: registering a name that differs from an existing one only in ASCII case fails
  with \<open>Username taken\<close>.\<close>

theorem registerUser_taken:
  assumes "v \<in> set (db_users st)" "toLowerCase (username v) = toLowerCase n"
  shows "registerUser fits n now st = Inl (Thrown ''Username taken'')"
  using assms find_user_None [of n "db_users st"] by (auto simp: registerUser_def)

text \<open>C38: a post that is stored becomes the first post of \<open>getPosts\<close>, followed by the
  newest 14 (or, after the quota retry, 4) earlier posts; users and session are kept.\<close>

theorem createPost_newest_first:
  assumes "createPost fits u m c t i now st = Inr (p, st')"
  shows "\<exists>k \<in> {5, 15}. getPosts st' = take k (p # getPosts st)
           \<and> db_users st' = db_users st \<and> db_current st' = db_current st"
  using createPost_db [OF assms] by (auto simp: getPosts_def)

text \<open>C39: \<open>createPost\<close> fails only when the quota refuses the write: with fewer than 5
  earlier posts it reports \<open>STORAGE FULL. DELETE POSTS.\<close>, with 5 or more the second,
  5-post write fails and its internal \<open>STORAGE_FULL_DELETE_OLD_POSTS\<close> escapes.\<close>

theorem createPost_error:
  assumes "createPost fits u m c t i now st = Inl e"
  shows "(e = Thrown ''STORAGE FULL. DELETE POSTS.'' \<and> length (db_posts st) < 5)
         \<or> (e = Thrown ''STORAGE_FULL_DELETE_OLD_POSTS'' \<and> 5 \<le> length (db_posts st))"
  using assms by (auto simp: createPost_cases split: if_splits)

subsection \<open>Witnesses\<close>

lemma register_alice: "registerUser (\<lambda>_. True) ''Alice'' ''t0'' empty_db = Inr (\<lparr>username = ''Alice'', joinedAt = ''t0'', avatar = Some (''https://api.dicebear.com/7.x/shapes/svg?seed=Alice'')\<rparr>, \<lparr>db_users = [\<lparr>username = ''Alice'', joinedAt = ''t0'', avatar = Some (''https://api.dicebear.com/7.x/shapes/svg?seed=Alice'')\<rparr>], db_posts = [], db_current = Some ''Alice''\<rparr>)"
  by (simp add: registerUser_def find_user_def empty_db_def setStorage_def Let_def)

theorem reachable_db_inv_witness: "reachable (\<lambda>_. True) \<lparr>db_users = [\<lparr>username = ''Alice'', joinedAt = ''t0'', avatar = Some (''https://api.dicebear.com/7.x/shapes/svg?seed=Alice'')\<rparr>], db_posts = [], db_current = Some ''Alice''\<rparr> \<and> db_inv \<lparr>db_users = [\<lparr>username = ''Alice'', joinedAt = ''t0'', avatar = Some (''https://api.dicebear.com/7.x/shapes/svg?seed=Alice'')\<rparr>], db_posts = [], db_current = Some ''Alice''\<rparr>"
proof -
  have "storage_step (\<lambda>_. True) (Register ''Alice'' ''t0'') empty_db = Inr \<lparr>db_users = [\<lparr>username = ''Alice'', joinedAt = ''t0'', avatar = Some (''https://api.dicebear.com/7.x/shapes/svg?seed=Alice'')\<rparr>], db_posts = [], db_current = Some ''Alice''\<rparr>"
    using register_alice by simp
  then have "reachable (\<lambda>_. True) \<lparr>db_users = [\<lparr>username = ''Alice'', joinedAt = ''t0'', avatar = Some (''https://api.dicebear.com/7.x/shapes/svg?seed=Alice'')\<rparr>], db_posts = [], db_current = Some ''Alice''\<rparr>" by (rule reachable.step [OF reachable.init])
  then show ?thesis using reachable_db_inv by blast
qed

theorem register_then_login_witness:
  "registerUser (\<lambda>_. True) ''Alice'' ''t0'' empty_db = Inr (\<lparr>username = ''Alice'', joinedAt = ''t0'', avatar = Some (''https://api.dicebear.com/7.x/shapes/svg?seed=Alice'')\<rparr>, \<lparr>db_users = [\<lparr>username = ''Alice'', joinedAt = ''t0'', avatar = Some (''https://api.dicebear.com/7.x/shapes/svg?seed=Alice'')\<rparr>], db_posts = [], db_current = Some ''Alice''\<rparr>)
   \<and> loginUser ''Alice'' \<lparr>db_users = [\<lparr>username = ''Alice'', joinedAt = ''t0'', avatar = Some (''https://api.dicebear.com/7.x/shapes/svg?seed=Alice'')\<rparr>], db_posts = [], db_current = Some ''Alice''\<rparr> = Inr (\<lparr>username = ''Alice'', joinedAt = ''t0'', avatar = Some (''https://api.dicebear.com/7.x/shapes/svg?seed=Alice'')\<rparr>, \<lparr>db_users = [\<lparr>username = ''Alice'', joinedAt = ''t0'', avatar = Some (''https://api.dicebear.com/7.x/shapes/svg?seed=Alice'')\<rparr>], db_posts = [], db_current = Some ''Alice''\<rparr>) \<and> getCurrentUser \<lparr>db_users = [\<lparr>username = ''Alice'', joinedAt = ''t0'', avatar = Some (''https://api.dicebear.com/7.x/shapes/svg?seed=Alice'')\<rparr>], db_posts = [], db_current = Some ''Alice''\<rparr> = Some \<lparr>username = ''Alice'', joinedAt = ''t0'', avatar = Some (''https://api.dicebear.com/7.x/shapes/svg?seed=Alice'')\<rparr>"
  using register_then_login [OF register_alice] register_alice by simp

theorem login_session_witness:
  "loginUser ''ALICE'' \<lparr>db_users = [\<lparr>username = ''Alice'', joinedAt = ''t0'', avatar = Some (''https://api.dicebear.com/7.x/shapes/svg?seed=Alice'')\<rparr>], db_posts = [], db_current = Some ''Alice''\<rparr> = Inr (\<lparr>username = ''Alice'', joinedAt = ''t0'', avatar = Some (''https://api.dicebear.com/7.x/shapes/svg?seed=Alice'')\<rparr>, \<lparr>db_users = [\<lparr>username = ''Alice'', joinedAt = ''t0'', avatar = Some (''https://api.dicebear.com/7.x/shapes/svg?seed=Alice'')\<rparr>], db_posts = [], db_current = Some ''Alice''\<rparr>) \<and> getCurrentUser \<lparr>db_users = [\<lparr>username = ''Alice'', joinedAt = ''t0'', avatar = Some (''https://api.dicebear.com/7.x/shapes/svg?seed=Alice'')\<rparr>], db_posts = [], db_current = Some ''Alice''\<rparr> = Some \<lparr>username = ''Alice'', joinedAt = ''t0'', avatar = Some (''https://api.dicebear.com/7.x/shapes/svg?seed=Alice'')\<rparr>"
proof -
  have l: "loginUser ''ALICE'' \<lparr>db_users = [\<lparr>username = ''Alice'', joinedAt = ''t0'', avatar = Some (''https://api.dicebear.com/7.x/shapes/svg?seed=Alice'')\<rparr>], db_posts = [], db_current = Some ''Alice''\<rparr> = Inr (\<lparr>username = ''Alice'', joinedAt = ''t0'', avatar = Some (''https://api.dicebear.com/7.x/shapes/svg?seed=Alice'')\<rparr>, \<lparr>db_users = [\<lparr>username = ''Alice'', joinedAt = ''t0'', avatar = Some (''https://api.dicebear.com/7.x/shapes/svg?seed=Alice'')\<rparr>], db_posts = [], db_current = Some ''Alice''\<rparr>)"
    by code_simp
  show ?thesis using login_session [OF l] l by simp
qed

theorem registerUser_taken_witness:
  "\<lparr>username = ''Alice'', joinedAt = ''t0'', avatar = Some (''https://api.dicebear.com/7.x/shapes/svg?seed=Alice'')\<rparr> \<in> set (db_users \<lparr>db_users = [\<lparr>username = ''Alice'', joinedAt = ''t0'', avatar = Some (''https://api.dicebear.com/7.x/shapes/svg?seed=Alice'')\<rparr>], db_posts = [], db_current = Some ''Alice''\<rparr>) \<and> toLowerCase (username \<lparr>username = ''Alice'', joinedAt = ''t0'', avatar = Some (''https://api.dicebear.com/7.x/shapes/svg?seed=Alice'')\<rparr>) = toLowerCase ''aLiCe''
   \<and> registerUser (\<lambda>_. True) ''aLiCe'' ''t1'' \<lparr>db_users = [\<lparr>username = ''Alice'', joinedAt = ''t0'', avatar = Some (''https://api.dicebear.com/7.x/shapes/svg?seed=Alice'')\<rparr>], db_posts = [], db_current = Some ''Alice''\<rparr> = Inl (Thrown ''Username taken'')"
proof -
  have "toLowerCase (username \<lparr>username = ''Alice'', joinedAt = ''t0'', avatar = Some (''https://api.dicebear.com/7.x/shapes/svg?seed=Alice'')\<rparr>) = toLowerCase ''aLiCe''"
    by code_simp
  then show ?thesis using registerUser_taken [of "\<lparr>username = ''Alice'', joinedAt = ''t0'', avatar = Some (''https://api.dicebear.com/7.x/shapes/svg?seed=Alice'')\<rparr>" "\<lparr>db_users = [\<lparr>username = ''Alice'', joinedAt = ''t0'', avatar = Some (''https://api.dicebear.com/7.x/shapes/svg?seed=Alice'')\<rparr>], db_posts = [], db_current = Some ''Alice''\<rparr>" "''aLiCe''" "\<lambda>_. True" "''t1''"] by simp
qed

theorem createPost_newest_first_witness:
  "createPost (\<lambda>_. True) \<lparr>username = ''Alice'', joinedAt = ''t0'', avatar = Some (''https://api.dicebear.com/7.x/shapes/svg?seed=Alice'')\<rparr> ''m'' ''c'' PostImage ''p0'' 0 \<lparr>db_users = [\<lparr>username = ''Alice'', joinedAt = ''t0'', avatar = Some (''https://api.dicebear.com/7.x/shapes/svg?seed=Alice'')\<rparr>], db_posts = [], db_current = Some ''Alice''\<rparr> = Inr (\<lparr>post_id = ''p0'', post_username = ''Alice'', post_image = ''m'', post_type = PostImage, caption = ''c'', timestamp = 0, likes = 0\<rparr>, \<lparr>db_users = [\<lparr>username = ''Alice'', joinedAt = ''t0'', avatar = Some (''https://api.dicebear.com/7.x/shapes/svg?seed=Alice'')\<rparr>], db_posts = [], db_current = Some ''Alice''\<rparr>\<lparr>db_posts := [\<lparr>post_id = ''p0'', post_username = ''Alice'', post_image = ''m'', post_type = PostImage, caption = ''c'', timestamp = 0, likes = 0\<rparr>]\<rparr>)
   \<and> (\<exists>k \<in> {5, 15}. getPosts (\<lparr>db_users = [\<lparr>username = ''Alice'', joinedAt = ''t0'', avatar = Some (''https://api.dicebear.com/7.x/shapes/svg?seed=Alice'')\<rparr>], db_posts = [], db_current = Some ''Alice''\<rparr>\<lparr>db_posts := [\<lparr>post_id = ''p0'', post_username = ''Alice'', post_image = ''m'', post_type = PostImage, caption = ''c'', timestamp = 0, likes = 0\<rparr>]\<rparr>) = take k (\<lparr>post_id = ''p0'', post_username = ''Alice'', post_image = ''m'', post_type = PostImage, caption = ''c'', timestamp = 0, likes = 0\<rparr> # getPosts \<lparr>db_users = [\<lparr>username = ''Alice'', joinedAt = ''t0'', avatar = Some (''https://api.dicebear.com/7.x/shapes/svg?seed=Alice'')\<rparr>], db_posts = [], db_current = Some ''Alice''\<rparr>))"
proof -
  have c: "createPost (\<lambda>_. True) \<lparr>username = ''Alice'', joinedAt = ''t0'', avatar = Some (''https://api.dicebear.com/7.x/shapes/svg?seed=Alice'')\<rparr> ''m'' ''c'' PostImage ''p0'' 0 \<lparr>db_users = [\<lparr>username = ''Alice'', joinedAt = ''t0'', avatar = Some (''https://api.dicebear.com/7.x/shapes/svg?seed=Alice'')\<rparr>], db_posts = [], db_current = Some ''Alice''\<rparr> = Inr (\<lparr>post_id = ''p0'', post_username = ''Alice'', post_image = ''m'', post_type = PostImage, caption = ''c'', timestamp = 0, likes = 0\<rparr>, \<lparr>db_users = [\<lparr>username = ''Alice'', joinedAt = ''t0'', avatar = Some (''https://api.dicebear.com/7.x/shapes/svg?seed=Alice'')\<rparr>], db_posts = [], db_current = Some ''Alice''\<rparr>\<lparr>db_posts := [\<lparr>post_id = ''p0'', post_username = ''Alice'', post_image = ''m'', post_type = PostImage, caption = ''c'', timestamp = 0, likes = 0\<rparr>]\<rparr>)"
    by (simp add: createPost_cases)
  show ?thesis using createPost_newest_first [OF c] c by blast
qed

theorem createPost_error_witness:
  "createPost (\<lambda>s. length (db_posts s) \<le> 3) \<lparr>username = ''Alice'', joinedAt = ''t0'', avatar = Some (''https://api.dicebear.com/7.x/shapes/svg?seed=Alice'')\<rparr> ''m'' ''c'' PostImage ''p0'' 0 \<lparr>db_users = [], db_posts = replicate 6 \<lparr>post_id = ''p0'', post_username = ''Alice'', post_image = ''m'', post_type = PostImage, caption = ''c'', timestamp = 0, likes = 0\<rparr>, db_current = None\<rparr> = Inl (Thrown ''STORAGE_FULL_DELETE_OLD_POSTS'')
   \<and> 5 \<le> length (db_posts \<lparr>db_users = [], db_posts = replicate 6 \<lparr>post_id = ''p0'', post_username = ''Alice'', post_image = ''m'', post_type = PostImage, caption = ''c'', timestamp = 0, likes = 0\<rparr>, db_current = None\<rparr>)"
proof -
  have c: "createPost (\<lambda>s. length (db_posts s) \<le> 3) \<lparr>username = ''Alice'', joinedAt = ''t0'', avatar = Some (''https://api.dicebear.com/7.x/shapes/svg?seed=Alice'')\<rparr> ''m'' ''c'' PostImage ''p0'' 0 \<lparr>db_users = [], db_posts = replicate 6 \<lparr>post_id = ''p0'', post_username = ''Alice'', post_image = ''m'', post_type = PostImage, caption = ''c'', timestamp = 0, likes = 0\<rparr>, db_current = None\<rparr> = Inl (Thrown ''STORAGE_FULL_DELETE_OLD_POSTS'')"
    by (simp add: createPost_cases)
  show ?thesis using createPost_error [OF c] c by auto
qed

end
