(* ===== verification/Profile.thy ===== *)
theory Profile
  imports Storage "HOL-Library.Sublist"
begin

text \<open>
  The account screens of \<open>src/components/Profile.tsx\<close> that call the storage
  service: the \<open>Auth\<close> form's submit handler (lines 312--332, with its
  \<open>username.trim()\<close> check and the error shown for a thrown \<open>Error\<close>) and toggle
  (line 375), and, in \<open>Profile\<close>, the post list shown for each view (lines 17--23)
  and the download name of a post (\<open>getExtension\<close>, lines 26--32, and line 214).
  React state is the record \<open>auth_form\<close>; \<open>onSuccess\<close> being called is the
  returned \<open>user option\<close>.  \<open>String.prototype.trim\<close> removes the white space and
  line terminators that are 8-bit characters: tab to carriage return, space and
  no-break space.
\<close>

definition is_js_space :: "char \<Rightarrow> bool" where
  "is_js_space c = (let n = of_char c :: nat in (9 \<le> n \<and> n \<le> 13) \<or> n = 32 \<or> n = 160)"

definition js_trim :: "string \<Rightarrow> string" where
  "js_trim s = rev (dropWhile is_js_space (rev (dropWhile is_js_space s)))"

record auth_form =
  af_isLogin :: bool
  af_username :: string
  af_error :: string

definition error_message :: "js_error \<Rightarrow> string" where
  "error_message e = (case e of Thrown m \<Rightarrow> m | _ \<Rightarrow> [])"

definition handleSubmit ::
  "(db \<Rightarrow> bool) \<Rightarrow> string \<Rightarrow> auth_form \<Rightarrow> db \<Rightarrow> auth_form \<times> db \<times> user option" where
  "handleSubmit fits now form st =
     (let form = form\<lparr>af_error := []\<rparr>
      in if js_trim (af_username form) = [] then (form\<lparr>af_error := ''IDENTITY_REQUIRED''\<rparr>, st, None)
         else
           (let r = (if af_isLogin form then loginUser (af_username form) st
                     else registerUser fits (af_username form) now st)
            in case r of
                 Inr (u, st') \<Rightarrow> (form, st', Some u)
               | Inl e \<Rightarrow> (form\<lparr>af_error := (if error_message e = [] then ''ACCESS_DENIED'' else error_message e)\<rparr>,
                            st, None)))"

definition toggleMode :: "auth_form \<Rightarrow> auth_form" where
  "toggleMode form = form\<lparr>af_isLogin := \<not> af_isLogin form, af_error := []\<rparr>"

datatype profile_view = MINE | FEED

definition profile_posts :: "profile_view \<Rightarrow> user \<Rightarrow> db \<Rightarrow> post list" where
  "profile_posts view u st = (if view = MINE then getUserPosts (username u) st else getPosts st)"

definition getExtension :: "string \<Rightarrow> post_type \<Rightarrow> string" where
  "getExtension src t =
     (if sublist ''video/mp4'' src then ''mp4''
      else if sublist ''video/webm'' src then ''webm''
      else if sublist ''image/jpeg'' src then ''jpg''
      else if sublist ''image/png'' src then ''png''
      else if t = PostVideo then ''webm'' else ''png'')"

definition download_name :: "post \<Rightarrow> string" where
  "download_name p = ''screen_export_'' @ post_id p @ ''.'' @ getExtension (post_image p) (post_type p)"

lemma js_trim_Nil [simp]: "js_trim [] = []"
  by (simp add: js_trim_def)

lemma toLowerCase_Nil_iff [simp]: "(toLowerCase s = []) = (s = [])"
  by (simp add: toLowerCase_def)

lemma handleSubmit_cases:
  "handleSubmit fits now form st = (form', st', r) \<Longrightarrow>
     (r = None \<and> st' = st \<and> af_error form' \<noteq> [])
     \<or> (\<exists>u. r = Some u \<and> af_error form' = [] \<and> af_username form \<noteq> []
           \<and> (if af_isLogin form then loginUser (af_username form) st = Inr (u, st')
              else registerUser fits (af_username form) now st = Inr (u, st')))"
  by (auto simp: handleSubmit_def Let_def split: if_splits sum.splits)

lemma handleSubmit_current:
  assumes "handleSubmit fits now form st = (form', st', Some u)"
  shows "getCurrentUser st' = Some u \<and> af_error form' = []"
proof -
  obtain n where n: "n = af_username form" "n \<noteq> []" and e: "af_error form' = []"
    and r: "if af_isLogin form then loginUser n st = Inr (u, st') else registerUser fits n now st = Inr (u, st')"
    using handleSubmit_cases [OF assms] by auto
  show ?thesis
  proof (cases "af_isLogin form")
    case True
    then have l: "loginUser n st = Inr (u, st')" using r by simp
    then obtain v where "find_user n (db_users st) = Some v" "u = v"
      by (auto simp: loginUser_def split: option.splits)
    then have "toLowerCase (username u) = toLowerCase n" using find_user_Some by blast
    then have "username u \<noteq> []" using n(2) by (metis toLowerCase_Nil_iff)
    then show ?thesis using loginUser_current [OF l] e by simp
  next
    case False
    then have "registerUser fits n now st = Inr (u, st')" using r by simp
    then show ?thesis using registerUser_current n(2) e by simp
  qed
qed

text \<open>When the form reports no success, the store is unchanged and an error is
  shown (\<open>IDENTITY_REQUIRED\<close> for a blank name, otherwise the thrown message, or
  \<open>ACCESS_DENIED\<close> for an empty one).\<close>

theorem handleSubmit_failure:
  assumes "handleSubmit fits now form st = (form', st', None)"
  shows "st' = st \<and> af_error form' \<noteq> []"
  using handleSubmit_cases [OF assms] by auto

text \<open>A post always downloads with one of the four extensions the app produces.\<close>

theorem getExtension_range: "getExtension src t \<in> {''mp4'', ''webm'', ''jpg'', ''png''}"
  by (simp add: getExtension_def)

subsection \<open>Witnesses\<close>

theorem handleSubmit_current_witness:
  "handleSubmit (\<lambda>_. True) ''t0'' \<lparr>af_isLogin = False, af_username = ''Alice'', af_error = ''old''\<rparr> empty_db
     = (\<lparr>af_isLogin = False, af_username = ''Alice'', af_error = []\<rparr>,
        \<lparr>db_users = [\<lparr>username = ''Alice'', joinedAt = ''t0'', avatar = Some (''https://api.dicebear.com/7.x/shapes/svg?seed=Alice'')\<rparr>],
         db_posts = [], db_current = Some ''Alice''\<rparr>,
        Some \<lparr>username = ''Alice'', joinedAt = ''t0'', avatar = Some (''https://api.dicebear.com/7.x/shapes/svg?seed=Alice'')\<rparr>)
   \<and> getCurrentUser \<lparr>db_users = [\<lparr>username = ''Alice'', joinedAt = ''t0'', avatar = Some (''https://api.dicebear.com/7.x/shapes/svg?seed=Alice'')\<rparr>],
         db_posts = [], db_current = Some ''Alice''\<rparr>
       = Some \<lparr>username = ''Alice'', joinedAt = ''t0'', avatar = Some (''https://api.dicebear.com/7.x/shapes/svg?seed=Alice'')\<rparr>"
proof -
  have h: "handleSubmit (\<lambda>_. True) ''t0'' \<lparr>af_isLogin = False, af_username = ''Alice'', af_error = ''old''\<rparr> empty_db
     = (\<lparr>af_isLogin = False, af_username = ''Alice'', af_error = []\<rparr>,
        \<lparr>db_users = [\<lparr>username = ''Alice'', joinedAt = ''t0'', avatar = Some (''https://api.dicebear.com/7.x/shapes/svg?seed=Alice'')\<rparr>],
         db_posts = [], db_current = Some ''Alice''\<rparr>,
        Some \<lparr>username = ''Alice'', joinedAt = ''t0'', avatar = Some (''https://api.dicebear.com/7.x/shapes/svg?seed=Alice'')\<rparr>)"
    by code_simp
  show ?thesis using handleSubmit_current [OF h] h by simp
qed

theorem handleSubmit_failure_witness:
  "handleSubmit (\<lambda>_. True) ''t0'' \<lparr>af_isLogin = True, af_username = '' \<newline> '', af_error = []\<rparr> empty_db
     = (\<lparr>af_isLogin = True, af_username = '' \<newline> '', af_error = ''IDENTITY_REQUIRED''\<rparr>, empty_db, None)
   \<and> af_error \<lparr>af_isLogin = True, af_username = '' \<newline> '', af_error = ''IDENTITY_REQUIRED''\<rparr> \<noteq> []"
proof -
  have h: "handleSubmit (\<lambda>_. True) ''t0'' \<lparr>af_isLogin = True, af_username = '' \<newline> '', af_error = []\<rparr> empty_db
     = (\<lparr>af_isLogin = True, af_username = '' \<newline> '', af_error = ''IDENTITY_REQUIRED''\<rparr>, empty_db, None)"
    by code_simp
  show ?thesis using handleSubmit_failure [OF h] h by simp
qed

end
