(* ===== verification/Canvas.thy ===== *)
theory Canvas
  imports Prelude
begin

text \<open>
  The part of the browser's \<open>CanvasRenderingContext2D\<close> that the text, ASCII and
  halftone layers drive: the commands they issue (\<open>cmd\<close>) and the context state those
  commands change (\<open>ctx2d\<close>: fill style, font, text baseline and alignment, the
  current transform as the list of \<open>translate\<close>/\<open>rotate\<close> calls, the
  \<open>save()\<close>/\<open>restore()\<close> stack), with every drawing call recorded together with the
  fill style it uses.  Rasterisation is the browser's and is not modelled.  A
  \<open>restore()\<close> with an empty stack does nothing, as the HTML standard says.  Colours
  are CSS strings or the \<open>rgb(r,g,b)\<close> strings the layers build; text is a list of
  Unicode code points.
\<close>

datatype fill = Css string | Rgb nat nat nat

datatype cmd =
    SetFillStyle fill
  | FillRect real real real real
  | SetFont string real string
  | SetTextBaseline string
  | SetTextAlign string
  | FillText "nat list" real real
  | Save
  | Restore
  | Translate real real
  | Rotate real
  | BeginPath
  | Arc real real real real real
  | MoveTo real real
  | LineTo real real
  | Rect real real real real
  | Fill

type_synonym dstate = "fill \<times> (string \<times> real \<times> string) \<times> string \<times> string \<times> cmd list"

record ctx2d =
  c_fill :: fill
  c_font :: "string \<times> real \<times> string"
  c_baseline :: string
  c_align :: string
  c_transform :: "cmd list"
  c_stack :: "dstate list"
  c_path :: "cmd list"
  c_marks :: "(dstate \<times> cmd) list"

text \<open>The state \<open>save()\<close> stores and \<open>restore()\<close> brings back, recorded with each mark.\<close>

definition drawing_state :: "ctx2d \<Rightarrow> dstate" where
  "drawing_state c = (c_fill c, c_font c, c_baseline c, c_align c, c_transform c)"

fun exec_cmd :: "ctx2d \<Rightarrow> cmd \<Rightarrow> ctx2d" where
  "exec_cmd c (SetFillStyle f) = c\<lparr>c_fill := f\<rparr>"
| "exec_cmd c (SetFont w s fam) = c\<lparr>c_font := (w, s, fam)\<rparr>"
| "exec_cmd c (SetTextBaseline b) = c\<lparr>c_baseline := b\<rparr>"
| "exec_cmd c (SetTextAlign a) = c\<lparr>c_align := a\<rparr>"
| "exec_cmd c (Translate x y) = c\<lparr>c_transform := c_transform c @ [Translate x y]\<rparr>"
| "exec_cmd c (Rotate r) = c\<lparr>c_transform := c_transform c @ [Rotate r]\<rparr>"
| "exec_cmd c Save = c\<lparr>c_stack := drawing_state c # c_stack c\<rparr>"
| "exec_cmd c Restore =
     (case c_stack c of
        [] \<Rightarrow> c
      | (f, fo, b, a, t) # rest \<Rightarrow>
          c\<lparr>c_fill := f, c_font := fo, c_baseline := b, c_align := a, c_transform := t, c_stack := rest\<rparr>)"
| "exec_cmd c BeginPath = c\<lparr>c_path := []\<rparr>"
| "exec_cmd c Fill = c\<lparr>c_marks := c_marks c @ map (\<lambda>p. (drawing_state c, p)) (c_path c @ [Fill])\<rparr>"
| "exec_cmd c (FillRect x y w h) = c\<lparr>c_marks := c_marks c @ [(drawing_state c, FillRect x y w h)]\<rparr>"
| "exec_cmd c (FillText t x y) = c\<lparr>c_marks := c_marks c @ [(drawing_state c, FillText t x y)]\<rparr>"
| "exec_cmd c p = c\<lparr>c_path := c_path c @ [p]\<rparr>"

definition exec :: "ctx2d \<Rightarrow> cmd list \<Rightarrow> ctx2d" where
  "exec c cs = fold (\<lambda>x c. exec_cmd c x) cs c"


lemma exec_Nil [simp]: "exec c [] = c" and exec_Cons [simp]: "exec c (x # xs) = exec (exec_cmd c x) xs"
  and exec_append: "exec c (xs @ ys) = exec (exec c xs) ys"
  by (simp_all add: exec_def)

end
