(* ===== verification/Text.thy ===== *)
theory Text
  imports Params Canvas
begin

text \<open>
  The text layer \<open>renderText\<close> (\<open>src/utils/textRenderer.ts\<close>, lines 3--35) as the
  commands it issues on the canvas context.  The CSS font string
  \<open>`${fontWeight} ${size}px ${fontStack}`\<close> is the triple of its three parts.
\<close>

definition fontStack :: "font \<Rightarrow> string" where
  "fontStack f = (case f of
       Helvetica \<Rightarrow> ''\"Helvetica Neue\", Helvetica, Arial, sans-serif''
     | ComicSansMS \<Rightarrow> ''\"Comic Sans MS\", \"Comic Sans\", cursive''
     | Arial \<Rightarrow> ''Arial, sans-serif'')"

definition renderText :: "real \<Rightarrow> real \<Rightarrow> text_params \<Rightarrow> cmd list" where
  "renderText width height params =
     (if tx_content params = [] then []
      else let fontSize = (tx_size params / 100) * (height * 0.5);
               fontWeight = (if tx_isBold params then ''bold'' else ''normal'');
               xPos = (tx_x params / 100) * width;
               yPos = (tx_y params / 100) * height
           in [Save, SetFont fontWeight (max 10 fontSize) (fontStack (tx_font params)),
               SetFillStyle (Css (tx_color params)), SetTextBaseline ''middle'', SetTextAlign ''center'',
               FillText (map of_char (tx_content params)) xPos yPos, Restore])"

text \<open>The text layer draws nothing for empty content; otherwise it draws the content
  once, centred (baseline \<open>middle\<close>, align \<open>center\<close>) on \<open>(x% of width, y% of height)\<close>,
  in the chosen colour, with font size \<open>max(10, size% of half the height)\<close>, and leaves
  every other part of the context as it found it.\<close>

theorem renderText_exec:
  "exec c (renderText W H p)
     = (if tx_content p = [] then c
        else c\<lparr>c_marks := c_marks c @
                 [((Css (tx_color p), (if tx_isBold p then ''bold'' else ''normal'',
                                       max 10 (tx_size p / 100 * (H * 0.5)), fontStack (tx_font p)),
                    ''middle'', ''center'', c_transform c),
                   FillText (map of_char (tx_content p)) (tx_x p / 100 * W) (tx_y p / 100 * H))]\<rparr>)"
  by (simp add: renderText_def drawing_state_def Let_def)

end
