(* ===== verification/Ascii.thy ===== *)
theory Ascii
  imports Params Canvas
begin

text \<open>
  The ASCII layer \<open>renderAscii\<close> (\<open>src/utils/chromaKeyAlgorithms.ts\<close>, lines 76--164)
  as the commands it issues.  The frame is first drawn scaled to \<open>cols \<times> rows\<close> on a
  helper canvas and read back; that resampling is the browser's, so the model takes it
  as the parameter \<open>resample cols rows\<close>, a buffer of \<open>cols * rows\<close> pixels.  The glyph
  ramps \<open>CHAR_SETS\<close> are lists of code points (\<open>blocks\<close> holds non-ASCII glyphs).  The
  slider keeps \<open>scale\<close> in \<open>[4, 24]\<close>; the model's division by \<open>0\<close> is \<open>0\<close>, where
  JavaScript's is \<open>Infinity\<close>, so nothing is claimed for \<open>scale = 0\<close>.
\<close>

definition CHAR_SETS_simple :: "nat list" where
  "CHAR_SETS_simple = map of_char '' .:-=+*#%@''"

definition CHAR_SETS_complex :: "nat list" where
  "CHAR_SETS_complex = [32, 46, 39, 96, 94, 34, 44, 58, 59, 73, 108, 33, 105, 126, 43, 95, 45, 63, 93, 91,
     125, 123, 49, 41, 40, 124, 92, 47, 116, 102, 106, 114, 120, 110, 117, 118, 99, 122, 88, 89, 85, 74,
     67, 76, 81, 48, 79, 90, 109, 119, 113, 112, 100, 98, 107, 104, 97, 111, 42, 35, 77, 87, 38, 56, 37,
     66, 64, 36]"

definition CHAR_SETS_blocks :: "nat list" where
  "CHAR_SETS_blocks = [32, 9617, 9618, 9619, 9608]"

definition char_set :: "string \<Rightarrow> nat list" where
  "char_set k = (if k = ''complex'' then CHAR_SETS_complex
                 else if k = ''blocks'' then CHAR_SETS_blocks else CHAR_SETS_simple)"

text \<open>Luminance and the contrast curve shared with the halftone layer.\<close>

definition luma :: "byte \<Rightarrow> byte \<Rightarrow> byte \<Rightarrow> real" where
  "luma r g b = (bval r * 0.299 + bval g * 0.587 + bval b * 0.114) / 255"

definition contrast_curve :: "real \<Rightarrow> real \<Rightarrow> real" where
  "contrast_curve c v = max 0 (min 1 ((v - 0.5) * c + 0.5))"

definition glyph_index :: "nat \<Rightarrow> real \<Rightarrow> nat" where
  "glyph_index charLen brightness = nat \<lfloor>(1 - brightness) * (real charLen - 1)\<rfloor>"

definition ascii_cell ::
  "ascii_params \<Rightarrow> nat list \<Rightarrow> string \<Rightarrow> buffer \<Rightarrow> nat \<Rightarrow> nat \<Rightarrow> nat \<Rightarrow> cmd list" where
  "ascii_cell params chars textColor data cols y x =
     (let i = (y * cols + x) * 4;
          r = data ! i; g = data ! (i + 1); b = data ! (i + 2);
          brightness = contrast_curve (as_contrast params) (luma r g b);
          ch = chars ! glyph_index (length chars) brightness
      in [SetFillStyle (if as_colorMode params then Rgb (unat r) (unat g) (unat b) else Css textColor),
          FillText [ch] (real x * as_scale params) (real y * (as_scale params * 1.6))])"

definition ascii_colors :: "ascii_params \<Rightarrow> string \<times> string" where
  "ascii_colors params =
     (let bgColor0 = (if as_backgroundColor params = [] then ''#ffffff'' else as_backgroundColor params);
          textColor0 = (if as_textColor params = [] then ''#000000'' else as_textColor params)
      in if as_inverted params then (textColor0, bgColor0) else (bgColor0, textColor0))"

definition renderAscii :: "(nat \<Rightarrow> nat \<Rightarrow> buffer) \<Rightarrow> real \<Rightarrow> real \<Rightarrow> ascii_params \<Rightarrow> cmd list" where
  "renderAscii resample width height params =
     (let fontWidth = as_scale params;
          fontHeight = as_scale params * 1.6;
          cols = \<lfloor>width / fontWidth\<rfloor>;
          rows = \<lfloor>height / fontHeight\<rfloor>
      in if cols \<le> 0 \<or> rows \<le> 0 then []
         else
           let data = resample (nat cols) (nat rows);
               (bgColor, textColor) = ascii_colors params;
               chars = char_set (as_chars params)
           in [SetFillStyle (Css bgColor), FillRect 0 0 width height,
               SetFont ''bold'' (as_scale params) ''\"Courier New\", monospace'', SetTextBaseline ''top'']
              @ concat (map (\<lambda>y. concat (map (ascii_cell params chars textColor data (nat cols) y) [0..<nat cols]))
                          [0..<nat rows]))"

definition is_text :: "cmd \<Rightarrow> bool" where
  "is_text c = (case c of FillText _ _ _ \<Rightarrow> True | _ \<Rightarrow> False)"

lemma contrast_curve_range: "0 \<le> contrast_curve c v \<and> contrast_curve c v \<le> 1"
  by (simp add: contrast_curve_def)

lemma contrast_curve_mono: "0 \<le> c \<Longrightarrow> v \<le> v' \<Longrightarrow> contrast_curve c v \<le> contrast_curve c v'"
  unfolding contrast_curve_def by (intro max.mono min.mono order_refl add_right_mono mult_right_mono) simp_all

lemma glyph_index_less:
  assumes "0 < n" "0 \<le> b" "b \<le> 1"
  shows "glyph_index n b < n"
proof -
  have "(1 - b) * (real n - 1) \<le> real n - 1"
    using assms by (simp add: mult_left_le_one_le)
  moreover have "0 \<le> (1 - b) * (real n - 1)" using assms by simp
  ultimately have "\<lfloor>(1 - b) * (real n - 1)\<rfloor> \<le> int n - 1" by linarith
  then show ?thesis using assms(1) by (simp add: glyph_index_def)
qed

lemma concat_map_product:
  "concat (map (\<lambda>y. concat (map (f y) xs)) ys) = concat (map (\<lambda>(y, x). f y x) (List.product ys xs))"
  by (induction ys) (simp_all add: comp_def)

lemma exec_cells:
  assumes "\<And>x. cell x = [SetFillStyle (F x), FillText (t x) (px x) (py x)]"
  shows "c_marks (exec c (concat (map cell xs)))
           = c_marks c @ map (\<lambda>x. ((F x, c_font c, c_baseline c, c_align c, c_transform c), FillText (t x) (px x) (py x))) xs"
  using assms
proof (induction xs arbitrary: c)
  case (Cons x xs)
  then show ?case by (simp add: exec_append drawing_state_def)
qed simp

lemma set_char_set_nonempty: "0 < length (char_set k)"
  by (simp add: char_set_def CHAR_SETS_simple_def CHAR_SETS_complex_def CHAR_SETS_blocks_def)

text \<open>C31: every glyph index the ASCII layer computes lies inside its glyph ramp, for
  every ramp name, contrast and sample: \<open>chars[charIndex]\<close> is always defined.\<close>

theorem glyph_index_bounds: "glyph_index (length (char_set k)) (contrast_curve c v) < length (char_set k)"
  using glyph_index_less [OF set_char_set_nonempty] contrast_curve_range by blast

text \<open>For a non-negative contrast, a brighter sample never gets a denser glyph: the
  ramp index is antitone in the luminance.\<close>

theorem glyph_index_antitone:
  assumes "0 \<le> c" "v \<le> v'"
  shows "glyph_index n (contrast_curve c v') \<le> glyph_index n (contrast_curve c v)"
proof -
  show ?thesis
  proof (cases n)
    case 0
    have "\<lfloor>(1 - contrast_curve c v') * (real n - 1)\<rfloor> \<le> 0"
      using 0 contrast_curve_range [of c v'] by simp
    then show ?thesis by (simp add: glyph_index_def)
  next
    case (Suc m)
    have "contrast_curve c v \<le> contrast_curve c v'" by (rule contrast_curve_mono [OF assms])
    then have "(1 - contrast_curve c v') * (real n - 1) \<le> (1 - contrast_curve c v) * (real n - 1)"
      using Suc by (simp add: mult_right_mono)
    then show ?thesis unfolding glyph_index_def by (intro nat_mono floor_mono)
  qed
qed

text \<open>C30: the ASCII layer draws exactly \<open>floor(width / scale) * floor(height / (1.6 * scale))\<close>
  glyphs, one per cell of the grid (none when the grid is empty).\<close>

theorem renderAscii_count:
  "length (filter is_text (renderAscii rs W H p))
     = nat \<lfloor>W / as_scale p\<rfloor> * nat \<lfloor>H / (as_scale p * 1.6)\<rfloor>"
proof -
  have cell: "filter is_text (ascii_cell p chars tc d cols y x) = [FillText [chars ! glyph_index (length chars)
                 (contrast_curve (as_contrast p) (luma (d ! ((y * cols + x) * 4)) (d ! ((y * cols + x) * 4 + 1))
                   (d ! ((y * cols + x) * 4 + 2))))] (real x * as_scale p) (real y * (as_scale p * 1.6))]"
    for chars tc d cols y x
    by (simp add: ascii_cell_def is_text_def Let_def)
  have len: "length (filter is_text (concat (map (\<lambda>y. concat (map (ascii_cell p chars tc d cols y) [0..<cols])) ys)))
               = length ys * cols" for chars tc d cols ys
    by (induction ys) (simp_all add: filter_concat length_concat cell comp_def sum_list_triv)
  show ?thesis
    by (auto simp: renderAscii_def Let_def is_text_def len split: prod.splits)
qed

text \<open>In monochrome mode the ASCII layer fills the frame with the background colour
  and draws every glyph in the text colour (\<open>ascii_colors\<close>: the two swapped when
  \<open>inverted\<close> is set, an empty colour falling back to white background and black text).\<close>

theorem renderAscii_monochrome:
  assumes "\<not> as_colorMode p"
  shows "list_all (\<lambda>(d, m). fst d = (if is_text m then Css (snd (ascii_colors p)) else Css (fst (ascii_colors p))))
           (drop (length (c_marks c)) (c_marks (exec c (renderAscii rs W H p))))"
proof (cases "\<lfloor>W / as_scale p\<rfloor> \<le> 0 \<or> \<lfloor>H / (as_scale p * 1.6)\<rfloor> \<le> 0")
  case True
  then show ?thesis by (simp add: renderAscii_def Let_def)
next
  case False
  obtain bg tc where col: "ascii_colors p = (bg, tc)" by (cases "ascii_colors p")
  let ?cols = "nat \<lfloor>W / as_scale p\<rfloor>" and ?rows = "nat \<lfloor>H / (as_scale p * 1.6)\<rfloor>"
  let ?cell = "\<lambda>(y, x). ascii_cell p (char_set (as_chars p)) tc (rs ?cols ?rows) ?cols y x"
  let ?pre = "[SetFillStyle (Css bg), FillRect 0 0 W H, SetFont ''bold'' (as_scale p) ''\"Courier New\", monospace'',
               SetTextBaseline ''top'']"
  have r: "renderAscii rs W H p = ?pre @ concat (map ?cell (List.product [0..<?rows] [0..<?cols]))"
    using False col by (simp add: renderAscii_def Let_def concat_map_product)
  have "c_marks (exec (exec c ?pre) (concat (map ?cell (List.product [0..<?rows] [0..<?cols]))))
          = c_marks (exec c ?pre) @ map (\<lambda>x. ((Css tc, c_font (exec c ?pre), c_baseline (exec c ?pre),
                 c_align (exec c ?pre), c_transform (exec c ?pre)), FillText (
                 case x of (y, x) \<Rightarrow> [char_set (as_chars p) ! glyph_index (length (char_set (as_chars p)))
                   (contrast_curve (as_contrast p) (luma (rs ?cols ?rows ! ((y * ?cols + x) * 4))
                     (rs ?cols ?rows ! ((y * ?cols + x) * 4 + 1)) (rs ?cols ?rows ! ((y * ?cols + x) * 4 + 2))))])
                 (case x of (y, x) \<Rightarrow> real x * as_scale p) (case x of (y, x) \<Rightarrow> real y * (as_scale p * 1.6))))
               (List.product [0..<?rows] [0..<?cols])"
    by (rule exec_cells) (use assms in \<open>auto simp: ascii_cell_def Let_def split: prod.splits\<close>)
  then show ?thesis using col
    by (simp add: r exec_append drawing_state_def is_text_def list_all_iff)
qed

subsection \<open>Witnesses\<close>

theorem glyph_index_antitone_witness:
  "0 \<le> (1.2::real) \<and> (0.3::real) \<le> 0.8
   \<and> glyph_index 68 (contrast_curve 1.2 0.8) \<le> glyph_index 68 (contrast_curve 1.2 0.3)"
  using glyph_index_antitone [of "1.2" "0.3" "0.8" 68] by simp

theorem renderAscii_monochrome_witness:
  "\<not> as_colorMode \<lparr>as_scale = 8, as_contrast = 1.2, as_colorMode = False, as_inverted = True, as_chars = ''complex'', as_backgroundColor = [], as_textColor = ''#00ff00''\<rparr>
   \<and> list_all (\<lambda>(d, m). fst d = (if is_text m then Css (snd (ascii_colors \<lparr>as_scale = 8, as_contrast = 1.2, as_colorMode = False, as_inverted = True, as_chars = ''complex'', as_backgroundColor = [], as_textColor = ''#00ff00''\<rparr>)) else Css (fst (ascii_colors \<lparr>as_scale = 8, as_contrast = 1.2, as_colorMode = False, as_inverted = True, as_chars = ''complex'', as_backgroundColor = [], as_textColor = ''#00ff00''\<rparr>))))
        (drop (length (c_marks \<lparr>c_fill = Css [], c_font = ([], 10, []), c_baseline = [], c_align = [], c_transform = [], c_stack = [], c_path = [], c_marks = []\<rparr>)) (c_marks (exec \<lparr>c_fill = Css [], c_font = ([], 10, []), c_baseline = [], c_align = [], c_transform = [], c_stack = [], c_path = [], c_marks = []\<rparr> (renderAscii (\<lambda>_ _. []) 640 480 \<lparr>as_scale = 8, as_contrast = 1.2, as_colorMode = False, as_inverted = True, as_chars = ''complex'', as_backgroundColor = [], as_textColor = ''#00ff00''\<rparr>))))"
proof -
  have h: "\<not> as_colorMode \<lparr>as_scale = 8, as_contrast = 1.2, as_colorMode = False, as_inverted = True, as_chars = ''complex'', as_backgroundColor = [], as_textColor = ''#00ff00''\<rparr>" by simp
  show ?thesis using h renderAscii_monochrome [OF h] by blast
qed

end
