(* ===== verification/Halftone.thy ===== *)
theory Halftone
  imports Ascii
begin

text \<open>
  The halftone layer \<open>renderHalftone\<close> (\<open>src/utils/chromaKeyAlgorithms.ts\<close>, lines
  167--249) as the commands it issues.  It copies the canvas to a helper canvas of the
  same size and reads it back (\<open>getImageData\<close>, which throws on a zero-sized frame),
  so the samples are the canvas buffer itself.  Its two grid loops
  \<open>for (v = -extra; v < limit; v += step)\<close> run on numbers: with \<open>step = radius * 1.5 \<le> 0\<close>
  they never end.  They are the partial function \<open>grid_axis\<close> in the option monad,
  \<open>None\<close> standing for the loop that does not return; the stage's result is
  \<open>None\<close> exactly then.  Floating-point accumulation of \<open>v += step\<close> is not modelled.
\<close>

partial_function (option) grid_axis :: "real \<Rightarrow> real \<Rightarrow> real \<Rightarrow> real list option" where
  "grid_axis v limit step =
     (if v < limit then Option.bind (grid_axis (v + step) limit step) (\<lambda>vs. Some (v # vs)) else Some [])"

definition halftone_shape_cmds :: "halftone_shape \<Rightarrow> real \<Rightarrow> real \<Rightarrow> real \<Rightarrow> real \<Rightarrow> cmd list" where
  "halftone_shape_cmds shape radius x y dotSize =
     (case shape of
        Circle \<Rightarrow> [Arc x y dotSize 0 (pi * 2)]
      | Diamond \<Rightarrow> [MoveTo x (y - dotSize), LineTo (x + dotSize) y, LineTo x (y + dotSize), LineTo (x - dotSize) y]
      | Line \<Rightarrow> [Rect (x - radius / 2) (y - dotSize) radius (dotSize * 2)])"

definition halftone_dot ::
  "halftone_params \<Rightarrow> nat \<Rightarrow> nat \<Rightarrow> buffer \<Rightarrow> real \<Rightarrow> real \<Rightarrow> real \<Rightarrow> real \<Rightarrow> cmd list" where
  "halftone_dot params width height imgData sinA cosA x y =
     (let cx = real width / 2; cy = real height / 2;
          dx = x - cx; dy = y - cy;
          srcX = \<lfloor>dx * cosA + dy * sinA + cx\<rfloor>;
          srcY = \<lfloor>dy * cosA - dx * sinA + cy\<rfloor>
      in if 0 \<le> srcX \<and> srcX < int width \<and> 0 \<le> srcY \<and> srcY < int height then
           let i = nat ((srcY * int width + srcX) * 4);
               r = imgData ! i; g = imgData ! (i + 1); b = imgData ! (i + 2);
               brightness = contrast_curve (ht_contrast params) (luma r g b);
               dotSize = (1 - brightness) * ht_radius params
           in if 0.5 < dotSize then
                [SetFillStyle (if ht_colorMode params then Rgb (unat r) (unat g) (unat b)
                               else Css (if ht_color params = [] then ''#000000'' else ht_color params)),
                 BeginPath] @ halftone_shape_cmds (ht_shape params) (ht_radius params) x y dotSize @ [Fill]
              else []
         else [])"

definition renderHalftone :: "buffer \<Rightarrow> nat \<Rightarrow> nat \<Rightarrow> halftone_params \<Rightarrow> (js_error + cmd list) option" where
  "renderHalftone canvas width height params =
     (case getImageData width height canvas of
        Inl e \<Rightarrow> Some (Inl e)
      | Inr imgData \<Rightarrow>
          (let radian = (ht_angle params * pi) / 180;
               sinA = sin radian; cosA = cos radian;
               step = ht_radius params * 1.5;
               extra = real (max width height);
               pre = [SetFillStyle (Css (if ht_backgroundColor params = [] then ''#ffffff'' else ht_backgroundColor params)),
                      FillRect 0 0 (real width) (real height), Save,
                      Translate (real width / 2) (real height / 2), Rotate radian,
                      Translate (- real width / 2) (- real height / 2)]
           in map_option (\<lambda>dots. Inr (pre @ dots @ [Restore]))
                (Option.bind (grid_axis (- extra) (real height + extra) step) (\<lambda>ys.
                   if ys = [] then Some []
                   else map_option (\<lambda>xs. concat (map (\<lambda>y. concat (map (\<lambda>x.
                                      halftone_dot params width height imgData sinA cosA x y) xs)) ys))
                          (grid_axis (- extra) (real width + extra) step)))))"

lemma grid_axis_closed:
  assumes "0 < step"
  shows "grid_axis v limit step = Some (map (\<lambda>k. v + real k * step) [0..<nat \<lceil>(limit - v) / step\<rceil>])"
proof (induction "nat \<lceil>(limit - v) / step\<rceil>" arbitrary: v)
  case 0
  then have "\<lceil>(limit - v) / step\<rceil> \<le> 0" by simp
  then have "(limit - v) / step \<le> 0" by linarith
  then have "\<not> v < limit" using assms by (simp add: divide_le_0_iff)
  then show ?case using 0 by (simp add: grid_axis.simps)
next
  case (Suc n)
  have c: "\<lceil>(limit - (v + step)) / step\<rceil> = \<lceil>(limit - v) / step\<rceil> - 1"
  proof -
    have "(limit - (v + step)) / step = (limit - v) / step - 1" using assms by (simp add: field_simps)
    then show ?thesis by simp
  qed
  then have n: "n = nat \<lceil>(limit - (v + step)) / step\<rceil>" using Suc.hyps(2) by simp
  have "0 < (limit - v) / step" using Suc.hyps(2) by linarith
  then have lt: "v < limit" using assms by (simp add: zero_less_divide_iff)
  have "map (\<lambda>k. v + real k * step) [0..<Suc n] = v # map (\<lambda>k. (v + step) + real k * step) [0..<n]"
    by (simp add: map_upt_Suc algebra_simps del: upt_Suc)
  moreover have IH: "grid_axis (v + step) limit step = Some (map (\<lambda>k. (v + step) + real k * step) [0..<n])"
    using Suc.hyps(1) [OF n] unfolding n [symmetric] .
  ultimately show ?case using Suc.hyps(2) lt by (subst grid_axis.simps) simp
qed

lemma grid_axis_diverges:
  assumes "step \<le> 0" "v < limit"
  shows "grid_axis v limit step = None"
proof -
  have "grid_axis v limit step \<noteq> Some vs" if "v < limit" for vs v
    using that
  proof (induction vs arbitrary: v)
    case Nil
    then show ?case by (subst grid_axis.simps) (auto split: Option.bind_splits)
  next
    case (Cons a vs)
    have "v + step < limit" using Cons.prems assms(1) by simp
    then show ?case using Cons.IH Cons.prems by (subst grid_axis.simps) (auto split: Option.bind_splits)
  qed
  then show ?thesis using assms(2) by (cases "grid_axis v limit step") auto
qed

text \<open>Drawing commands that do not touch the transform or the save stack.\<close>

definition keeps_frame :: "cmd \<Rightarrow> bool" where
  "keeps_frame c = (case c of Save \<Rightarrow> False | Restore \<Rightarrow> False | Translate _ _ \<Rightarrow> False | Rotate _ \<Rightarrow> False | _ \<Rightarrow> True)"

lemma exec_keeps_frame:
  "list_all keeps_frame cs \<Longrightarrow> c_transform (exec c cs) = c_transform c \<and> c_stack (exec c cs) = c_stack c"
proof (induction cs arbitrary: c)
  case (Cons x cs)
  then have "c_transform (exec_cmd c x) = c_transform c \<and> c_stack (exec_cmd c x) = c_stack c"
    by (cases x) (simp_all add: keeps_frame_def)
  then show ?case using Cons by simp
qed simp

lemma halftone_dot_keeps_frame: "list_all keeps_frame (halftone_dot p w h d s c x y)"
  by (simp add: halftone_dot_def halftone_shape_cmds_def keeps_frame_def Let_def split: halftone_shape.splits)

lemma renderHalftone_Inr:
  assumes "0 < w" "0 < h" "0 < ht_radius p"
  shows "\<exists>dots. renderHalftone canvas w h p
           = Some (Inr ([SetFillStyle (Css (if ht_backgroundColor p = [] then ''#ffffff'' else ht_backgroundColor p)),
                        FillRect 0 0 (real w) (real h), Save, Translate (real w / 2) (real h / 2),
                        Rotate (ht_angle p * pi / 180), Translate (- real w / 2) (- real h / 2)] @ dots @ [Restore]))
           \<and> dots = concat (map (\<lambda>y. concat (map (\<lambda>x. halftone_dot p w h canvas (sin (ht_angle p * pi / 180))
                       (cos (ht_angle p * pi / 180)) x y)
                       (map (\<lambda>k. - real (max w h) + real k * (ht_radius p * 1.5))
                          [0..<nat \<lceil>(real w + real (max w h) - - real (max w h)) / (ht_radius p * 1.5)\<rceil>])))
                     (map (\<lambda>k. - real (max w h) + real k * (ht_radius p * 1.5))
                        [0..<nat \<lceil>(real h + real (max w h) - - real (max w h)) / (ht_radius p * 1.5)\<rceil>]))"
proof -
  have st: "0 < ht_radius p * 1.5" using assms(3) by simp
  show ?thesis
    using assms grid_axis_closed [OF st]
    by (simp add: renderHalftone_def getImageData_def Let_def split: if_splits)
qed

lemma contrast_curve_white: "1 \<le> c \<Longrightarrow> contrast_curve c (luma 255 255 255) = 1"
  by (simp add: contrast_curve_def luma_def)

lemma halftone_dot_white:
  assumes "1 \<le> ht_contrast p"
  shows "halftone_dot p w h (replicate (4 * (w * h)) 255) s c x y = []"
proof -
  have idx: "nat ((sy * int w + sx) * 4) + k < 4 * (w * h)"
    if "0 \<le> sx" "sx < int w" "0 \<le> sy" "sy < int h" "k < 3" for sx sy k
  proof -
    have "sy * int w + sx < int w * int h"
    proof -
      have "(sy + 1) * int w \<le> int h * int w" using that by (intro mult_right_mono) simp_all
      then show ?thesis using that by (simp add: algebra_simps)
    qed
    then have "nat (sy * int w + sx) < w * h" using that by (simp add: nat_less_iff)
    then show ?thesis using that by (simp add: nat_mult_distrib)
  qed
  show ?thesis
    using idx [of _ _ 0] idx [of _ _ 1] idx [of _ _ 2] contrast_curve_white [OF assms]
    by (auto simp: halftone_dot_def Let_def)
qed

text \<open>C12: for a positive dot radius (the slider's range is \<open>[2, 30]\<close>) both grid loops
  end, so the halftone layer returns: it throws \<open>IndexSizeError\<close> on a zero-sized frame
  and otherwise yields its list of commands.\<close>

theorem renderHalftone_terminates:
  assumes "0 < ht_radius p"
  shows "\<exists>cs. renderHalftone canvas w h p = Some (if w = 0 \<or> h = 0 then Inl IndexSizeError else Inr cs)"
proof (cases "w = 0 \<or> h = 0")
  case True
  then show ?thesis by (auto simp: renderHalftone_def getImageData_def)
next
  case False
  then show ?thesis using renderHalftone_Inr [of w h p canvas] assms by auto
qed

text \<open>C29: with a dot radius of 0 or less, the grid loop \<open>y += step\<close> never leaves its
  range, so the halftone layer does not return on any non-empty frame.\<close>

theorem renderHalftone_hangs:
  assumes "ht_radius p \<le> 0" "0 < w" "0 < h"
  shows "renderHalftone canvas w h p = None"
proof -
  have "grid_axis (- real (max w h)) (real h + real (max w h)) (ht_radius p * 1.5) = None"
    using assms by (intro grid_axis_diverges) simp_all
  then show ?thesis using assms(2,3) by (simp add: renderHalftone_def getImageData_def Let_def)
qed

text \<open>The commands of the halftone layer leave the context's transform and its
  \<open>save()\<close> stack as they found them: the rotation is undone by the final \<open>restore()\<close>.\<close>

theorem renderHalftone_frame:
  assumes "0 < ht_radius p" "renderHalftone canvas w h p = Some (Inr cs)"
  shows "c_transform (exec c cs) = c_transform c \<and> c_stack (exec c cs) = c_stack c"
proof -
  have wh: "0 < w" "0 < h" using assms(2) by (auto simp: renderHalftone_def getImageData_def split: if_splits)
  obtain dots where cs: "cs = [SetFillStyle (Css (if ht_backgroundColor p = [] then ''#ffffff'' else ht_backgroundColor p)),
        FillRect 0 0 (real w) (real h), Save, Translate (real w / 2) (real h / 2),
        Rotate (ht_angle p * pi / 180), Translate (- real w / 2) (- real h / 2)] @ dots @ [Restore]"
    and d: "list_all keeps_frame dots"
    using renderHalftone_Inr [OF wh assms(1), of canvas] assms(2) halftone_dot_keeps_frame
    by (auto simp: list_all_iff)
  let ?c1 = "exec c [SetFillStyle (Css (if ht_backgroundColor p = [] then ''#ffffff'' else ht_backgroundColor p)),
        FillRect 0 0 (real w) (real h), Save, Translate (real w / 2) (real h / 2),
        Rotate (ht_angle p * pi / 180), Translate (- real w / 2) (- real h / 2)]"
  have "c_transform (exec ?c1 dots) = c_transform ?c1 \<and> c_stack (exec ?c1 dots) = c_stack ?c1"
    by (rule exec_keeps_frame [OF d])
  then show ?thesis by (simp add: cs exec_append drawing_state_def)
qed

text \<open>On a white frame with contrast at least 1 the halftone layer draws no dot:
  only the background, the transform set-up and the \<open>restore()\<close>, seven commands.\<close>

theorem renderHalftone_white:
  assumes "0 < w" "0 < h" "0 < ht_radius p" "1 \<le> ht_contrast p"
  shows "map_option (map_sum id length) (renderHalftone (replicate (4 * (w * h)) 255) w h p) = Some (Inr 7)"
proof -
  obtain dots where r: "renderHalftone (replicate (4 * (w * h)) 255) w h p
      = Some (Inr ([SetFillStyle (Css (if ht_backgroundColor p = [] then ''#ffffff'' else ht_backgroundColor p)),
        FillRect 0 0 (real w) (real h), Save, Translate (real w / 2) (real h / 2),
        Rotate (ht_angle p * pi / 180), Translate (- real w / 2) (- real h / 2)] @ dots @ [Restore]))"
    and "dots = []"
    using renderHalftone_Inr [OF assms(1-3), of "replicate (4 * (w * h)) 255"] halftone_dot_white [OF assms(4)]
    by auto
  then show ?thesis by simp
qed

subsection \<open>Witnesses\<close>

theorem renderHalftone_terminates_witness:
  "0 < ht_radius \<lparr>ht_radius = 2, ht_angle = 0, ht_contrast = 1.2, ht_shape = Circle, ht_colorMode = False, ht_backgroundColor = [], ht_color = []\<rparr>
   \<and> (\<exists>cs. renderHalftone (replicate 16 255) 2 2 \<lparr>ht_radius = 2, ht_angle = 0, ht_contrast = 1.2, ht_shape = Circle, ht_colorMode = False, ht_backgroundColor = [], ht_color = []\<rparr>
          = Some (if (2::nat) = 0 \<or> (2::nat) = 0 then Inl IndexSizeError else Inr cs))"
  using renderHalftone_terminates [of "\<lparr>ht_radius = 2, ht_angle = 0, ht_contrast = 1.2, ht_shape = Circle, ht_colorMode = False, ht_backgroundColor = [], ht_color = []\<rparr>" "replicate 16 255" 2 2] by simp

theorem renderHalftone_hangs_witness:
  "ht_radius \<lparr>ht_radius = 0, ht_angle = 45, ht_contrast = 1, ht_shape = Diamond, ht_colorMode = True, ht_backgroundColor = [], ht_color = []\<rparr> \<le> 0 \<and> 0 < (2::nat) \<and> renderHalftone (replicate 16 0) 2 2 \<lparr>ht_radius = 0, ht_angle = 45, ht_contrast = 1, ht_shape = Diamond, ht_colorMode = True, ht_backgroundColor = [], ht_color = []\<rparr> = None"
  using renderHalftone_hangs [of "\<lparr>ht_radius = 0, ht_angle = 45, ht_contrast = 1, ht_shape = Diamond, ht_colorMode = True, ht_backgroundColor = [], ht_color = []\<rparr>" 2 2 "replicate 16 0"] by simp

lemma renderHalftone_one_pixel: "renderHalftone (replicate 4 255) 1 1 \<lparr>ht_radius = 2, ht_angle = 0, ht_contrast = 1.2, ht_shape = Circle, ht_colorMode = False, ht_backgroundColor = [], ht_color = []\<rparr> = Some (Inr [SetFillStyle (Css ''#ffffff''), FillRect 0 0 1 1, Save, Translate (1 / 2) (1 / 2), Rotate 0, Translate (- 1 / 2) (- 1 / 2), Restore])"
proof -
  obtain dots where r: "renderHalftone (replicate 4 255) 1 1 \<lparr>ht_radius = 2, ht_angle = 0, ht_contrast = 1.2, ht_shape = Circle, ht_colorMode = False, ht_backgroundColor = [], ht_color = []\<rparr> = Some (Inr ([SetFillStyle (Css ''#ffffff''),
      FillRect 0 0 1 1, Save, Translate (1 / 2) (1 / 2), Rotate 0, Translate (- 1 / 2) (- 1 / 2)] @ dots @ [Restore]))"
    and d: "dots = concat (map (\<lambda>y. concat (map (\<lambda>x. halftone_dot \<lparr>ht_radius = 2, ht_angle = 0, ht_contrast = 1.2, ht_shape = Circle, ht_colorMode = False, ht_backgroundColor = [], ht_color = []\<rparr> 1 1 (replicate 4 255) 0 1 x y)
                       (map (\<lambda>k. - 1 + real k * 3) [0..<nat \<lceil>(1 + 1 - - 1) / (3::real)\<rceil>])))
                     (map (\<lambda>k. - 1 + real k * 3) [0..<nat \<lceil>(1 + 1 - - 1) / (3::real)\<rceil>]))"
    using renderHalftone_Inr [of 1 1 "\<lparr>ht_radius = 2, ht_angle = 0, ht_contrast = 1.2, ht_shape = Circle, ht_colorMode = False, ht_backgroundColor = [], ht_color = []\<rparr>" "replicate 4 255"] by auto
  have "dots = []" unfolding d by (simp add: halftone_dot_def)
  then show ?thesis using r by simp
qed

theorem renderHalftone_frame_witness:
  "0 < ht_radius \<lparr>ht_radius = 2, ht_angle = 0, ht_contrast = 1.2, ht_shape = Circle, ht_colorMode = False, ht_backgroundColor = [], ht_color = []\<rparr> \<and> renderHalftone (replicate 4 255) 1 1 \<lparr>ht_radius = 2, ht_angle = 0, ht_contrast = 1.2, ht_shape = Circle, ht_colorMode = False, ht_backgroundColor = [], ht_color = []\<rparr> = Some (Inr [SetFillStyle (Css ''#ffffff''), FillRect 0 0 1 1, Save, Translate (1 / 2) (1 / 2), Rotate 0, Translate (- 1 / 2) (- 1 / 2), Restore])
   \<and> c_transform (exec \<lparr>c_fill = Css [], c_font = ([], 10, []), c_baseline = [], c_align = [], c_transform = [], c_stack = [], c_path = [], c_marks = []\<rparr> [SetFillStyle (Css ''#ffffff''), FillRect 0 0 1 1, Save, Translate (1 / 2) (1 / 2), Rotate 0, Translate (- 1 / 2) (- 1 / 2), Restore]) = c_transform \<lparr>c_fill = Css [], c_font = ([], 10, []), c_baseline = [], c_align = [], c_transform = [], c_stack = [], c_path = [], c_marks = []\<rparr> \<and> c_stack (exec \<lparr>c_fill = Css [], c_font = ([], 10, []), c_baseline = [], c_align = [], c_transform = [], c_stack = [], c_path = [], c_marks = []\<rparr> [SetFillStyle (Css ''#ffffff''), FillRect 0 0 1 1, Save, Translate (1 / 2) (1 / 2), Rotate 0, Translate (- 1 / 2) (- 1 / 2), Restore]) = c_stack \<lparr>c_fill = Css [], c_font = ([], 10, []), c_baseline = [], c_align = [], c_transform = [], c_stack = [], c_path = [], c_marks = []\<rparr>"
proof -
  have h: "0 < ht_radius \<lparr>ht_radius = 2, ht_angle = 0, ht_contrast = 1.2, ht_shape = Circle, ht_colorMode = False, ht_backgroundColor = [], ht_color = []\<rparr>" by simp
  show ?thesis using renderHalftone_frame [OF h renderHalftone_one_pixel, of "\<lparr>c_fill = Css [], c_font = ([], 10, []), c_baseline = [], c_align = [], c_transform = [], c_stack = [], c_path = [], c_marks = []\<rparr>"] renderHalftone_one_pixel by simp
qed

theorem renderHalftone_white_witness:
  "0 < (2::nat) \<and> 0 < ht_radius \<lparr>ht_radius = 2, ht_angle = 0, ht_contrast = 1.2, ht_shape = Circle, ht_colorMode = False, ht_backgroundColor = [], ht_color = []\<rparr> \<and> 1 \<le> ht_contrast \<lparr>ht_radius = 2, ht_angle = 0, ht_contrast = 1.2, ht_shape = Circle, ht_colorMode = False, ht_backgroundColor = [], ht_color = []\<rparr>
   \<and> map_option (map_sum id length) (renderHalftone (replicate (4 * (2 * 2)) 255) 2 2 \<lparr>ht_radius = 2, ht_angle = 0, ht_contrast = 1.2, ht_shape = Circle, ht_colorMode = False, ht_backgroundColor = [], ht_color = []\<rparr>) = Some (Inr 7)"
  using renderHalftone_white [of 2 2 "\<lparr>ht_radius = 2, ht_angle = 0, ht_contrast = 1.2, ht_shape = Circle, ht_colorMode = False, ht_backgroundColor = [], ht_color = []\<rparr>"] by simp

end
