(* ===== verification/Pipeline.thy ===== *)
theory Pipeline
  imports Threshold Glitch Blend Text Halftone
begin

text \<open>
  The orchestrator of \<open>src/App.tsx\<close>: the default parameters (lines 17--69), the React
  state the frame renderer reads, \<open>renderCanvas\<close> (lines 237--379: source readiness,
  the AI-tab early return, the output dimensions capped at \<open>MAX_DIM = 2048\<close>, the
  vibration draws, the CSS filter list, the base draw, then threshold, blend, text,
  glitch, halftone and ASCII, each behind its flag), the loop condition (lines
  382--387), and the handlers \<open>handleRandomize\<close> (lines 522--566) and
  \<open>handlePrintLayer\<close> (lines 568--607).  What the browser does is the record
  \<open>browser\<close>: drawing the source with filters, scale, mirror and vibration offset into
  a \<open>w \<times> h\<close> raster, the second source drawn at \<open>w \<times> h\<close>, rasterising a list of
  canvas commands onto the canvas, and the downscaled copy the ASCII layer reads.
\<close>

definition DEFAULT_GLOBAL :: global_params where
  "DEFAULT_GLOBAL = \<lparr>gl_brightness = 1, gl_blur = 0, gl_colormatrix = 0, gl_vibration = 0,
     gl_saturation = 1, gl_scaleX = 1, gl_scaleY = 1, gl_threshold = 0\<rparr>"

definition DEFAULT_GLITCH :: glitch_params where
  "DEFAULT_GLITCH = \<lparr>gt_amount = 50, gt_seed = 12345, gt_iterations = 1, gt_quality = 90,
     gt_rgbShift = 5, gt_blockShift = 10, gt_scanlines = 2, gt_pixelSort = 0\<rparr>"

definition NEUTRAL_GLITCH :: glitch_params where
  "NEUTRAL_GLITCH = \<lparr>gt_amount = 0, gt_seed = 0, gt_iterations = 1, gt_quality = 100,
     gt_rgbShift = 0, gt_blockShift = 0, gt_scanlines = 0, gt_pixelSort = 0\<rparr>"

definition DEFAULT_ASCII :: ascii_params where
  "DEFAULT_ASCII = \<lparr>as_scale = 8, as_contrast = 1.2, as_colorMode = False, as_inverted = False,
     as_chars = ''complex'', as_backgroundColor = ''#ffffff'', as_textColor = ''#000000''\<rparr>"

definition DEFAULT_HALFTONE :: halftone_params where
  "DEFAULT_HALFTONE = \<lparr>ht_radius = 6, ht_angle = 45, ht_contrast = 1.2, ht_shape = Circle,
     ht_colorMode = False, ht_backgroundColor = ''#ffffff'', ht_color = ''#000000''\<rparr>"

definition DEFAULT_BLEND :: blend_params where
  "DEFAULT_BLEND = \<lparr>bl_mode = Displacement, bl_mix = 50, bl_threshold = 128, bl_scale = 20\<rparr>"

definition DEFAULT_TEXT :: text_params where
  "DEFAULT_TEXT = \<lparr>tx_content = ''SCREEN_'', tx_font = Helvetica, tx_size = 20, tx_x = 50, tx_y = 50,
     tx_color = ''#ff0000'', tx_isBold = True\<rparr>"

definition DEFAULT_ACTIVE_LAYERS :: active_layers where
  "DEFAULT_ACTIVE_LAYERS = \<lparr>al_manual = True, al_text = False, al_blend = False, al_ascii = False,
     al_halftone = False\<rparr>"

datatype source_type = SrcImage | SrcVideo
datatype facing_mode = FacingUser | FacingEnvironment

record app_state =
  appMode :: app_mode
  sourceType :: source_type
  blendType :: "source_type option"
  activeTab :: tab
  activeLayers :: active_layers
  globalParams :: global_params
  glitchParams :: glitch_params
  asciiParams :: ascii_params
  halftoneParams :: halftone_params
  blendParams :: blend_params
  textParams :: text_params
  facingMode :: facing_mode

datatype css_filter = Blur real | Brightness real | HueRotate real | Saturate real

record browser =
  br_base :: "css_filter list \<Rightarrow> real \<Rightarrow> real \<Rightarrow> bool \<Rightarrow> nat \<Rightarrow> nat \<Rightarrow> real \<Rightarrow> real \<Rightarrow> buffer"
  br_second :: "nat \<Rightarrow> nat \<Rightarrow> buffer option"
  br_raster :: "buffer \<Rightarrow> cmd list \<Rightarrow> buffer"
  br_resample :: "buffer \<Rightarrow> nat \<Rightarrow> nat \<Rightarrow> buffer"

text \<open>Lines 272--285: the long edge capped at \<open>MAX_DIM\<close>, the aspect ratio kept, then floored.\<close>

definition render_dims :: "nat \<Rightarrow> nat \<Rightarrow> nat \<times> nat" where
  "render_dims sw sh =
     (let w = real sw; h = real sh; MAX_DIM = 2048;
          (w', h') = (if MAX_DIM < w \<or> MAX_DIM < h
                      then (let ratio = w / h in if h < w then (MAX_DIM, MAX_DIM / ratio) else (MAX_DIM * ratio, MAX_DIM))
                      else (w, h))
      in (nat \<lfloor>w'\<rfloor>, nat \<lfloor>h'\<rfloor>))"

text \<open>Lines 309--316: the filters, a neutral value omitted.\<close>

definition canvas_filters :: "global_params \<Rightarrow> css_filter list" where
  "canvas_filters gp =
     (if 0 < gl_blur gp then [Blur (gl_blur gp)] else [])
     @ (if gl_brightness gp \<noteq> 1 then [Brightness (gl_brightness gp)] else [])
     @ (if gl_colormatrix gp \<noteq> 0 then [HueRotate (gl_colormatrix gp)] else [])
     @ (if gl_saturation gp \<noteq> 1 then [Saturate (gl_saturation gp)] else [])"

text \<open>Lines 300--305: the vibration offsets, two draws when vibration is on.\<close>

definition vibration_offsets :: "real \<Rightarrow> rng \<Rightarrow> real \<times> real \<times> rng" where
  "vibration_offsets vib s =
     (if 0 < vib then ((rnd (shd s) - 0.5) * vib, (rnd (shd (stl s)) - 0.5) * vib, stl (stl s)) else (0, 0, s))"

definition renderCanvas ::
  "browser \<Rightarrow> app_state \<Rightarrow> bool \<Rightarrow> buffer \<Rightarrow> nat \<Rightarrow> nat \<Rightarrow> rng \<Rightarrow> (js_error + buffer \<times> rng) option" where
  "renderCanvas br st ready canvas sw sh s =
     (if \<not> ready \<or> activeTab st = AI then Some (Inr (canvas, s))
      else
        let (w, h) = render_dims sw sh;
            gp = globalParams st;
            (vibX, vibY, s1) = vibration_offsets (gl_vibration gp) s;
            mirror = (appMode st = CAMERA \<and> facingMode st = FacingUser);
            c0 = br_base br (canvas_filters gp) (gl_scaleX gp) (gl_scaleY gp) mirror w h vibX vibY;
            r1 = (if 0 < gl_threshold gp
                  then (case getImageData w h c0 of Inl e \<Rightarrow> Inl e | Inr d \<Rightarrow> Inr (applyThreshold d (gl_threshold gp)))
                  else Inr c0)
        in case r1 of Inl e \<Rightarrow> Some (Inl e) | Inr c1 \<Rightarrow>
           (case (if al_blend (activeLayers st) then renderBlend c1 (br_second br w h) w h (blendParams st) s1
                  else Inr (c1, s1)) of
              Inl e \<Rightarrow> Some (Inl e)
            | Inr (c2, s2) \<Rightarrow>
                let c3 = (if al_text (activeLayers st) then br_raster br c2 (renderText (real w) (real h) (textParams st))
                          else c2)
                in case (if al_manual (activeLayers st) then processImage c3 w h (glitchParams st) s2
                         else Inr (c3, s2)) of
                     Inl e \<Rightarrow> Some (Inl e)
                   | Inr (c4, s3) \<Rightarrow>
                       map_option (\<lambda>r5. case r5 of Inl e \<Rightarrow> Inl e | Inr c5 \<Rightarrow>
                           Inr (if al_ascii (activeLayers st)
                                then br_raster br c5 (renderAscii (br_resample br c5) (real w) (real h) (asciiParams st))
                                else c5, s3))
                         (if al_halftone (activeLayers st)
                          then map_option (\<lambda>r. case r of Inl e \<Rightarrow> Inl e | Inr cs \<Rightarrow> Inr (br_raster br c4 cs))
                                 (renderHalftone c4 w h (halftoneParams st))
                          else Some (Inr c4))))"

definition shouldLoop :: "app_state \<Rightarrow> bool" where
  "shouldLoop st =
     (appMode st = CAMERA \<or> (appMode st = IMAGE \<and> sourceType st = SrcVideo)
      \<or> (al_blend (activeLayers st) \<and> blendType st = Some SrcVideo) \<or> 0 < gl_vibration (globalParams st))"

text \<open>\<open>Math.random()\<close>: the next draw and the rest of the stream.\<close>

definition draw :: "rng \<Rightarrow> real \<times> rng" where
  "draw s = (rnd (shd s), stl s)"

text \<open>
  \<open>handleRandomize\<close> (lines 522--566).  The global parameters are drawn first; the
  other updates are React updater functions, which React runs in the order they were
  queued before anything else draws, so the draws follow the source order.
\<close>

definition handleRandomize :: "app_state \<Rightarrow> rng \<Rightarrow> app_state \<times> rng" where
  "handleRandomize st s0 =
     (let (r1, s1) = draw s0; (r2, s2) = draw s1; (r3, s3) = draw s2; (r4, s4) = draw s3;
          (vibration, s5) = (if 0.8 < r4 then (let (r, s) = draw s4 in (r * 20, s)) else (0, s4));
          (r6, s6) = draw s5; (r7, s7) = draw s6; (r8, s8) = draw s7; (r9, s9) = draw s8;
          (threshold, s10) = (if 0.7 < r9 then (let (r, s) = draw s9 in (real_of_int \<lfloor>r * 200\<rfloor>, s)) else (0, s9));
          gp = \<lparr>gl_brightness = 0.8 + r1 * 0.4, gl_blur = r2 * 2, gl_colormatrix = real_of_int \<lfloor>r3 * 360\<rfloor>,
                gl_vibration = vibration, gl_saturation = 0.5 + r6 * 3, gl_scaleX = 0.5 + r7 * 1.5,
                gl_scaleY = 0.5 + r8 * 1.5, gl_threshold = threshold\<rparr>;
          (t1, s11) = draw s10; (t2, s12) = draw s11; (t3, s13) = draw s12; (t4, s14) = draw s13;
          tp = (textParams st)\<lparr>tx_x := real_of_int \<lfloor>t1 * 80\<rfloor> + 10, tx_y := real_of_int \<lfloor>t2 * 80\<rfloor> + 10,
                 tx_size := real_of_int \<lfloor>t3 * 50\<rfloor> + 10,
                 tx_color := [''#ff0000'', ''#00ff00'', ''#0000ff'', ''#ffffff'', ''#ffff00''] ! nat \<lfloor>t4 * 5\<rfloor>\<rparr>;
          st' = st\<lparr>globalParams := gp, textParams := tp\<rparr>
      in if activeTab st = ASCII then
           (let (a1, s) = draw s14; (a2, s) = draw s; (a3, s) = draw s
            in (st'\<lparr>asciiParams := (asciiParams st)\<lparr>as_scale := real_of_int \<lfloor>a1 * 12\<rfloor> + 4, as_contrast := 0.8 + a2,
                      as_inverted := (0.5 < a3), as_backgroundColor := ''#ffffff'', as_textColor := ''#000000''\<rparr>\<rparr>, s))
         else if activeTab st = HALFTONE then
           (let (h1, s) = draw s14; (h2, s) = draw s; (h3, s) = draw s;
                (shape, s) = (if 0.6 < h3 then (Circle, s) else (let (h4, s) = draw s in (if 0.5 < h4 then Line else Diamond, s)))
            in (st'\<lparr>halftoneParams := (halftoneParams st)\<lparr>ht_radius := real_of_int \<lfloor>h1 * 10\<rfloor> + 2,
                      ht_angle := real_of_int \<lfloor>h2 * 90\<rfloor>, ht_shape := shape, ht_backgroundColor := ''#ffffff'',
                      ht_color := ''#000000''\<rparr>\<rparr>, s))
         else if activeTab st = BLEND then
           (let (b1, s) = draw s14; (b2, s) = draw s; (b3, s) = draw s; (b4, s) = draw s
            in (st'\<lparr>blendParams := (blendParams st)\<lparr>bl_mix := real_of_int \<lfloor>b1 * 100\<rfloor>,
                      bl_scale := real_of_int \<lfloor>b2 * 100\<rfloor>, bl_threshold := real_of_int \<lfloor>b3 * 255\<rfloor>,
                      bl_mode := [Displacement, Difference, HardMix, Interlace] ! nat \<lfloor>b4 * 4\<rfloor>\<rparr>\<rparr>, s))
         else
           (let (g1, s) = draw s14; (g2, s) = draw s; (g3, s) = draw s; (g4, s) = draw s; (g5, s) = draw s;
                (pixelSort, s) = (if 0.7 < g5 then (let (g6, s) = draw s in (real_of_int \<lfloor>g6 * 20\<rfloor>, s)) else (0, s))
            in (st'\<lparr>glitchParams := (glitchParams st)\<lparr>gt_seed := g1 * 1000, gt_rgbShift := \<lfloor>g2 * 20\<rfloor>,
                      gt_blockShift := real_of_int \<lfloor>g3 * 50\<rfloor>, gt_scanlines := real_of_int \<lfloor>g4 * 5\<rfloor>,
                      gt_pixelSort := pixelSort\<rparr>\<rparr>, s)))"

text \<open>
  \<open>handlePrintLayer\<close> (lines 568--607).  The source image is a type
  parameter: a frame here, its data URL in the editor model.  On the AI tab with a
  generated image (\<open>aiImage\<close>) that image becomes the still source and the tab returns
  to \<open>MANUAL\<close>.  Otherwise the canvas becomes the new still source (\<open>toDataURL\<close> and
  reload), a camera session becomes an image session, and on the manual
  tab the glitch parameters are reset to \<open>NEUTRAL_GLITCH\<close>.  Then \<open>renderCanvas\<close> runs;
  the new source is returned with the state.
\<close>

definition print_canvas :: "app_state \<Rightarrow> 'a \<Rightarrow> app_state \<times> 'a" where
  "print_canvas st canvas =
     (let st1 = st\<lparr>sourceType := SrcImage\<rparr>;
          st2 = (if appMode st = CAMERA then st1\<lparr>appMode := IMAGE\<rparr> else st1);
          st3 = (if activeTab st = MANUAL then st2\<lparr>glitchParams := NEUTRAL_GLITCH\<rparr> else st2)
      in (st3, canvas))"

definition handlePrintLayer :: "app_state \<Rightarrow> 'a option \<Rightarrow> 'a \<Rightarrow> app_state \<times> 'a" where
  "handlePrintLayer st aiImage canvas =
     (case aiImage of
        Some img \<Rightarrow> if activeTab st = AI then (st\<lparr>sourceType := SrcImage, activeTab := MANUAL\<rparr>, img)
                    else print_canvas st canvas
      | None \<Rightarrow> print_canvas st canvas)"

text \<open>The ranges of the sliders of \<open>src/components/Timeline.tsx\<close> (lines 184--457).\<close>

definition slider_ranges :: "app_state \<Rightarrow> bool" where
  "slider_ranges st =
     (let gp = globalParams st; tp = textParams st; ap = asciiParams st; hp = halftoneParams st;
          bp = blendParams st; gt = glitchParams st
      in 0 \<le> gl_brightness gp \<and> gl_brightness gp \<le> 2 \<and> 0 \<le> gl_threshold gp \<and> gl_threshold gp \<le> 255
         \<and> 0 \<le> gl_blur gp \<and> gl_blur gp \<le> 20 \<and> 0.5 \<le> gl_scaleX gp \<and> gl_scaleX gp \<le> 3
         \<and> 0.5 \<le> gl_scaleY gp \<and> gl_scaleY gp \<le> 3 \<and> 0 \<le> gl_colormatrix gp \<and> gl_colormatrix gp \<le> 360
         \<and> 0 \<le> gl_saturation gp \<and> gl_saturation gp \<le> 3 \<and> 0 \<le> gl_vibration gp \<and> gl_vibration gp \<le> 100
         \<and> 5 \<le> tx_size tp \<and> tx_size tp \<le> 100 \<and> 0 \<le> tx_x tp \<and> tx_x tp \<le> 100 \<and> 0 \<le> tx_y tp \<and> tx_y tp \<le> 100
         \<and> 0 \<le> bl_mix bp \<and> bl_mix bp \<le> 100 \<and> 0 \<le> bl_threshold bp \<and> bl_threshold bp \<le> 255
         \<and> (if bl_mode bp = Interlace then 2 \<le> bl_scale bp else 0 \<le> bl_scale bp) \<and> bl_scale bp \<le> 100
         \<and> 4 \<le> as_scale ap \<and> as_scale ap \<le> 24 \<and> 0.5 \<le> as_contrast ap \<and> as_contrast ap \<le> 3
         \<and> 2 \<le> ht_radius hp \<and> ht_radius hp \<le> 30 \<and> 0 \<le> ht_angle hp \<and> ht_angle hp \<le> 90
         \<and> 0.5 \<le> ht_contrast hp \<and> ht_contrast hp \<le> 3
         \<and> 0 \<le> gt_blockShift gt \<and> gt_blockShift gt \<le> 100 \<and> 0 \<le> gt_pixelSort gt \<and> gt_pixelSort gt \<le> 50
         \<and> 0 \<le> gt_rgbShift gt \<and> gt_rgbShift gt \<le> 50 \<and> 0 \<le> gt_scanlines gt \<and> gt_scanlines gt \<le> 10)"


text \<open>The state of lines 80--104 before any interaction.\<close>


definition initial_state :: app_state where
  "initial_state = \<lparr>appMode = LANDING, sourceType = SrcImage, blendType = None, activeTab = MANUAL,
     activeLayers = DEFAULT_ACTIVE_LAYERS, globalParams = DEFAULT_GLOBAL, glitchParams = DEFAULT_GLITCH,
     asciiParams = DEFAULT_ASCII, halftoneParams = DEFAULT_HALFTONE, blendParams = DEFAULT_BLEND,
     textParams = DEFAULT_TEXT, facingMode = FacingUser\<rparr>"

subsection \<open>Properties\<close>

lemma render_dims_small: "sw \<le> 2048 \<Longrightarrow> sh \<le> 2048 \<Longrightarrow> render_dims sw sh = (sw, sh)"
  by (simp add: render_dims_def)

text \<open>C32: the output frame never exceeds \<open>MAX_DIM = 2048\<close> pixels on either side, whatever the size of the source.\<close>

theorem render_dims_cap: "fst (render_dims sw sh) \<le> 2048 \<and> snd (render_dims sw sh) \<le> 2048"
proof (cases "2048 < sw \<or> 2048 < sh")
  case True
  then show ?thesis
    by (auto simp: render_dims_def Let_def field_simps floor_le_iff nat_le_iff)
next
  case False
  then show ?thesis by (simp add: render_dims_small)
qed

text \<open>The saturation \<open>handleRandomize\<close> sets is \<open>0.5 + Math.random() * 3\<close> of its fifth
  draw, or of its sixth when the fourth drew a vibration.\<close>

lemma case_prod_if: "(case (if c then p else q) of (x, y) \<Rightarrow> f x y) = (if c then case p of (x, y) \<Rightarrow> f x y else case q of (x, y) \<Rightarrow> f x y)"
  by simp

lemma handleRandomize_saturation_eq:
  "gl_saturation (globalParams (fst (handleRandomize st s)))
     = 1/2 + rnd (shd (if 8/10 < rnd (shd (stl (stl (stl s)))) then stl (stl (stl (stl (stl s))))
                       else stl (stl (stl (stl s))))) * 3"
  apply (simp only: handleRandomize_def draw_def Let_def prod.case case_prod_if)
  apply (simp only: if_distrib [of fst] if_distrib [of globalParams] if_distrib [of gl_saturation] prod.sel)
  apply simp
  done

text \<open>C33: for every state and every stream of draws, \<open>handleRandomize\<close> sets the saturation
  to \<open>0.5 + 3 * r\<close> for its saturation draw \<open>r\<close>, and whenever \<open>r > 5/6\<close> (one press in
  six) the saturation lies above 3, the maximum of its slider, so the state leaves
  the slider ranges.\<close>

theorem handleRandomize_saturation:
  "let s3 = stl (stl (stl s)); s5 = (if 8/10 < rnd (shd s3) then stl (stl s3) else stl s3);
       st' = fst (handleRandomize st s)
   in gl_saturation (globalParams st') = 1/2 + rnd (shd s5) * 3
      \<and> (5/6 < rnd (shd s5) \<longrightarrow> \<not> slider_ranges st')"
  using handleRandomize_saturation_eq [of st s]
  by (simp add: Let_def slider_ranges_def)

text \<open>C34: after \<open>handlePrintLayer\<close> on the manual tab the glitch stage is the identity on every non-empty frame and draws no random number, so re-rendering the printed frame does not glitch it again.\<close>

theorem handlePrintLayer_manual:
  assumes "activeTab st = MANUAL" "0 < w" "0 < h"
  shows "processImage c w h (glitchParams (fst (handlePrintLayer st ai canvas))) s = Inr (c, s)"
  using assms
  by (simp add: handlePrintLayer_def print_canvas_def Let_def NEUTRAL_GLITCH_def processImage_def getImageData_def
                applyPixelSort_def applyBlockShift_def applyRGBShift_def applyScanlines_def split: option.split)

text \<open>C17: when the capped output frame has a zero side (a 4096 x 1 image gives 2048 x 0) and the threshold, blend or glitch layer is on, \<open>renderCanvas\<close> throws \<open>IndexSizeError\<close> from \<open>getImageData\<close>: the degenerate frame is not skipped.\<close>

theorem renderCanvas_degenerate:
  assumes "activeTab st \<noteq> AI" "fst (render_dims sw sh) = 0 \<or> snd (render_dims sw sh) = 0"
    and "0 < gl_threshold (globalParams st) \<or> al_blend (activeLayers st) \<or> al_manual (activeLayers st)"
  shows "renderCanvas br st True canvas sw sh s = Some (Inl IndexSizeError)"
proof -
  obtain w h where d: "render_dims sw sh = (w, h)" by (metis prod.collapse)
  obtain vx vy s1 where v: "vibration_offsets (gl_vibration (globalParams st)) s = (vx, vy, s1)"
    by (metis prod.collapse)
  have z: "w = 0 \<or> h = 0" using assms(2) d by auto
  show ?thesis
    using assms(1,3) z
    by (auto simp: renderCanvas_def d v Let_def getImageData_def renderBlend_def processImage_def)
qed

text \<open>C6: the whole pipeline on a ready source outside the AI tab, with a non-empty output frame and a browser that draws frames of \<open>w * h * 4\<close> bytes, returns (it terminates whenever the halftone layer is off or its dot radius is positive), never throws, and gives a frame of \<open>w * h * 4\<close> bytes, for every combination of layers and every random stream.\<close>

theorem renderCanvas_ok:
  assumes "activeTab st \<noteq> AI" "render_dims sw sh = (w, h)" "0 < w" "0 < h"
    and "\<forall>f sx sy m vx vy. length (br_base br f sx sy m w h vx vy) = 4 * (w * h)"
    and "\<forall>c cs. length (br_raster br c cs) = length c"
    and "al_halftone (activeLayers st) \<Longrightarrow> 0 < ht_radius (halftoneParams st)"
  shows "\<exists>c' s'. renderCanvas br st True canvas sw sh s = Some (Inr (c', s')) \<and> length c' = 4 * (w * h)"
proof -
  let ?gp = "globalParams st" and ?L = "activeLayers st"
  obtain vx vy s1 where v: "vibration_offsets (gl_vibration ?gp) s = (vx, vy, s1)"
    by (metis prod.collapse)
  define c0 where "c0 = br_base br (canvas_filters ?gp) (gl_scaleX ?gp) (gl_scaleY ?gp)
                          (appMode st = CAMERA \<and> facingMode st = FacingUser) w h vx vy"
  define c1 where "c1 = (if 0 < gl_threshold ?gp then applyThreshold c0 (gl_threshold ?gp) else c0)"
  have r1: "(if 0 < gl_threshold ?gp
              then (case getImageData w h c0 of Inl e \<Rightarrow> Inl e | Inr d \<Rightarrow> Inr (applyThreshold d (gl_threshold ?gp)))
              else Inr c0) = Inr c1"
    using assms(3,4) by (simp add: c1_def getImageData_def)
  have l1: "length c1 = 4 * (w * h)"
    using assms(5) by (simp add: c1_def c0_def length_applyThreshold)
  obtain c2 s2 where r2: "(if al_blend ?L then renderBlend c1 (br_second br w h) w h (blendParams st) s1
                           else Inr (c1, s1)) = Inr (c2, s2)" and l2: "length c2 = 4 * (w * h)"
    using renderBlend_frame [OF assms(3,4), of c1 "br_second br w h" "blendParams st" s1] l1
    by (cases "al_blend ?L") auto
  define c3 where "c3 = (if al_text ?L then br_raster br c2 (renderText (real w) (real h) (textParams st)) else c2)"
  have l3: "length c3 = 4 * (w * h)" using assms(6) l2 by (simp add: c3_def)
  obtain c4 s3 where r4: "(if al_manual ?L then processImage c3 w h (glitchParams st) s2 else Inr (c3, s2))
                          = Inr (c4, s3)" and l4: "length c4 = 4 * (w * h)"
    using processImage_frame [OF assms(3,4) l3, of "glitchParams st" s2] l3
    by (cases "al_manual ?L") auto
  obtain c5 where r5: "(if al_halftone ?L
                        then map_option (\<lambda>r. case r of Inl e \<Rightarrow> Inl e | Inr cs \<Rightarrow> Inr (br_raster br c4 cs))
                               (renderHalftone c4 w h (halftoneParams st))
                        else Some (Inr c4)) = Some (Inr c5)" and l5: "length c5 = 4 * (w * h)"
  proof (cases "al_halftone ?L")
    case True
    then show ?thesis
      using that renderHalftone_Inr [OF assms(3,4) assms(7) [OF True], of c4] assms(6) l4 by auto
  qed (use that l4 in auto)
  show ?thesis
    using assms(1,6) l5
    unfolding renderCanvas_def
    apply (simp add: assms(2) v split del: if_split)
    apply (simp only: Let_def c0_def [symmetric] r1 sum.case r2 prod.case c3_def [symmetric] r4 r5 option.map)
    by simp
qed

subsection \<open>Witnesses\<close>

theorem renderCanvas_ok_witness:
  "\<exists>c' s'. renderCanvas \<lparr>br_base = (\<lambda>_ _ _ _ w h _ _. replicate (4 * (w * h)) 0), br_second = (\<lambda>_ _. None),
                              br_raster = (\<lambda>c _. c), br_resample = (\<lambda>c _ _. c)\<rparr>
                  initial_state True [] 1 1 (sconst 0) = Some (Inr (c', s')) \<and> length c' = 4"
proof -
  have "render_dims 1 1 = (1, 1)" by (simp add: render_dims_small)
  then show ?thesis
    using renderCanvas_ok [of initial_state 1 1 1 1
            "\<lparr>br_base = (\<lambda>_ _ _ _ w h _ _. replicate (4 * (w * h)) 0), br_second = (\<lambda>_ _. None),
               br_raster = (\<lambda>c _. c), br_resample = (\<lambda>c _ _. c)\<rparr>" "[]" "sconst 0"]
    by (simp add: initial_state_def DEFAULT_ACTIVE_LAYERS_def)
qed

theorem renderCanvas_degenerate_witness:
  "renderCanvas \<lparr>br_base = (\<lambda>_ _ _ _ w h _ _. replicate (4 * (w * h)) 0), br_second = (\<lambda>_ _. None),
                 br_raster = (\<lambda>c _. c), br_resample = (\<lambda>c _ _. c)\<rparr>
     (initial_state\<lparr>appMode := IMAGE, globalParams := DEFAULT_GLOBAL\<lparr>gl_threshold := 128\<rparr>\<rparr>) True [] 4096 1 (sconst 0)
   = Some (Inl IndexSizeError)"
proof -
  have h: "fst (render_dims 4096 1) = 0 \<or> snd (render_dims 4096 1) = 0"
    by (simp add: render_dims_def)
  show ?thesis
    using renderCanvas_degenerate [OF _ h, of "initial_state\<lparr>appMode := IMAGE, globalParams := DEFAULT_GLOBAL\<lparr>gl_threshold := 128\<rparr>\<rparr>"]
    by (simp add: initial_state_def)
qed

theorem handlePrintLayer_manual_witness:
  "processImage [1, 2, 3, 4] 1 1 (glitchParams (fst (handlePrintLayer initial_state None [0, 0, 0, 0 :: byte]))) (sconst 0)
   = Inr ([1, 2, 3, 4], sconst 0)"
  using handlePrintLayer_manual [of initial_state 1 1] by (simp add: initial_state_def)

theorem handleRandomize_saturation_witness:
  "gl_saturation (globalParams (fst (handleRandomize initial_state (sconst (7 * 2 ^ 49))))) = 25/8
   \<and> \<not> slider_ranges (fst (handleRandomize initial_state (sconst (7 * 2 ^ 49))))"
proof -
  have r: "rnd (7 * 2 ^ 49) = 7/8" by (simp add: rnd_def)
  show ?thesis using handleRandomize_saturation [where s = "sconst (7 * 2 ^ 49)" and st = initial_state] r by (simp add: Let_def)
qed

end
