(* ===== verification/Editor.thy ===== *)
theory Editor
  imports Pipeline Profile
begin

text \<open>
  The application shell of \<open>src/App.tsx\<close> as a state machine: the React state and refs
  of \<open>App\<close> (lines 80--139) as the record \<open>editor\<close>, the screen the render chooses
  (lines 772--875), every handler a button, input or callback of the rendered tree
  reaches (lines 141--234 and 406--769), and one step per user action or completed
  asynchronous callback (\<open>ui_step\<close>; \<open>None\<close> when the action is not on screen).  The
  editor is a client of the storage service: its store is a \<open>Storage.db\<close>, and the
  Auth form, logout and posting call \<open>handleSubmit\<close>, \<open>logoutUser\<close> and \<open>createPost\<close>.

  Browser work that ends in a callback is split in two steps: the call, which records
  what is in flight, and the callback, which may run after any other steps.  That is
  how the code behaves: \<open>FileReader\<close> and image loads, \<open>getUserMedia\<close>, the 3-second
  recordings and the AI request all complete later, and their callbacks use the values
  their closures captured.  A file is the record \<open>upload_file\<close>: its MIME type, the
  object URL \<open>URL.createObjectURL\<close> gives, and the data URL \<open>readAsDataURL\<close> delivers.
  Images are identified by their URL (a data URL for canvas snapshots).  The placeholder
  load of lines 173--185 is in flight while the flag \<open>ed_placeholder\<close> is set; the
  camera request may be refused while the mode is \<open>CAMERA\<close> (an over-approximation: a
  granted camera is not refused later).
\<close>

record upload_file =
  f_type :: string
  f_url :: string
  f_data :: string

record editor =
  ed_app :: app_state
  ed_user :: "user option"
  ed_db :: db
  ed_dark :: bool
  ed_imageSrc :: "string option"
  ed_imageSrc2 :: "string option"
  ed_aiImage :: "string option"
  ed_processing :: bool
  ed_message :: string
  ed_recording :: bool
  ed_capturing :: bool
  ed_postingVideo :: bool
  ed_export :: bool
  ed_caption :: string
  ed_original :: "string option"
  ed_urls :: "string list"
  ed_rng :: rng
  ed_reading :: "string option"
  ed_reading2 :: "string option"
  ed_placeholder :: bool
  ed_pendingPost :: "(user \<times> string) option"

definition initial_editor :: "db \<Rightarrow> rng \<Rightarrow> editor" where
  "initial_editor st s =
     \<lparr>ed_app = initial_state, ed_user = getCurrentUser st, ed_db = st, ed_dark = False,
      ed_imageSrc = None, ed_imageSrc2 = None, ed_aiImage = None, ed_processing = False,
      ed_message = [], ed_recording = False, ed_capturing = False, ed_postingVideo = False,
      ed_export = False, ed_caption = [], ed_original = None, ed_urls = [], ed_rng = s,
      ed_reading = None, ed_reading2 = None, ed_placeholder = False, ed_pendingPost = None\<rparr>"

text \<open>A string state used as a condition: \<open>null\<close> and \<open>''\<close> are false.\<close>

definition js_truthy :: "string option \<Rightarrow> bool" where
  "js_truthy v = (case v of None \<Rightarrow> False | Some s \<Rightarrow> s \<noteq> [])"

definition set_mode :: "app_mode \<Rightarrow> editor \<Rightarrow> editor" where
  "set_mode m e = e\<lparr>ed_app := (ed_app e)\<lparr>appMode := m\<rparr>\<rparr>"

text \<open>\<open>registerUrl\<close> (lines 142--145): object URLs are kept for revocation on unmount.\<close>

definition registerUrl :: "string \<Rightarrow> editor \<Rightarrow> editor" where
  "registerUrl url e = e\<lparr>ed_urls := ed_urls e @ [url]\<rparr>"

text \<open>The screen \<open>App\<close> renders (lines 772--875): a \<open>PROFILE\<close> mode without a user falls
  through to the editor.\<close>

datatype screen = AuthScreen | ProfileScreen | LandingScreen | EditorScreen

definition view :: "editor \<Rightarrow> screen" where
  "view e = (if appMode (ed_app e) = AUTH then AuthScreen
             else if appMode (ed_app e) = PROFILE \<and> ed_user e \<noteq> None then ProfileScreen
             else if appMode (ed_app e) = LANDING then LandingScreen
             else EditorScreen)"

text \<open>The placeholder effect (lines 173--185): in image mode without a source a load of
  the placeholder starts; its \<open>onload\<close> makes it the source.\<close>

definition PLACEHOLDER_URL :: string where
  "PLACEHOLDER_URL = ''https://picsum.photos/800/600?grayscale''"

definition placeholder_effect :: "editor \<Rightarrow> editor" where
  "placeholder_effect e =
     (if appMode (ed_app e) = IMAGE \<and> ed_imageSrc e = None then e\<lparr>ed_placeholder := True\<rparr> else e)"

definition placeholderLoaded :: "editor \<Rightarrow> editor" where
  "placeholderLoaded e =
     e\<lparr>ed_imageSrc := Some PLACEHOLDER_URL, ed_app := (ed_app e)\<lparr>sourceType := SrcImage\<rparr>,
       ed_original := Some PLACEHOLDER_URL, ed_placeholder := False\<rparr>"

text \<open>\<open>handleFileUpload\<close> (lines 414--446): a video plays from its object URL at once; an
  image is read as a data URL, and the reader's and the image's \<open>onload\<close> (\<open>fileRead\<close>)
  later make it the source.\<close>

definition handleFileUpload :: "upload_file option \<Rightarrow> editor \<Rightarrow> editor" where
  "handleFileUpload file e =
     (case file of
        None \<Rightarrow> e
      | Some f \<Rightarrow>
          if prefix ''video/'' (f_type f) then
            (let e1 = registerUrl (f_url f) e
             in e1\<lparr>ed_imageSrc := Some (f_url f), ed_app := (ed_app e1)\<lparr>sourceType := SrcVideo\<rparr>\<rparr>)
          else e\<lparr>ed_reading := Some (f_data f)\<rparr>)"

definition fileRead :: "editor \<Rightarrow> editor" where
  "fileRead e =
     (case ed_reading e of
        None \<Rightarrow> e
      | Some d \<Rightarrow> e\<lparr>ed_imageSrc := Some d, ed_app := (ed_app e)\<lparr>sourceType := SrcImage\<rparr>,
                    ed_original := Some d, ed_reading := None\<rparr>)"

text \<open>\<open>handleFileUpload2\<close> (lines 448--468), the second source of the blend layer.\<close>

definition handleFileUpload2 :: "upload_file option \<Rightarrow> editor \<Rightarrow> editor" where
  "handleFileUpload2 file e =
     (case file of
        None \<Rightarrow> e
      | Some f \<Rightarrow>
          if prefix ''video/'' (f_type f) then
            (let e1 = registerUrl (f_url f) e
             in e1\<lparr>ed_imageSrc2 := Some (f_url f), ed_app := (ed_app e1)\<lparr>blendType := Some SrcVideo\<rparr>\<rparr>)
          else e\<lparr>ed_reading2 := Some (f_data f)\<rparr>)"

definition fileRead2 :: "editor \<Rightarrow> editor" where
  "fileRead2 e =
     (case ed_reading2 e of
        None \<Rightarrow> e
      | Some d \<Rightarrow> e\<lparr>ed_imageSrc2 := Some d, ed_app := (ed_app e)\<lparr>blendType := Some SrcImage\<rparr>,
                    ed_reading2 := None\<rparr>)"

text \<open>\<open>handleCaptureLoop\<close> (lines 470--520): \<open>ok\<close> is whether \<open>captureStream\<close> and
  \<open>new MediaRecorder\<close> succeed; the recorder's \<open>onstop\<close> (\<open>captureDone\<close>) makes the
  3-second loop the source, in image mode on the manual tab.\<close>

definition handleCaptureLoop :: "bool \<Rightarrow> editor \<Rightarrow> editor" where
  "handleCaptureLoop ok e =
     (if ed_capturing e then e
      else let e1 = e\<lparr>ed_capturing := True\<rparr> in if ok then e1 else e1\<lparr>ed_capturing := False\<rparr>)"

definition captureDone :: "string \<Rightarrow> editor \<Rightarrow> editor" where
  "captureDone url e =
     (let e1 = registerUrl url e
      in e1\<lparr>ed_app := (ed_app e1)\<lparr>sourceType := SrcVideo, activeTab := MANUAL, appMode := IMAGE\<rparr>,
            ed_imageSrc := Some url, ed_capturing := False\<rparr>)"

text \<open>\<open>handleRandomize\<close> and \<open>handlePrintLayer\<close> of the pipeline model, on the editor.\<close>

definition editor_randomize :: "editor \<Rightarrow> editor" where
  "editor_randomize e =
     (let (st', s') = handleRandomize (ed_app e) (ed_rng e) in e\<lparr>ed_app := st', ed_rng := s'\<rparr>)"

definition editor_print :: "string \<Rightarrow> editor \<Rightarrow> editor" where
  "editor_print canvasData e =
     (let ai = (if js_truthy (ed_aiImage e) then ed_aiImage e else None);
          (st', src) = handlePrintLayer (ed_app e) ai canvasData
      in if activeTab (ed_app e) = AI \<and> js_truthy (ed_aiImage e)
         then (registerUrl src e)\<lparr>ed_app := st', ed_imageSrc := Some src, ed_original := Some src,
                                   ed_aiImage := None\<rparr>
         else e\<lparr>ed_app := st', ed_imageSrc := Some src, ed_original := Some src\<rparr>)"

text \<open>\<open>handleDownload\<close> (lines 609--621): the file name, then the modal closes.\<close>

definition download_filename :: "int \<Rightarrow> editor \<Rightarrow> string" where
  "download_filename now e =
     (if activeTab (ed_app e) = AI \<and> js_truthy (ed_aiImage e)
      then ''screen_ai_'' @ string_of_int now @ ''.png''
      else ''screen_'' @ string_of_int now @ ''.png'')"

text \<open>\<open>getSupportedMimeType\<close> (lines 71--76), \<open>mp4\<close> being whether the browser records
  MP4, and the name of a finished recording (lines 730--733).\<close>

definition getSupportedMimeType :: "bool \<Rightarrow> string" where
  "getSupportedMimeType mp4 = (if mp4 then ''video/mp4'' else ''video/webm'')"

definition recording_filename :: "bool \<Rightarrow> int \<Rightarrow> string" where
  "recording_filename mp4 now =
     ''screen_rec_'' @ string_of_int now @ ''.''
     @ (if getSupportedMimeType mp4 = ''video/mp4'' then ''mp4'' else ''webm'')"

text \<open>\<open>toggleRecording\<close> (lines 709--743); \<open>ok\<close> as for the capture loop.\<close>

definition toggleRecording :: "bool \<Rightarrow> editor \<Rightarrow> editor" where
  "toggleRecording ok e =
     (if ed_recording e then e\<lparr>ed_recording := False\<rparr>
      else if ok then e\<lparr>ed_recording := True\<rparr> else e)"

text \<open>
  \<open>handlePostToProfile\<close> (lines 623--707).  Without a user the modal closes and the
  Auth screen opens.  An image post stores the AI result on the AI tab, the canvas
  snapshot otherwise, with the caption or \<open>UNTITLED SIGNAL\<close>; on success the modal
  closes and the profile opens, on failure an alert shows.  A video post starts a
  3-second recording whose \<open>onstop\<close> (\<open>postVideoDone\<close>) encodes it and posts it with
  the user and caption the closure captured when the button was pressed.
\<close>

definition post_caption :: "string \<Rightarrow> string" where
  "post_caption c = (if c = [] then ''UNTITLED SIGNAL'' else c)"

definition post_and_open_profile ::
  "(db \<Rightarrow> bool) \<Rightarrow> user \<Rightarrow> string \<Rightarrow> string \<Rightarrow> post_type \<Rightarrow> string \<Rightarrow> int \<Rightarrow> editor \<Rightarrow> editor" where
  "post_and_open_profile fits u media c t postId now e =
     (case createPost fits u media (post_caption c) t postId now (ed_db e) of
        Inr (p, st') \<Rightarrow> (set_mode PROFILE e)\<lparr>ed_db := st', ed_export := False\<rparr>
      | Inl err \<Rightarrow> e)"

definition postImage :: "(db \<Rightarrow> bool) \<Rightarrow> string \<Rightarrow> string \<Rightarrow> int \<Rightarrow> editor \<Rightarrow> editor" where
  "postImage fits canvasData postId now e =
     (case ed_user e of
        None \<Rightarrow> (set_mode AUTH e)\<lparr>ed_export := False\<rparr>
      | Some u \<Rightarrow>
          let media = (case ed_aiImage e of
                         Some a \<Rightarrow> if activeTab (ed_app e) = AI \<and> a \<noteq> [] then a else canvasData
                       | None \<Rightarrow> canvasData)
          in if media = [] then e else post_and_open_profile fits u media (ed_caption e) PostImage postId now e)"

definition postVideo :: "bool \<Rightarrow> editor \<Rightarrow> editor" where
  "postVideo ok e =
     (case ed_user e of
        None \<Rightarrow> (set_mode AUTH e)\<lparr>ed_export := False\<rparr>
      | Some u \<Rightarrow>
          let e1 = e\<lparr>ed_postingVideo := True\<rparr>
          in if ok then e1\<lparr>ed_pendingPost := Some (u, ed_caption e)\<rparr> else e1\<lparr>ed_postingVideo := False\<rparr>)"

definition postVideoDone :: "(db \<Rightarrow> bool) \<Rightarrow> string option \<Rightarrow> string \<Rightarrow> int \<Rightarrow> editor \<Rightarrow> editor" where
  "postVideoDone fits encoded postId now e =
     (case ed_pendingPost e of
        None \<Rightarrow> e
      | Some (u, c) \<Rightarrow>
          let e1 = (case encoded of
                      None \<Rightarrow> e
                    | Some d \<Rightarrow> post_and_open_profile fits u d c PostVideo postId now e)
          in e1\<lparr>ed_postingVideo := False, ed_pendingPost := None\<rparr>)"

text \<open>\<open>handleAIGenerate\<close> (lines 745--769): \<open>keyOk\<close> is whether \<open>API_KEY\<close> is set; the
  request's outcome (\<open>aiDone\<close>) is the generated image or a failure.\<close>

definition handleAIGenerate :: "bool \<Rightarrow> editor \<Rightarrow> editor" where
  "handleAIGenerate keyOk e =
     (if activeTab (ed_app e) \<noteq> AI then e
      else if \<not> keyOk then e
      else e\<lparr>ed_processing := True, ed_message := ''PROCESSING IMAGE...'', ed_aiImage := None\<rparr>)"

definition aiDone :: "string option \<Rightarrow> editor \<Rightarrow> editor" where
  "aiDone result e =
     (case result of Some r \<Rightarrow> e\<lparr>ed_aiImage := Some r\<rparr> | None \<Rightarrow> e)\<lparr>ed_processing := False, ed_message := []\<rparr>"

text \<open>The Auth screen's \<open>onSuccess\<close> and the profile's \<open>onLogout\<close> (lines 776--797).\<close>

definition authSubmit :: "(db \<Rightarrow> bool) \<Rightarrow> string \<Rightarrow> auth_form \<Rightarrow> editor \<Rightarrow> editor" where
  "authSubmit fits now form e =
     (case handleSubmit fits now form (ed_db e) of
        (form', st', Some u) \<Rightarrow> (set_mode PROFILE e)\<lparr>ed_db := st', ed_user := Some u\<rparr>
      | (form', st', None) \<Rightarrow> e\<lparr>ed_db := st'\<rparr>)"

definition profileLogout :: "editor \<Rightarrow> editor" where
  "profileLogout e = (set_mode LANDING e)\<lparr>ed_db := logoutUser (ed_db e), ed_user := None\<rparr>"

text \<open>\<open>onToggleLayer\<close> (line 1023) on the layer flag of a tab.\<close>

definition toggle_layer :: "tab \<Rightarrow> active_layers \<Rightarrow> active_layers" where
  "toggle_layer t l =
     (case t of
        MANUAL \<Rightarrow> l\<lparr>al_manual := \<not> al_manual l\<rparr>
      | TEXT \<Rightarrow> l\<lparr>al_text := \<not> al_text l\<rparr>
      | BLEND \<Rightarrow> l\<lparr>al_blend := \<not> al_blend l\<rparr>
      | ASCII \<Rightarrow> l\<lparr>al_ascii := \<not> al_ascii l\<rparr>
      | HALFTONE \<Rightarrow> l\<lparr>al_halftone := \<not> al_halftone l\<rparr>
      | AI \<Rightarrow> l)"

text \<open>
  One user action or completed callback.  The landing screen (lines 806--872), the Auth
  and profile screens (lines 773--803), the editor header, viewport and controls
  (lines 884--1031) and the export modal (lines 1036--1098), which covers the editor
  while open, each offer their own actions.
\<close>

datatype ui_event =
    LandingUpload "upload_file option" | StartCamera | GoProfile | GoAuth | ToggleDark
  | AuthSubmit string auth_form | AuthCancel | ProfileLogout | ProfileBack
  | GoLanding | SelectTab tab | PrintLayer string | ToggleRecording bool | OpenExport
  | ChangeSource "upload_file option" | SwitchCam
  | SetGlobal global_params | SetGlitch glitch_params | SetAscii ascii_params
  | SetHalftone halftone_params | SetBlend blend_params | SetText text_params
  | ToggleLayer tab | Randomize | UploadBlend "upload_file option" | CaptureLoop bool
  | AIGenerate bool
  | SetCaption string | Download | PublishImage string string int | PublishVideo bool | CloseExport
  | FileRead | FileRead2 | PlaceholderLoaded | CameraDenied | CaptureDone string
  | PublishVideoDone "string option" string int | AIDone "string option"

definition enabled :: "ui_event \<Rightarrow> editor \<Rightarrow> bool" where
  "enabled ev e =
     (let v = view e; editing = (v = EditorScreen \<and> \<not> ed_export e);
          modal = (v = EditorScreen \<and> ed_export e); tb = activeTab (ed_app e);
          controls = (editing \<and> tb \<noteq> AI); m = appMode (ed_app e)
      in case ev of
           LandingUpload f \<Rightarrow> v = LandingScreen
         | StartCamera \<Rightarrow> v = LandingScreen
         | GoProfile \<Rightarrow> v = LandingScreen \<and> ed_user e \<noteq> None
         | GoAuth \<Rightarrow> v = LandingScreen \<and> ed_user e = None
         | ToggleDark \<Rightarrow> v = LandingScreen \<or> editing
         | AuthSubmit now form \<Rightarrow> v = AuthScreen
         | AuthCancel \<Rightarrow> v = AuthScreen
         | ProfileLogout \<Rightarrow> v = ProfileScreen
         | ProfileBack \<Rightarrow> v = ProfileScreen
         | GoLanding \<Rightarrow> editing
         | SelectTab t \<Rightarrow> editing
         | PrintLayer c \<Rightarrow> editing \<and> (tb \<noteq> AI \<or> js_truthy (ed_aiImage e))
         | ToggleRecording ok \<Rightarrow> editing \<and> tb \<noteq> AI
         | OpenExport \<Rightarrow> editing
         | ChangeSource f \<Rightarrow> editing \<and> m = IMAGE
         | SwitchCam \<Rightarrow> editing \<and> m = CAMERA
         | SetGlobal p \<Rightarrow> controls | SetGlitch p \<Rightarrow> controls | SetAscii p \<Rightarrow> controls
         | SetHalftone p \<Rightarrow> controls | SetBlend p \<Rightarrow> controls | SetText p \<Rightarrow> controls
         | ToggleLayer t \<Rightarrow> controls \<and> t \<noteq> AI
         | Randomize \<Rightarrow> controls
         | UploadBlend f \<Rightarrow> controls
         | CaptureLoop ok \<Rightarrow> controls
         | AIGenerate ok \<Rightarrow> editing \<and> tb = AI
         | SetCaption c \<Rightarrow> modal
         | Download \<Rightarrow> modal
         | PublishImage c i now \<Rightarrow> modal
         | PublishVideo ok \<Rightarrow> modal \<and> (m = CAMERA \<or> sourceType (ed_app e) = SrcVideo) \<and> \<not> ed_postingVideo e
         | CloseExport \<Rightarrow> modal
         | FileRead \<Rightarrow> ed_reading e \<noteq> None
         | FileRead2 \<Rightarrow> ed_reading2 e \<noteq> None
         | PlaceholderLoaded \<Rightarrow> ed_placeholder e
         | CameraDenied \<Rightarrow> m = CAMERA
         | CaptureDone url \<Rightarrow> ed_capturing e
         | PublishVideoDone d i now \<Rightarrow> ed_pendingPost e \<noteq> None
         | AIDone r \<Rightarrow> ed_processing e)"

definition ui_handler :: "(db \<Rightarrow> bool) \<Rightarrow> ui_event \<Rightarrow> editor \<Rightarrow> editor" where
  "ui_handler fits ev e =
     (case ev of
        LandingUpload f \<Rightarrow> set_mode IMAGE (handleFileUpload f e)
      | StartCamera \<Rightarrow> set_mode CAMERA e
      | GoProfile \<Rightarrow> set_mode PROFILE e
      | GoAuth \<Rightarrow> set_mode AUTH e
      | ToggleDark \<Rightarrow> e\<lparr>ed_dark := \<not> ed_dark e\<rparr>
      | AuthSubmit now form \<Rightarrow> authSubmit fits now form e
      | AuthCancel \<Rightarrow> set_mode LANDING e
      | ProfileLogout \<Rightarrow> profileLogout e
      | ProfileBack \<Rightarrow> set_mode LANDING e
      | GoLanding \<Rightarrow> set_mode LANDING e
      | SelectTab t \<Rightarrow> e\<lparr>ed_app := (ed_app e)\<lparr>activeTab := t\<rparr>\<rparr>
      | PrintLayer c \<Rightarrow> editor_print c e
      | ToggleRecording ok \<Rightarrow> toggleRecording ok e
      | OpenExport \<Rightarrow> e\<lparr>ed_export := True\<rparr>
      | ChangeSource f \<Rightarrow> handleFileUpload f e
      | SwitchCam \<Rightarrow> e\<lparr>ed_app := (ed_app e)\<lparr>facingMode := (if facingMode (ed_app e) = FacingUser
                                                         then FacingEnvironment else FacingUser)\<rparr>\<rparr>
      | SetGlobal p \<Rightarrow> e\<lparr>ed_app := (ed_app e)\<lparr>globalParams := p\<rparr>\<rparr>
      | SetGlitch p \<Rightarrow> e\<lparr>ed_app := (ed_app e)\<lparr>glitchParams := p\<rparr>\<rparr>
      | SetAscii p \<Rightarrow> e\<lparr>ed_app := (ed_app e)\<lparr>asciiParams := p\<rparr>\<rparr>
      | SetHalftone p \<Rightarrow> e\<lparr>ed_app := (ed_app e)\<lparr>halftoneParams := p\<rparr>\<rparr>
      | SetBlend p \<Rightarrow> e\<lparr>ed_app := (ed_app e)\<lparr>blendParams := p\<rparr>\<rparr>
      | SetText p \<Rightarrow> e\<lparr>ed_app := (ed_app e)\<lparr>textParams := p\<rparr>\<rparr>
      | ToggleLayer t \<Rightarrow> e\<lparr>ed_app := (ed_app e)\<lparr>activeLayers := toggle_layer t (activeLayers (ed_app e))\<rparr>\<rparr>
      | Randomize \<Rightarrow> editor_randomize e
      | UploadBlend f \<Rightarrow> handleFileUpload2 f e
      | CaptureLoop ok \<Rightarrow> handleCaptureLoop ok e
      | AIGenerate ok \<Rightarrow> handleAIGenerate ok e
      | SetCaption c \<Rightarrow> e\<lparr>ed_caption := c\<rparr>
      | Download \<Rightarrow> e\<lparr>ed_export := False\<rparr>
      | PublishImage c i now \<Rightarrow> postImage fits c i now e
      | PublishVideo ok \<Rightarrow> postVideo ok e
      | CloseExport \<Rightarrow> e\<lparr>ed_export := False\<rparr>
      | FileRead \<Rightarrow> fileRead e
      | FileRead2 \<Rightarrow> fileRead2 e
      | PlaceholderLoaded \<Rightarrow> placeholderLoaded e
      | CameraDenied \<Rightarrow> set_mode LANDING e
      | CaptureDone url \<Rightarrow> captureDone url e
      | PublishVideoDone d i now \<Rightarrow> postVideoDone fits d i now e
      | AIDone r \<Rightarrow> aiDone r e)"

text \<open>A step: the action must be on screen (or the callback pending); the handler runs,
  then the placeholder effect of the next render.\<close>

definition ui_step :: "(db \<Rightarrow> bool) \<Rightarrow> ui_event \<Rightarrow> editor \<Rightarrow> editor option" where
  "ui_step fits ev e = (if enabled ev e then Some (placeholder_effect (ui_handler fits ev e)) else None)"

fun ui_run :: "(db \<Rightarrow> bool) \<Rightarrow> ui_event list \<Rightarrow> editor \<Rightarrow> editor option" where
  "ui_run fits [] e = Some e"
| "ui_run fits (ev # evs) e = Option.bind (ui_step fits ev e) (ui_run fits evs)"

text \<open>The editor states reachable from a start on any store the storage service can
  reach (\<open>getCurrentUser()\<close> initialises the user, line 83).\<close>

inductive ui_reachable :: "(db \<Rightarrow> bool) \<Rightarrow> editor \<Rightarrow> bool" for fits where
  init: "reachable fits st \<Longrightarrow> ui_reachable fits (initial_editor st s)"
| step: "ui_reachable fits e \<Longrightarrow> ui_step fits ev e = Some e' \<Longrightarrow> ui_reachable fits e'"

text \<open>The invariant of the reachable states: the store is a reachable store of the
  storage service and the user shown is its session user.\<close>

definition ui_inv :: "(db \<Rightarrow> bool) \<Rightarrow> editor \<Rightarrow> bool" where
  "ui_inv fits e \<longleftrightarrow> reachable fits (ed_db e) \<and> ed_user e = getCurrentUser (ed_db e)"

named_theorems editor_frame "handlers that keep the store and the session user"

subsection \<open>Properties\<close>


lemma frame_set_mode [editor_frame]:
  "ed_db (set_mode m e) = ed_db e" "ed_user (set_mode m e) = ed_user e"
  "ed_db (registerUrl u e) = ed_db e" "ed_user (registerUrl u e) = ed_user e"
  by (simp_all add: set_mode_def registerUrl_def)

lemma frame_upload [editor_frame]:
  "ed_db (handleFileUpload f e) = ed_db e" "ed_user (handleFileUpload f e) = ed_user e"
  "ed_db (handleFileUpload2 f e) = ed_db e" "ed_user (handleFileUpload2 f e) = ed_user e"
  "ed_db (fileRead e) = ed_db e" "ed_user (fileRead e) = ed_user e"
  "ed_db (fileRead2 e) = ed_db e" "ed_user (fileRead2 e) = ed_user e"
  by (simp_all add: handleFileUpload_def handleFileUpload2_def fileRead_def fileRead2_def registerUrl_def
                    Let_def split: option.split)

lemma frame_async [editor_frame]:
  "ed_db (handleCaptureLoop ok e) = ed_db e" "ed_user (handleCaptureLoop ok e) = ed_user e"
  "ed_db (captureDone url e) = ed_db e" "ed_user (captureDone url e) = ed_user e"
  "ed_db (toggleRecording ok e) = ed_db e" "ed_user (toggleRecording ok e) = ed_user e"
  "ed_db (handleAIGenerate ok e) = ed_db e" "ed_user (handleAIGenerate ok e) = ed_user e"
  "ed_db (aiDone r e) = ed_db e" "ed_user (aiDone r e) = ed_user e"
  by (simp_all add: handleCaptureLoop_def captureDone_def toggleRecording_def handleAIGenerate_def
                    aiDone_def registerUrl_def Let_def split: option.split)

lemma frame_editor_ops [editor_frame]:
  "ed_db (editor_randomize e) = ed_db e" "ed_user (editor_randomize e) = ed_user e"
  "ed_db (editor_print c e) = ed_db e" "ed_user (editor_print c e) = ed_user e"
  "ed_db (postVideo ok e) = ed_db e" "ed_user (postVideo ok e) = ed_user e"
  "ed_db (placeholderLoaded e) = ed_db e" "ed_user (placeholderLoaded e) = ed_user e"
  "ed_db (placeholder_effect e) = ed_db e" "ed_user (placeholder_effect e) = ed_user e"
  by (simp_all add: editor_randomize_def editor_print_def postVideo_def placeholderLoaded_def set_mode_def
                    placeholder_effect_def registerUrl_def Let_def split: option.split prod.split)

lemma getCurrentUser_posts [simp]: "getCurrentUser (st\<lparr>db_posts := ps\<rparr>) = getCurrentUser st"
  by (simp add: getCurrentUser_def split: option.split)

lemma post_and_open_profile_inv:
  assumes "ui_inv fits e"
  shows "ui_inv fits (post_and_open_profile fits u m c t i now e)"
proof (cases "createPost fits u m (post_caption c) t i now (ed_db e)")
  case (Inr r)
  obtain p st' where r: "r = (p, st')" by (cases r)
  have s: "storage_step fits (CreatePost u m (post_caption c) t i now) (ed_db e) = Inr st'"
    using Inr r by simp
  have "reachable fits st'"
    using reachable.step [OF _ s] assms unfolding ui_inv_def by blast
  moreover obtain k where "st' = (ed_db e)\<lparr>db_posts := take k (p # db_posts (ed_db e))\<rparr>"
    using createPost_db [of fits u m "post_caption c" t i now "ed_db e" p st'] Inr r by blast
  ultimately show ?thesis
    using assms Inr r by (auto simp: ui_inv_def post_and_open_profile_def set_mode_def)
qed (use assms in \<open>simp add: post_and_open_profile_def\<close>)

lemma authSubmit_inv:
  assumes "ui_inv fits e"
  shows "ui_inv fits (authSubmit fits now form e)"
proof -
  obtain form' st' r where h: "handleSubmit fits now form (ed_db e) = (form', st', r)"
    by (metis prod.collapse)
  show ?thesis
  proof (cases r)
    case None
    then show ?thesis using handleSubmit_cases [OF h] h assms by (simp add: authSubmit_def)
  next
    case (Some u)
    have cur: "getCurrentUser st' = Some u" using handleSubmit_current h Some by blast
    have "if af_isLogin form then loginUser (af_username form) (ed_db e) = Inr (u, st')
          else registerUser fits (af_username form) now (ed_db e) = Inr (u, st')"
      using handleSubmit_cases [OF h] Some by auto
    then have s: "storage_step fits (if af_isLogin form then Login (af_username form)
                                     else Register (af_username form) now) (ed_db e) = Inr st'"
      by (simp split: if_splits)
    have "reachable fits st'" using reachable.step [OF _ s] assms unfolding ui_inv_def by blast
    then show ?thesis using cur h Some by (simp add: authSubmit_def ui_inv_def set_mode_def)
  qed
qed

lemma profileLogout_inv:
  assumes "ui_inv fits e"
  shows "ui_inv fits (profileLogout e)"
proof -
  have s: "storage_step fits Logout (ed_db e) = Inr (logoutUser (ed_db e))" by simp
  have "reachable fits (logoutUser (ed_db e))"
    using reachable.step [OF _ s] assms unfolding ui_inv_def by blast
  then show ?thesis
    by (simp add: ui_inv_def profileLogout_def set_mode_def logoutUser_def getCurrentUser_def)
qed

lemma postImage_inv:
  assumes "ui_inv fits e"
  shows "ui_inv fits (postImage fits c i now e)"
proof (cases "ed_user e")
  case None
  then show ?thesis using assms by (simp add: postImage_def ui_inv_def set_mode_def)
next
  case (Some u)
  then show ?thesis using assms post_and_open_profile_inv [OF assms] by (simp add: postImage_def Let_def)
qed

lemma postVideoDone_inv: "ui_inv fits e \<Longrightarrow> ui_inv fits (postVideoDone fits d i now e)"
  using post_and_open_profile_inv [of fits e]
  by (auto simp: postVideoDone_def Let_def ui_inv_def split: option.split prod.split)

lemma ui_handler_inv: "ui_inv fits e \<Longrightarrow> ui_inv fits (ui_handler fits ev e)"
  by (cases ev)
     (simp_all add: ui_handler_def authSubmit_inv profileLogout_inv postImage_inv postVideoDone_inv,
      simp_all add: ui_inv_def editor_frame)

lemma ui_step_inv: "ui_step fits ev e = Some e' \<Longrightarrow> ui_inv fits e \<Longrightarrow> ui_inv fits e'"
  using ui_handler_inv [of fits e ev]
  by (auto simp: ui_step_def ui_inv_def editor_frame split: if_splits)

text \<open>C7: the editor is a faithful client of the storage service: in every reachable
  editor state, for any quota, the store is one the storage service itself can reach
  (so its invariant holds), and the user the editor shows is the store's session user,
  through login, registration, logout and posting in any order and interleaving.\<close>

theorem ui_reachable_session:
  assumes "ui_reachable fits e"
  shows "reachable fits (ed_db e) \<and> ed_user e = getCurrentUser (ed_db e)"
  using assms
proof (induction rule: ui_reachable.induct)
  case (init st s)
  then show ?case by (simp add: initial_editor_def)
next
  case (step e ev e')
  then show ?case using ui_step_inv by (auto simp: ui_inv_def)
qed

text \<open>C10: publishing from the export modal without a user logged in closes the modal and
  opens the Auth screen; nothing is stored.\<close>

theorem postImage_login_required:
  assumes "view e = EditorScreen" "ed_export e" "ed_user e = None"
  shows "ui_step fits (PublishImage c i now) e = Some ((set_mode AUTH e)\<lparr>ed_export := False\<rparr>)"
  using assms
  by (simp add: ui_step_def enabled_def ui_handler_def postImage_def placeholder_effect_def set_mode_def)

text \<open>C9: publishing an image with a user logged in stores the post through
  \<open>createPost\<close> and, when the store accepts it, opens the profile with the new post first
  in the feed, authored by the user and captioned with the modal's caption or
  \<open>UNTITLED SIGNAL\<close>.\<close>

theorem postImage_publishes:
  assumes "view e = EditorScreen" "ed_export e" "ed_user e = Some u" "activeTab (ed_app e) \<noteq> AI" "c \<noteq> []"
    and "createPost fits u c (post_caption (ed_caption e)) PostImage i now (ed_db e) = Inr (p, st')"
  shows "ui_step fits (PublishImage c i now) e = Some ((set_mode PROFILE e)\<lparr>ed_db := st', ed_export := False\<rparr>)
         \<and> hd (getPosts st') = p \<and> post_username p = username u \<and> caption p = post_caption (ed_caption e)"
proof -
  obtain k where k: "k \<in> {5, 15}" "st' = (ed_db e)\<lparr>db_posts := take k (p # db_posts (ed_db e))\<rparr>"
    using createPost_db [OF assms(6)] by blast
  have "post_username p = username u \<and> caption p = post_caption (ed_caption e)"
    using assms(6) by (auto simp: createPost_cases split: if_splits)
  moreover have "hd (getPosts st') = p" using k by (auto simp: getPosts_def)
  moreover have "postImage fits c i now e = (set_mode PROFILE e)\<lparr>ed_db := st', ed_export := False\<rparr>"
    using assms by (auto simp: postImage_def post_and_open_profile_def Let_def split: option.split)
  ultimately show ?thesis
    using assms(1,2)
    by (simp add: ui_step_def enabled_def ui_handler_def placeholder_effect_def set_mode_def)
qed

text \<open>C20: when a captured 3-second loop finishes, it becomes the source (its object URL
  registered for revocation), the editor is on the manual tab of image mode, and the
  render loop runs, since the source is a video.\<close>

theorem captureDone_loops:
  assumes "ui_step fits (CaptureDone url) e = Some e'"
  shows "shouldLoop (ed_app e') \<and> activeTab (ed_app e') = MANUAL \<and> ed_imageSrc e' = Some url
         \<and> url \<in> set (ed_urls e')"
  using assms
  by (auto simp: ui_step_def ui_handler_def captureDone_def registerUrl_def placeholder_effect_def
                 shouldLoop_def Let_def split: if_splits)

text \<open>Every state a run reaches from a reachable state is reachable.\<close>

lemma ui_run_reachable: "ui_run fits evs e = Some e' \<Longrightarrow> ui_reachable fits e \<Longrightarrow> ui_reachable fits e'"
proof (induction evs arbitrary: e)
  case (Cons ev evs)
  then obtain e1 where "ui_step fits ev e = Some e1" "ui_run fits evs e1 = Some e'"
    by (auto split: Option.bind_splits)
  then show ?case using Cons ui_reachable.step by blast
qed simp

text \<open>C18: the video post's recorder callback (lines 654--672) posts with the user and
  caption its closure captured when Publish was pressed, and then opens the profile,
  whatever happened meanwhile.  In every state with a recording in flight and no user
  logged in (the user logged out during the three seconds) the callback stores the
  post under the captured user, first in the feed, and leaves the app in \<open>PROFILE\<close>
  mode without a user, which renders the editor.\<close>

theorem video_post_after_logout:
  assumes "ed_pendingPost e = Some (u, c)" "ed_user e = None"
    and "createPost fits u d (post_caption c) PostVideo i now (ed_db e) = Inr (p, st')"
  shows "\<exists>e'. ui_step fits (PublishVideoDone (Some d) i now) e = Some e'
           \<and> appMode (ed_app e') = PROFILE \<and> ed_user e' = None \<and> view e' = EditorScreen
           \<and> ed_db e' = st' \<and> hd (getPosts st') = p \<and> post_username p = username u"
proof -
  obtain k where "st' = (ed_db e)\<lparr>db_posts := take k (p # db_posts (ed_db e))\<rparr>" "k \<in> {5, 15}"
    using createPost_db [OF assms(3)] by blast
  then have "hd (getPosts st') = p" by (auto simp: getPosts_def)
  moreover have "post_username p = username u"
    using assms(3) by (auto simp: createPost_cases split: if_splits)
  ultimately show ?thesis
    using assms
    by (simp add: ui_step_def enabled_def ui_handler_def postVideoDone_def post_and_open_profile_def
                  placeholder_effect_def set_mode_def view_def)
qed

text \<open>C19: uploading an image from the landing page (lines 847--850) switches to image
  mode while there is no source yet, so the placeholder effect (lines 173--185) starts
  loading too.  From every landing state without a source, the outcome depends on which
  load finishes last: if the placeholder arrives after the file, it replaces the upload
  as the source; in the other order the upload is kept.\<close>

theorem placeholder_replaces_upload:
  assumes "view e = LandingScreen" "ed_imageSrc e = None" "\<not> prefix ''video/'' (f_type f)"
  shows "(\<exists>e'. ui_run fits [LandingUpload (Some f), FileRead, PlaceholderLoaded] e = Some e'
            \<and> ed_imageSrc e' = Some PLACEHOLDER_URL \<and> ed_original e' = Some PLACEHOLDER_URL)
         \<and> (\<exists>e'. ui_run fits [LandingUpload (Some f), PlaceholderLoaded, FileRead] e = Some e'
            \<and> ed_imageSrc e' = Some (f_data f) \<and> ed_original e' = Some (f_data f))"
  using assms
  by (simp add: ui_step_def enabled_def ui_handler_def handleFileUpload_def fileRead_def placeholderLoaded_def
                placeholder_effect_def set_mode_def view_def)

subsection \<open>Witnesses\<close>

theorem ui_reachable_session_witness:
  "ui_reachable (\<lambda>_. True) (initial_editor empty_db (sconst 0))
   \<and> reachable (\<lambda>_. True) (ed_db (initial_editor empty_db (sconst 0)))
   \<and> ed_user (initial_editor empty_db (sconst 0)) = getCurrentUser (ed_db (initial_editor empty_db (sconst 0)))"
proof -
  have r: "ui_reachable (\<lambda>_. True) (initial_editor empty_db (sconst 0))"
    by (rule ui_reachable.init [OF reachable.init])
  show ?thesis using ui_reachable_session [OF r] r by simp
qed

theorem postImage_login_required_witness:
  "ui_step (\<lambda>_. True) (PublishImage ''data:image/png;base64,AA'' ''p1'' 0)
     ((set_mode CAMERA (initial_editor empty_db (sconst 0)))\<lparr>ed_export := True\<rparr>)
   = Some ((set_mode AUTH ((set_mode CAMERA (initial_editor empty_db (sconst 0)))\<lparr>ed_export := True\<rparr>))\<lparr>ed_export := False\<rparr>)"
proof -
  have h: "view ((set_mode CAMERA (initial_editor empty_db (sconst 0)))\<lparr>ed_export := True\<rparr>) = EditorScreen"
          "ed_export ((set_mode CAMERA (initial_editor empty_db (sconst 0)))\<lparr>ed_export := True\<rparr>)"
          "ed_user ((set_mode CAMERA (initial_editor empty_db (sconst 0)))\<lparr>ed_export := True\<rparr>) = None"
    by (simp_all add: view_def set_mode_def initial_editor_def getCurrentUser_def empty_db_def)
  show ?thesis using postImage_login_required [OF h] .
qed

theorem postImage_publishes_witness:
  "\<exists>p st'. ui_step (\<lambda>_. True) (PublishImage ''data:image/png;base64,AA'' ''p1'' 0)
     ((set_mode CAMERA (initial_editor \<lparr>db_users = [\<lparr>username = ''Alice'', joinedAt = ''t0'', avatar = None\<rparr>],
                                         db_posts = [], db_current = Some ''Alice''\<rparr> (sconst 0)))\<lparr>ed_export := True\<rparr>)
     = Some ((set_mode PROFILE ((set_mode CAMERA (initial_editor \<lparr>db_users = [\<lparr>username = ''Alice'', joinedAt = ''t0'', avatar = None\<rparr>],
                                         db_posts = [], db_current = Some ''Alice''\<rparr> (sconst 0)))\<lparr>ed_export := True\<rparr>))\<lparr>ed_db := st', ed_export := False\<rparr>)
   \<and> hd (getPosts st') = p \<and> post_username p = ''Alice'' \<and> caption p = ''UNTITLED SIGNAL''"
proof -
  let ?e = "(set_mode CAMERA (initial_editor \<lparr>db_users = [\<lparr>username = ''Alice'', joinedAt = ''t0'', avatar = None\<rparr>],
                                         db_posts = [], db_current = Some ''Alice''\<rparr> (sconst 0)))\<lparr>ed_export := True\<rparr>"
  have u: "getCurrentUser \<lparr>db_users = [\<lparr>username = ''Alice'', joinedAt = ''t0'', avatar = None\<rparr>],
                            db_posts = [], db_current = Some ''Alice''\<rparr>
           = Some \<lparr>username = ''Alice'', joinedAt = ''t0'', avatar = None\<rparr>" by code_simp
  have h: "view ?e = EditorScreen" "ed_export ?e" "ed_user ?e = Some \<lparr>username = ''Alice'', joinedAt = ''t0'', avatar = None\<rparr>"
          "activeTab (ed_app ?e) \<noteq> AI" "''data:image/png;base64,AA'' \<noteq> []"
    using u by (simp_all add: view_def set_mode_def initial_editor_def initial_state_def)
  obtain p st' where c: "createPost (\<lambda>_. True) \<lparr>username = ''Alice'', joinedAt = ''t0'', avatar = None\<rparr>
        ''data:image/png;base64,AA'' (post_caption (ed_caption ?e)) PostImage ''p1'' 0 (ed_db ?e) = Inr (p, st')"
    by (simp add: createPost_cases)
  have "caption p = post_caption (ed_caption ?e)" using postImage_publishes [OF h c] by blast
  then have "caption p = ''UNTITLED SIGNAL''" by (simp add: post_caption_def set_mode_def initial_editor_def)
  then show ?thesis using postImage_publishes [OF h c] by auto
qed

theorem captureDone_loops_witness:
  "\<exists>e'. ui_step (\<lambda>_. True) (CaptureDone ''blob:2'') ((initial_editor empty_db (sconst 0))\<lparr>ed_capturing := True\<rparr>) = Some e'
     \<and> shouldLoop (ed_app e') \<and> activeTab (ed_app e') = MANUAL \<and> ed_imageSrc e' = Some ''blob:2''
     \<and> ''blob:2'' \<in> set (ed_urls e')"
proof -
  obtain e' where s: "ui_step (\<lambda>_. True) (CaptureDone ''blob:2'') ((initial_editor empty_db (sconst 0))\<lparr>ed_capturing := True\<rparr>) = Some e'"
    by (simp add: ui_step_def enabled_def)
  show ?thesis using captureDone_loops [OF s] s by blast
qed


text \<open>A concrete run computed by evaluation: from the store where Alice has registered,
  start a video post, close the modal, go to the profile and log out while the
  recording runs.\<close>

lemma some_case_ex: "(case x of None \<Rightarrow> False | Some y \<Rightarrow> P y) \<Longrightarrow> \<exists>y. x = Some y \<and> P y"
  by (cases x) auto

lemma run_logout_during_video_post:
  "case ui_run (\<lambda>_. True)
          [StartCamera, OpenExport, PublishVideo True, CloseExport, GoLanding, GoProfile, ProfileLogout]
          (initial_editor \<lparr>db_users = [\<lparr>username = ''Alice'', joinedAt = ''t0'', avatar = Some ''https://api.dicebear.com/7.x/shapes/svg?seed=Alice''\<rparr>], db_posts = [], db_current = Some ''Alice''\<rparr> s) of
     None \<Rightarrow> False
   | Some e \<Rightarrow> ed_pendingPost e = Some (\<lparr>username = ''Alice'', joinedAt = ''t0'',
                  avatar = Some ''https://api.dicebear.com/7.x/shapes/svg?seed=Alice''\<rparr>, []) \<and> ed_user e = None"
  by code_simp

theorem video_post_after_logout_witness:
  "\<exists>e e'. ui_run (\<lambda>_. True)
          [StartCamera, OpenExport, PublishVideo True, CloseExport, GoLanding, GoProfile, ProfileLogout]
          (initial_editor \<lparr>db_users = [\<lparr>username = ''Alice'', joinedAt = ''t0'', avatar = Some ''https://api.dicebear.com/7.x/shapes/svg?seed=Alice''\<rparr>], db_posts = [], db_current = Some ''Alice''\<rparr> (sconst 0)) = Some e
     \<and> ui_reachable (\<lambda>_. True) e
     \<and> ui_step (\<lambda>_. True) (PublishVideoDone (Some ''data:video/webm;base64,AA'') ''p1'' 0) e = Some e'
     \<and> appMode (ed_app e') = PROFILE \<and> ed_user e' = None \<and> view e' = EditorScreen
     \<and> post_username (hd (getPosts (ed_db e'))) = ''Alice''"
proof -
  let ?alice = "\<lparr>username = ''Alice'', joinedAt = ''t0'', avatar = Some ''https://api.dicebear.com/7.x/shapes/svg?seed=Alice''\<rparr>"
  obtain e where r: "ui_run (\<lambda>_. True)
          [StartCamera, OpenExport, PublishVideo True, CloseExport, GoLanding, GoProfile, ProfileLogout]
          (initial_editor \<lparr>db_users = [\<lparr>username = ''Alice'', joinedAt = ''t0'', avatar = Some ''https://api.dicebear.com/7.x/shapes/svg?seed=Alice''\<rparr>], db_posts = [], db_current = Some ''Alice''\<rparr> (sconst 0)) = Some e"
    and h: "ed_pendingPost e = Some (?alice, [])" "ed_user e = None"
    using some_case_ex [OF run_logout_during_video_post [of "sconst 0"]] by blast
  have "storage_step (\<lambda>_. True) (Register ''Alice'' ''t0'') empty_db = Inr \<lparr>db_users = [\<lparr>username = ''Alice'', joinedAt = ''t0'', avatar = Some ''https://api.dicebear.com/7.x/shapes/svg?seed=Alice''\<rparr>], db_posts = [], db_current = Some ''Alice''\<rparr>"
    using register_alice by simp
  then have "reachable (\<lambda>_. True) \<lparr>db_users = [\<lparr>username = ''Alice'', joinedAt = ''t0'', avatar = Some ''https://api.dicebear.com/7.x/shapes/svg?seed=Alice''\<rparr>], db_posts = [], db_current = Some ''Alice''\<rparr>"
    by (rule reachable.step [OF reachable.init])
  then have reach: "ui_reachable (\<lambda>_. True) e"
    using ui_run_reachable [OF r ui_reachable.init] by blast
  obtain p st' where c: "createPost (\<lambda>_. True) ?alice ''data:video/webm;base64,AA'' (post_caption []) PostVideo
                          ''p1'' 0 (ed_db e) = Inr (p, st')"
    by (simp add: createPost_cases)
  show ?thesis using video_post_after_logout [OF h c] r reach by auto
qed

theorem placeholder_replaces_upload_witness:
  "(\<exists>e'. ui_run (\<lambda>_. True)
          [LandingUpload (Some \<lparr>f_type = ''image/png'', f_url = ''blob:1'', f_data = ''data:image/png;base64,AA''\<rparr>),
           FileRead, PlaceholderLoaded] (initial_editor empty_db (sconst 0)) = Some e'
     \<and> ed_imageSrc e' = Some PLACEHOLDER_URL \<and> ed_original e' = Some PLACEHOLDER_URL)
   \<and> (\<exists>e'. ui_run (\<lambda>_. True)
          [LandingUpload (Some \<lparr>f_type = ''image/png'', f_url = ''blob:1'', f_data = ''data:image/png;base64,AA''\<rparr>),
           PlaceholderLoaded, FileRead] (initial_editor empty_db (sconst 0)) = Some e'
     \<and> ed_imageSrc e' = Some ''data:image/png;base64,AA'' \<and> ed_original e' = Some ''data:image/png;base64,AA'')"
proof -
  have h: "view (initial_editor empty_db (sconst 0)) = LandingScreen"
          "ed_imageSrc (initial_editor empty_db (sconst 0)) = None"
          "\<not> prefix ''video/'' (f_type \<lparr>f_type = ''image/png'', f_url = ''blob:1'', f_data = ''data:image/png;base64,AA''\<rparr>)"
    by (simp_all add: view_def initial_editor_def initial_state_def)
  show ?thesis using placeholder_replaces_upload [OF h, of "\<lambda>_. True"] by simp
qed

end
