(* ===== verification/Timeline.thy ===== *)
theory Timeline
  imports Prelude
begin

text \<open>
  The time label of the video timeline, \<open>formatTime\<close> in \<open>src/components/Timeline.tsx\<close>
  (lines 11--16): minutes, seconds and hundredths, each printed with \<open>toString()\<close> and
  padded to two digits.  For a non-negative time it equals the reference printer
  \<open>clock\<close> applied to the whole number of hundredths, which is how the label reads:
  the time truncated to hundredths, as \<open>mm:ss.cc\<close> (minutes not wrapped at 60).
\<close>

definition formatTime :: "real \<Rightarrow> string" where
  "formatTime seconds =
     (let m = \<lfloor>seconds / 60\<rfloor>;
          s = \<lfloor>js_fmod seconds 60\<rfloor>;
          ms = \<lfloor>js_fmod seconds 1 * 100\<rfloor>
      in padStart 2 CHR ''0'' (string_of_int m) @ '':'' @ padStart 2 CHR ''0'' (string_of_int s)
         @ ''.'' @ padStart 2 CHR ''0'' (string_of_int ms))"

text \<open>The reference: a count of hundredths of a second printed as \<open>mm:ss.cc\<close>.\<close>

definition clock :: "nat \<Rightarrow> string" where
  "clock cs = padStart 2 CHR ''0'' (string_of_nat (cs div 6000)) @ '':''
              @ padStart 2 CHR ''0'' (string_of_nat (cs div 100 mod 60)) @ ''.''
              @ padStart 2 CHR ''0'' (string_of_nat (cs mod 100))"

text \<open>The three fields of \<open>formatTime\<close> are digits of the count of hundredths.\<close>

lemma centiseconds:
  assumes "0 \<le> x"
  shows "\<lfloor>x / 60\<rfloor> = \<lfloor>x * 100\<rfloor> div 6000"
    and "\<lfloor>js_fmod x 60\<rfloor> = \<lfloor>x * 100\<rfloor> div 100 mod 60"
    and "\<lfloor>js_fmod x 1 * 100\<rfloor> = \<lfloor>x * 100\<rfloor> mod 100"
proof -
  have f100: "\<lfloor>x\<rfloor> = \<lfloor>x * 100\<rfloor> div 100"
    using floor_divide_real_eq_div [of 100 "x * 100"] by simp
  show "\<lfloor>x / 60\<rfloor> = \<lfloor>x * 100\<rfloor> div 6000"
    using floor_divide_real_eq_div [of 6000 "x * 100"] by simp
  have "\<lfloor>x / 60\<rfloor> = \<lfloor>x\<rfloor> div 60"
    using floor_divide_real_eq_div [of 60 x] by simp
  then have "\<lfloor>js_fmod x 60\<rfloor> = \<lfloor>x\<rfloor> - 60 * (\<lfloor>x\<rfloor> div 60)"
    using assms floor_diff_of_int [of x "60 * \<lfloor>x / 60\<rfloor>"] by (simp add: js_fmod_def)
  then show "\<lfloor>js_fmod x 60\<rfloor> = \<lfloor>x * 100\<rfloor> div 100 mod 60"
    by (simp add: f100 minus_div_mult_eq_mod [symmetric] mult.commute)
  have "js_fmod x 1 * 100 = x * 100 - of_int (100 * \<lfloor>x\<rfloor>)"
    using assms by (simp add: js_fmod_def algebra_simps)
  then show "\<lfloor>js_fmod x 1 * 100\<rfloor> = \<lfloor>x * 100\<rfloor> mod 100"
    by (simp only: floor_diff_of_int f100) (simp add: minus_div_mult_eq_mod [symmetric] mult.commute)
qed

lemma formatTime_centiseconds:
  assumes "0 \<le> x"
  shows "formatTime x = clock (nat \<lfloor>x * 100\<rfloor>)"
proof -
  define c where "c = \<lfloor>x * 100\<rfloor>"
  have c: "0 \<le> c" using assms by (simp add: c_def)
  have "string_of_int (c div 6000) = string_of_nat (nat c div 6000)"
    and "string_of_int (c div 100 mod 60) = string_of_nat (nat c div 100 mod 60)"
    and "string_of_int (c mod 100) = string_of_nat (nat c mod 100)"
    using c by (simp_all add: string_of_int_nonneg nat_div_distrib nat_mod_distrib)
  then show ?thesis
    using centiseconds [OF assms, folded c_def]
    by (simp add: formatTime_def clock_def Let_def c_def [symmetric])
qed

text \<open>C8: for every non-negative time, \<open>formatTime\<close> prints the same label as the
  reference printer \<open>clock\<close> on the whole number of hundredths of a second: the label is
  the time truncated to hundredths.\<close>

theorem formatTime_clock:
  assumes "0 \<le> x"
  shows "formatTime x = clock (nat \<lfloor>x * 100\<rfloor>)"
  using formatTime_centiseconds [OF assms] .

text \<open>Up to 99 minutes the label has the fixed width \<open>mm:ss.cc\<close>.\<close>

lemma length_string_of_nat_lt_100:
  assumes "n < 100"
  shows "length (string_of_nat n) \<le> 2"
proof (cases "n < 10")
  case False
  then have "n div 10 < 10" using assms by simp
  then show ?thesis using False by (simp add: string_of_nat.simps [of n] string_of_nat.simps [of "n div 10"])
qed (simp add: string_of_nat.simps)

lemma length_clock: "cs < 600000 \<Longrightarrow> length (clock cs) = 8"
  using length_string_of_nat_lt_100 [of "cs div 6000"] length_string_of_nat_lt_100 [of "cs div 100 mod 60"]
        length_string_of_nat_lt_100 [of "cs mod 100"]
  by (simp add: clock_def padStart_def)

subsection \<open>Witnesses\<close>

theorem formatTime_clock_witness:
  "0 \<le> (75.5 :: real) \<and> formatTime 75.5 = ''01:15.50''"
proof -
  have "clock 7550 = ''01:15.50''" by code_simp
  then show ?thesis using formatTime_clock [of "75.5"] by simp
qed

end
