(* ===== verification/Spec2Isabelle.thy ===== *)
theory Spec2Isabelle
  imports Params Threshold Glitch Blend Chroma Profile Pipeline Editor Timeline
begin

text \<open>
  \<^bold>\<open>A verification library for the SCREEN_ frame pipeline.\<close>

  The program (a React/TypeScript web app) runs every frame of a camera, video or
  still image through a fixed chain of pixel passes over the RGBA bytes of a canvas
  (\<open>renderCanvas\<close> in \<open>src/App.tsx\<close>): the base frame is drawn, the silhouette
  threshold runs when \<open>globalParams.threshold > 0\<close>, then, each gated by its layer
  flag, blend, text, glitch, halftone and ASCII.  The passes live in
  \<open>src/utils/glitchAlgorithms.ts\<close> (threshold, the four glitch passes,
  \<open>processImage\<close>, and the blend modes), \<open>src/utils/chromaKeyAlgorithms.ts\<close>
  (chroma key, ASCII, halftone) and \<open>src/utils/textRenderer.ts\<close>; posts and users
  live in \<open>src/utils/storage.ts\<close>.

  \<^bold>\<open>Theories.\<close>
  \<^item> \<open>Prelude\<close>: the byte buffer (\<open>8 word list\<close>, a \<open>Uint8ClampedArray\<close>), the
    store conversion \<open>to_u8\<close> (\<open>ToUint8Clamp\<close>: clamp, round half to even), JavaScript's
    truncating \<open>%\<close> (\<open>js_rem\<close>), the 32-bit shifts \<open>>>>\<close> and \<open><<\<close> (\<open>ushr32\<close>,
    \<open>shl32\<close>), \<open>Math.random()\<close> as a stream of 52-bit draws (\<open>rnd\<close>, \<open>randomInt\<close>),
    the RGBA view of a buffer (\<open>pixels\<close>/\<open>flat\<close>, a round trip), the byte-offset loop
    \<open>for (i = 0; i < len; i += 4)\<close> (\<open>byte_offsets\<close>), \<open>TypedArray.set\<close> with its
    \<open>RangeError\<close> (\<open>ta_set\<close>), \<open>subarray\<close>, and the loop that may throw (\<open>foldE\<close>).
    Its main lemma, \<open>fold_pixel_map\<close>, turns every loop whose body rewrites only its own
    pixel into a map over the pixels; each stage's refinement proof is an instance.
  \<^item> \<open>Params\<close>: the parameter records and enumerations of \<open>types.ts\<close>.
  \<^item> \<open>Threshold\<close>: \<open>applyThreshold\<close>, its per-pixel reference, binary output and
    idempotence.
  \<^item> \<open>Glitch_Shift\<close>: \<open>applyRGBShift\<close> (refinement to a per-row wrap-around shift
    of the red channel, with exact 32-bit index arithmetic on buffers below \<open>2^31\<close>
    bytes) and \<open>applyBlockShift\<close> (the block drawing, the guarded row move, no
    exception for any random stream, blocks inside the frame for frames of at least
    10 by 50 pixels, and frames narrower than 9 pixels, where a ninth of the draws puts the block outside).
  \<^item> \<open>Pixel_Sort\<close>: \<open>applyPixelSort\<close> (one row: the stable sort of its pixels by
    \<open>R + G + B\<close>, other rows kept; the pass: no exception, every row permuted).
  \<^item> \<open>Scanlines\<close>: \<open>applyScanlines\<close> (rows off the \<open>lineSkip\<close> grid and alpha bytes
    untouched; a processed pixel without noise is darkened by \<open>factor\<close>).
  \<^item> \<open>Glitch\<close>: \<open>processImage\<close>, the four passes in order behind \<open>getImageData\<close>
    (no exception on a non-empty frame, \<open>IndexSizeError\<close> on an empty one, identity
    at neutral parameters).
  \<^item> \<open>Blend\<close>: \<open>renderBlend\<close> and its four modes.  Displacement: every pixel is kept
    or takes the colour of a snapshot pixel at most \<open>ceil(2 * scale)\<close> columns and
    rows away (proved through \<open>fold_pixel_rel\<close>, the pixel-loop lemma for loops that
    also draw random numbers).  Difference at \<open>mix = 100\<close>: \<open>|A - B|\<close> per channel.
    Hard mix at \<open>mix = 100\<close>: channels 0 or 255.  Interlace: the byte-level
    characterisation by band parity.  No second source: unchanged, but the canvas is
    read first, so a zero-sized frame throws.
  \<^item> \<open>Chroma\<close>: \<open>hexToRgb\<close> (round trip with the \<open>#rrggbb\<close> printer \<open>hex2\<close>, byte
    bounds of every result) and \<open>applyChromaKey\<close> (the loop is the per-pixel key
    decision \<open>chroma_px\<close>; the key colour becomes transparent; far colours are kept;
    inside the smoothing band the alpha ramp stays below its edge value \<open>R / (T + sqrt(T^2 + R^2))\<close>).
  \<^item> \<open>Storage\<close>: the storage service of \<open>src/utils/storage.ts\<close> as a state machine over
    the three \<open>localStorage\<close> entries (record \<open>db\<close>), one definition per exported
    function, the browser quota as a parameter \<open>fits\<close>; \<open>reachable\<close> (inductive, from
    the empty store) and the invariant \<open>db_inv\<close> by rule induction; login, register
    and session round trips; the error paths of \<open>registerUser\<close> and \<open>createPost\<close>.
  \<^item> \<open>Profile\<close>: the \<open>Auth\<close> form's submit handler and the profile's post list and
    download name (\<open>src/components/Profile.tsx\<close>), composed with \<open>Storage\<close>.

  \<^item> \<open>Canvas\<close>: the browser's \<open>CanvasRenderingContext2D\<close> as a datatype \<open>cmd\<close> of the
    drawing calls the layers make and an interpreter \<open>exec\<close> over a record \<open>ctx2d\<close>
    (fill, font, baseline, alignment, transform, the \<open>save()\<close>/\<open>restore()\<close> stack, the
    path, and every glyph or shape drawn with the drawing state in force).  It is the
    interface between the command-producing layers and the orchestrator.
  \<^item> \<open>Text\<close>: \<open>renderText\<close> (\<open>src/utils/textRenderer.ts\<close>) as its commands; their
    effect on a context, exactly.
  \<^item> \<open>Ascii\<close>: \<open>renderAscii\<close> (\<open>chromaKeyAlgorithms.ts\<close> lines 74--164): the glyph
    ramps, the contrast curve, the ramp index (always in range, antitone in the
    luminance), the glyph count \<open>cols * rows\<close>, and the colours outside colour mode.
  \<^item> \<open>Halftone\<close>: \<open>renderHalftone\<close> (lines 165--248).  The loops
    \<open>for (v = -extra; v < limit; v += step)\<close> are the partial function \<open>grid_axis\<close>
    (\<open>partial_function (option)\<close>: \<open>None\<close> is a loop that does not end).  With a
    positive radius it has a closed form and the layer returns; with radius \<open>\<le> 0\<close> it
    does not return.  The commands restore the transform and the save stack.
  \<^item> \<open>Pipeline\<close>: \<open>src/App.tsx\<close>: the defaults, the React state as the record
    \<open>app_state\<close>, \<open>renderCanvas\<close> as the composition of the stage models in the order
    and under the flags of the source, the loop condition, \<open>handleRandomize\<close> (the
    draws in source order), \<open>handlePrintLayer\<close>, and the slider ranges of
    \<open>src/components/Timeline.tsx\<close>.  What the browser draws (the base frame with its
    filters and transform, the second source, the rasterised commands, the downscaled
    copy) is the record \<open>browser\<close>, an input.  Main results: the pipeline returns a
    frame of the right size without an exception on every non-empty frame, for every
    layer combination and random stream (\<open>renderCanvas_ok\<close>); a capped frame with a
    zero side throws instead of being skipped; the output is at most 2048 pixels on a
    side; \<open>handleRandomize\<close> sets the saturation from one draw, and every such draw
    above 5/6 leaves the slider ranges.
  \<^item> \<open>Editor\<close>: the application shell of \<open>src/App.tsx\<close> as a state machine.  The
    React state and refs of \<open>App\<close> are the record \<open>editor\<close> (the pipeline state
    \<open>app_state\<close>, the user, the \<open>localStorage\<close> store \<open>db\<close> of \<open>Storage\<close>, the sources,
    the flags of the recorder, the export modal and the AI panel); the screen the
    render chooses is \<open>view\<close>; each handler (\<open>handleFileUpload\<close>,
    \<open>handleCaptureLoop\<close>, \<open>toggleRecording\<close>, \<open>postImage\<close>, \<open>postVideo\<close>,
    \<open>handleAIGenerate\<close>, the Auth and Profile callbacks, the placeholder effect) is
    a definition; a user action or a finished browser callback is an event of
    \<open>ui_event\<close>, allowed when its control is on screen (\<open>enabled\<close>) and applied by
    \<open>ui_step\<close>.  Asynchronous work (file reads, image loads, recordings, the AI
    request) is split into the call and its callback, which may run after any other
    event, with the values its closure captured.  Main results: in every reachable
    state the store is reachable from the empty store and the shown user is the
    store's session (\<open>ui_reachable_session\<close>, by rule induction, using \<open>Profile\<close> and
    \<open>Storage\<close>); posting without a user opens the Auth screen, with a user it stores
    the post first in the feed.  Two race properties hold in every state: the
    video post's callback posts under the user its closure captured and opens the
    profile even after a logout, and the placeholder load replaces an upload when it
    finishes after the file is read (\<open>ui_run_reachable\<close> places the witness of the
    first in a reachable state).
  \<^item> \<open>Timeline\<close>: \<open>formatTime\<close> of \<open>src/components/Timeline.tsx\<close> equals the reference
    printer \<open>clock\<close> of the whole number of hundredths, for every non-negative time,
    and its label has width 8 below 100 minutes.

  \<^bold>\<open>Modelling choices.\<close>  JavaScript numbers are exact reals (float rounding is not
  modelled); parameters a slider delivers in steps of 1 and that the code uses as an
  index are integers.  Each exception of the source (a \<open>RangeError\<close> of \<open>set\<close>, an
  \<open>IndexSizeError\<close> of \<open>getImageData\<close>) is a value \<open>Inl\<close> of \<open>js_error\<close>.
  \<open>Math.random()\<close> is never assumed to produce a particular stream: every theorem
  holds for all streams, and witnesses use concrete streams.  The layers that draw
  through the canvas API (text, ASCII, halftone) are modelled by the commands they
  issue; rasterisation is the browser's.  The only loops that may not end are the
  halftone grid loops (float steps); they are a partial function, not fuel, so that
  not returning is the value \<open>None\<close> and termination is a theorem.

  \<^bold>\<open>Not modelled.\<close>  The browser's rasterisation (\<open>drawImage\<close> with CSS filters
  and transforms, \<open>fillText\<close>, \<open>arc\<close>, \<open>fill\<close>); the JSX layout and styling of
  the React components (only which controls are on screen is modelled, by
  \<open>enabled\<close>); the internals of \<open>MediaRecorder\<close>, \<open>getUserMedia\<close> and
  \<open>FileReader\<close> (their outcomes are event arguments); the remote AI service
  \<open>generateAIGlitch\<close>, imported from \<open>services/geminiService\<close>, which is not in the
  repository (its answer is the argument of \<open>AIDone\<close>);
  \<open>applyChromaKey\<close> is modelled but no code path of \<open>App.tsx\<close> calls it.
\<close>

end
